theory Spec2Isabelle
  imports Complex_Main "HOL-Library.Sublist"
begin

section \<open>Strings as the Go code uses them\<close>

text \<open>
  Go strings are byte sequences, modelled as \<open>string\<close> (lists of 8-bit characters).
  The functions of package \<open>strings\<close> that the code calls are written out here for
  such byte strings. \<open>strings.ToLower\<close> and \<open>strings.EqualFold\<close> are modelled
  on ASCII: the letters \<open>A\<close> to \<open>Z\<close> (codes 65 to 90) are mapped to \<open>a\<close> to
  \<open>z\<close> by setting the bit of value 32, every other byte is kept. Kubernetes kinds and
  HTTP methods are ASCII identifiers.
\<close>

fun toLowerChar :: "char \<Rightarrow> char" where
  "toLowerChar (Char b0 b1 b2 b3 b4 b5 b6 b7) =
     (let n = (of_char (Char b0 b1 b2 b3 b4 b5 b6 b7) :: nat) in
      if 65 \<le> n \<and> n \<le> 90 then Char b0 b1 b2 b3 b4 True b6 b7
      else Char b0 b1 b2 b3 b4 b5 b6 b7)"

definition ToLower :: "string \<Rightarrow> string" where
  "ToLower s = map toLowerChar s"

text \<open>\<open>strings.HasSuffix(s, suffix)\<close>: \<open>len(s) >= len(suffix) && s[len(s)-len(suffix):] == suffix\<close>.\<close>

definition HasSuffix :: "string \<Rightarrow> string \<Rightarrow> bool" where
  "HasSuffix s suf = (length suf \<le> length s \<and> drop (length s - length suf) s = suf)"

section \<open>Kind to resource-name inference\<close>

text \<open>
  \<open>inferResourceFromKind\<close> of the accurate backend: a \<open>switch\<close> with three cases,
  taken in order. \<open>lower[:len(lower)-1]\<close> is \<open>take (length lower - 1) lower\<close>.
\<close>

definition inferResourceFromKind :: "string \<Rightarrow> string" where
  "inferResourceFromKind kind =
     (let lower = ToLower kind in
      if HasSuffix lower ''y'' \<and> length lower > 1 \<and>
         \<not> HasSuffix lower ''ay'' \<and>
         \<not> HasSuffix lower ''ey'' \<and>
         \<not> HasSuffix lower ''oy''
      then take (length lower - 1) lower @ ''ies''
      else if HasSuffix lower ''s'' \<or> HasSuffix lower ''x'' then lower @ ''es''
      else lower @ ''s'')"

text \<open>
  The rule as the specification words it, for comparison with the code: the lower-cased
  kind, ending in \<open>y\<close> but in none of \<open>ay\<close>, \<open>ey\<close>, \<open>oy\<close>, loses the \<open>y\<close> and
  gets \<open>ies\<close>; else, ending in \<open>s\<close> or \<open>x\<close>, it gets \<open>es\<close>; else it gets \<open>s\<close>.
\<close>

definition inferResourceFromKind_spec :: "string \<Rightarrow> string" where
  "inferResourceFromKind_spec kind =
     (let lower = ToLower kind in
      if suffix ''y'' lower \<and> \<not> suffix ''ay'' lower \<and> \<not> suffix ''ey'' lower \<and> \<not> suffix ''oy'' lower
      then butlast lower @ ''ies''
      else if suffix ''s'' lower \<or> suffix ''x'' lower then lower @ ''es''
      else lower @ ''s'')"

section \<open>More of package strings\<close>

text \<open>\<open>strings.HasPrefix\<close> is \<open>prefix\<close> on lists; \<open>strings.Contains(s, substr)\<close>:\<close>

fun Contains :: "string \<Rightarrow> string \<Rightarrow> bool" where
  "Contains [] substr = (substr = [])"
| "Contains (c # s) substr = (prefix substr (c # s) \<or> Contains s substr)"

text \<open>
  \<open>strings.ReplaceAll(s, old, new)\<close> replaces the non-overlapping occurrences of \<open>old\<close>,
  found from left to right. For an empty \<open>old\<close> Go inserts \<open>new\<close> before every
  character and at the end (the model does so for every byte).
\<close>

fun ReplaceAll :: "string \<Rightarrow> string \<Rightarrow> string \<Rightarrow> string" where
  "ReplaceAll s [] new = new @ concat (map (\<lambda>c. c # new) s)"
| "ReplaceAll [] (a # old) new = []"
| "ReplaceAll (c # s) (a # old) new =
     (if prefix (a # old) (c # s) then new @ ReplaceAll (drop (length old) s) (a # old) new
      else c # ReplaceAll s (a # old) new)"

text \<open>\<open>strings.EqualFold(s, t)\<close>: equality of the two strings up to the case of letters.\<close>

definition EqualFold :: "string \<Rightarrow> string \<Rightarrow> bool" where
  "EqualFold s t = (ToLower s = ToLower t)"

section \<open>Mock HTTP server\<close>

subsection \<open>Requests and responses\<close>

text \<open>
  The handler reads four things of an \<open>*http.Request\<close>: \<open>r.Method\<close>, the two views
  \<open>r.URL.String()\<close> and \<open>r.URL.Path\<close> of the URL, the header map and the body.

  The body is an \<open>io.ReadCloser\<close>: the bytes still to be read and the way in which
  reading them ends, at the end of the data (\<open>None\<close>) or with an error. \<open>io.ReadAll\<close>
  returns the bytes and the error and leaves the reader at its end, where a reader that
  ended with an error gives that error again.
  \<open>io.NopCloser(strings.NewReader(s))\<close> is a reader of \<open>s\<close> that ends without error.
\<close>

datatype ReadCloser = Reader string "string option"

fun ReadAll :: "ReadCloser \<Rightarrow> (string \<times> string option) \<times> ReadCloser" where
  "ReadAll (Reader content err) = ((content, err), Reader [] err)"

definition NewReader :: "string \<Rightarrow> ReadCloser" where
  "NewReader s = Reader s None"

definition NopCloser :: "ReadCloser \<Rightarrow> ReadCloser" where
  "NopCloser rd = rd"

record URL =
  String :: string
  Path :: string

text \<open>
  \<open>http.Header\<close> is a map from canonical header names to lists of values. \<open>Get\<close> and
  \<open>Set\<close> bring the name they are given into canonical form with
  \<open>textproto.CanonicalMIMEHeaderKey\<close>, which is library code and a parameter \<open>canon\<close>
  here; \<open>Get\<close> returns the first value of the name, or the empty string when there is
  none, and \<open>Set\<close> replaces the values of the name by the one given.
\<close>

type_synonym Header = "string \<rightharpoonup> string list"

definition Header_Get :: "(string \<Rightarrow> string) \<Rightarrow> Header \<Rightarrow> string \<Rightarrow> string" where
  "Header_Get canon h key =
     (case h (canon key) of None \<Rightarrow> [] | Some [] \<Rightarrow> [] | Some (v # vs) \<Rightarrow> v)"

definition Header_Set :: "(string \<Rightarrow> string) \<Rightarrow> Header \<Rightarrow> string \<Rightarrow> string \<Rightarrow> Header" where
  "Header_Set canon h key val = h(canon key \<mapsto> [val])"

record Request =
  Method :: string
  URL :: URL
  Header :: Header
  Body :: ReadCloser

text \<open>
  The mocks, as in \<open>types.go\<close>. The two header maps are ranged over by the code; each
  is held as the list of its entries in the order in which the loop visits them.
  \<open>RequestMatcher\<close> is a pointer in the code and an option here.
\<close>

record RequestMatcher =
  Headers :: "(string \<times> string) list"
  BodyPattern :: string

record HTTPResponse =
  Status :: int
  Headers :: "(string \<times> string) list"
  Body :: string

record HTTPCallMock =
  URL :: string
  Method :: string
  RequestMatcher :: "RequestMatcher option"
  Response :: HTTPResponse

text \<open>
  An \<open>http.ResponseWriter\<close> is known to the handler by its three methods. The model
  keeps what they were given: the header map that \<open>Header()\<close> returns, the status
  passed to \<open>WriteHeader\<close> and the bytes passed to \<open>Write\<close>. A second \<open>WriteHeader\<close> is
  ignored and a \<open>Write\<close> with no status yet writes status 200 first, as the interface
  documents; what an implementation does to a status outside 100 to 999 is not part of
  the model.
\<close>

record ResponseWriter =
  Header :: Header
  WrittenStatus :: "int option"
  WrittenBody :: string

definition StatusOK :: int where
  "StatusOK = 200"

definition StatusNotFound :: int where
  "StatusNotFound = 404"

definition WriteHeader :: "ResponseWriter \<Rightarrow> int \<Rightarrow> ResponseWriter" where
  "WriteHeader w statusCode =
     (if WrittenStatus w = None then w\<lparr>WrittenStatus := Some statusCode\<rparr> else w)"

definition Write :: "ResponseWriter \<Rightarrow> string \<Rightarrow> ResponseWriter" where
  "Write w bytes =
     (let w = WriteHeader w StatusOK in w\<lparr>WrittenBody := WrittenBody w @ bytes\<rparr>)"

text \<open>The writer that the server hands to the handler for a request.\<close>

definition newResponseWriter :: ResponseWriter where
  "newResponseWriter = \<lparr>Header = Map.empty, WrittenStatus = None, WrittenBody = []\<rparr>"

subsection \<open>The handler\<close>

text \<open>
  \<open>matches\<close> returns its verdict and the request, whose body it may have read: after a
  successful read the body is replaced by a new reader of the bytes read, after a
  failed read it stays the reader that was read to its end.
\<close>

definition matches :: "(string \<Rightarrow> string) \<Rightarrow> HTTPCallMock \<Rightarrow> Request \<Rightarrow> bool \<times> Request" where
  "matches canon mock r =
     (if HTTPCallMock.Method mock \<noteq> [] \<and>
         \<not> EqualFold (HTTPCallMock.Method mock) (Request.Method r)
      then (False, r)
      else
        let requestURL = String (Request.URL r) in
        if \<not> Contains requestURL (HTTPCallMock.URL mock) \<and>
           \<not> Contains (HTTPCallMock.URL mock) requestURL \<and>
           \<not> Contains (Path (Request.URL r)) (HTTPCallMock.URL mock)
        then (False, r)
        else
          (case RequestMatcher mock of
             None \<Rightarrow> (True, r)
           | Some matcher \<Rightarrow>
               if \<not> list_all (\<lambda>(key, val). Header_Get canon (Request.Header r) key = val)
                      (RequestMatcher.Headers matcher)
               then (False, r)
               else if BodyPattern matcher \<noteq> [] then
                 (case ReadAll (Request.Body r) of
                    ((body, Some err), consumed) \<Rightarrow> (False, r\<lparr>Request.Body := consumed\<rparr>)
                  | ((body, None), consumed) \<Rightarrow>
                      let r = r\<lparr>Request.Body := NopCloser (NewReader body)\<rparr> in
                      if \<not> Contains body (BodyPattern matcher) then (False, r) else (True, r))
               else (True, r)))"

text \<open>The statements of the handler for the mock that matched.\<close>

definition respond :: "(string \<Rightarrow> string) \<Rightarrow> HTTPCallMock \<Rightarrow> ResponseWriter \<Rightarrow> ResponseWriter" where
  "respond canon mock w =
     (let h = fold (\<lambda>(key, val) h. Header_Set canon h key val)
                (HTTPResponse.Headers (Response mock)) (ResponseWriter.Header w);
          h = (if Header_Get canon h ''Content-Type'' = []
               then Header_Set canon h ''Content-Type'' ''application/json'' else h);
          w = w\<lparr>ResponseWriter.Header := h\<rparr>;
          statusCode = Status (Response mock);
          statusCode = (if statusCode = 0 then StatusOK else statusCode);
          w = WriteHeader w statusCode
      in Write w (HTTPResponse.Body (Response mock)))"

definition notFoundBody :: string where
  \<open>notFoundBody = ''{"error": "No mock found for request"}''\<close>

fun handler ::
  "(string \<Rightarrow> string) \<Rightarrow> HTTPCallMock list \<Rightarrow> ResponseWriter \<Rightarrow> Request \<Rightarrow> ResponseWriter \<times> Request" where
  "handler canon [] w r = (Write (WriteHeader w StatusNotFound) notFoundBody, r)"
| "handler canon (mock # mocks) w r =
     (case matches canon mock r of
        (True, r') \<Rightarrow> (respond canon mock w, r')
      | (False, r') \<Rightarrow> handler canon mocks w r')"

text \<open>
  \<open>HTTPMockServer\<close> holds the list of its mocks besides the listening test server, which
  is not modelled; \<open>AddMock\<close> appends to the list.
\<close>

type_synonym HTTPMockServer = "HTTPCallMock list"

definition NewHTTPMockServer :: "HTTPCallMock list \<Rightarrow> HTTPMockServer" where
  "NewHTTPMockServer ms = ms"

definition AddMock :: "HTTPMockServer \<Rightarrow> HTTPCallMock \<Rightarrow> HTTPMockServer" where
  "AddMock s mock = s @ [mock]"

section \<open>The matching test as the specification words it\<close>

text \<open>
  For comparison with \<open>matches\<close>: the method is equal up to case when the mock has one;
  the full URL of the request contains the URL of the mock, or the URL of the mock
  contains the full URL of the request, or the path of the request contains the URL of
  the mock; every header of the request matcher has the given value in the request;
  and when the matcher has a body pattern the body of the request can be read and
  contains it.
\<close>

definition matching :: "(string \<Rightarrow> string) \<Rightarrow> HTTPCallMock \<Rightarrow> Request \<Rightarrow> bool" where
  "matching canon mock r \<longleftrightarrow>
     (HTTPCallMock.Method mock = [] \<or> EqualFold (HTTPCallMock.Method mock) (Request.Method r)) \<and>
     (Contains (String (Request.URL r)) (HTTPCallMock.URL mock) \<or>
      Contains (HTTPCallMock.URL mock) (String (Request.URL r)) \<or>
      Contains (Path (Request.URL r)) (HTTPCallMock.URL mock)) \<and>
     (case RequestMatcher mock of
        None \<Rightarrow> True
      | Some matcher \<Rightarrow>
          list_all (\<lambda>(key, val). Header_Get canon (Request.Header r) key = val)
            (RequestMatcher.Headers matcher) \<and>
          (BodyPattern matcher = [] \<or>
           (case Request.Body r of
              Reader body None \<Rightarrow> Contains body (BodyPattern matcher)
            | Reader body (Some err) \<Rightarrow> False)))"

section \<open>A canonical form of header names, and examples\<close>

text \<open>
  For the examples the parameter \<open>canon\<close> is the function that the documentation of
  \<open>textproto.CanonicalMIMEHeaderKey\<close> describes: the first letter and every letter after
  a hyphen in upper case, the other letters in lower case; a name with a space or with a
  byte that is not allowed in a header name is returned as it is. The allowed bytes are
  the letters, the digits and the fifteen signs of an HTTP token.
\<close>

fun toUpperChar :: "char \<Rightarrow> char" where
  "toUpperChar (Char b0 b1 b2 b3 b4 b5 b6 b7) =
     (let n = (of_char (Char b0 b1 b2 b3 b4 b5 b6 b7) :: nat) in
      if 97 \<le> n \<and> n \<le> 122 then Char b0 b1 b2 b3 b4 False b6 b7
      else Char b0 b1 b2 b3 b4 b5 b6 b7)"

definition validHeaderFieldByte :: "char \<Rightarrow> bool" where
  "validHeaderFieldByte c =
     (let n = (of_char c :: nat) in
      (48 \<le> n \<and> n \<le> 57) \<or> (65 \<le> n \<and> n \<le> 90) \<or> (97 \<le> n \<and> n \<le> 122) \<or>
      c \<in> set ''!#$%&*+-.^_|~'' \<or> c = CHR 0x27 \<or> c = CHR 0x60)"

fun canonicalLetters :: "bool \<Rightarrow> string \<Rightarrow> string" where
  "canonicalLetters upper [] = []"
| "canonicalLetters upper (c # cs) =
     (let c = (if upper then toUpperChar c else toLowerChar c)
      in c # canonicalLetters (c = CHR ''-'') cs)"

definition CanonicalMIMEHeaderKey :: "string \<Rightarrow> string" where
  "CanonicalMIMEHeaderKey s =
     (if list_all validHeaderFieldByte s then canonicalLetters True s else s)"

definition createUserMock :: HTTPCallMock where
  "createUserMock =
     \<lparr>HTTPCallMock.URL = ''/api/users'', HTTPCallMock.Method = ''post'',
      RequestMatcher = Some \<lparr>RequestMatcher.Headers = [(''x-token'', ''abc'')],
                              BodyPattern = ''alice''\<rparr>,
      Response = \<lparr>Status = 201, HTTPResponse.Headers = [(''x-mock'', ''1'')],
                  HTTPResponse.Body = ''created''\<rparr>\<rparr>"

definition anyApiMock :: HTTPCallMock where
  "anyApiMock =
     \<lparr>HTTPCallMock.URL = ''/api'', HTTPCallMock.Method = [], RequestMatcher = None,
      Response = \<lparr>Status = 0, HTTPResponse.Headers = [], HTTPResponse.Body = ''{}''\<rparr>\<rparr>"

definition createUserRequest :: Request where
  "createUserRequest =
     \<lparr>Request.Method = ''POST'',
      Request.URL = \<lparr>String = ''/api/users?dry=1'', Path = ''/api/users''\<rparr>,
      Request.Header = [''X-Token'' \<mapsto> [''abc'']],
      Request.Body = Reader ''name=alice'' None\<rparr>"

definition listItemsRequest :: Request where
  "listItemsRequest =
     \<lparr>Request.Method = ''GET'',
      Request.URL = \<lparr>String = ''/api/items'', Path = ''/api/items''\<rparr>,
      Request.Header = Map.empty,
      Request.Body = Reader [] None\<rparr>"

definition healthRequest :: Request where
  "healthRequest =
     \<lparr>Request.Method = ''GET'',
      Request.URL = \<lparr>String = ''/healthz'', Path = ''/healthz''\<rparr>,
      Request.Header = Map.empty,
      Request.Body = Reader [] None\<rparr>"

section \<open>Test modes and configuration\<close>

text \<open>
  \<open>TestMode\<close> is a Go string type with two named values. \<open>TestConfig\<close> keeps the
  fields that \<open>Validate\<close>, \<open>createBackend\<close> and \<open>Run\<close> read.
\<close>

type_synonym TestMode = string

definition ModeFast :: TestMode where
  "ModeFast = ''fast''"

definition ModeAccurate :: TestMode where
  "ModeAccurate = ''accurate''"

record TestConfig =
  Mode :: TestMode
  PolicyPaths :: "string list"
  ResourcePaths :: "string list"
  CRDPaths :: "string list"
  AutoFallback :: bool

text \<open>\<open>TestConfig.Validate\<close>: \<open>None\<close> is Go's \<open>nil\<close> error, \<open>Some\<close> carries the error text.\<close>

definition Validate :: "TestConfig \<Rightarrow> string option" where
  "Validate c =
     (if TestConfig.Mode c \<noteq> ModeFast \<and> TestConfig.Mode c \<noteq> ModeAccurate
      then Some (''invalid mode: '' @ TestConfig.Mode c)
      else if length (PolicyPaths c) = 0 then Some ''at least one policy path is required''
      else if length (ResourcePaths c) = 0 then Some ''at least one resource path is required''
      else None)"

section \<open>Resources, policies and resource identities\<close>

text \<open>
  Of the Kubernetes and Kyverno API types the code only reads a few fields and
  predicates; each record holds those, under the name of the field or method read.
  A resource is an \<open>unstructured.Unstructured\<close> with its group-version-kind, namespace
  and name. A rule carries its name, the list \<open>MatchResources.GetKinds()\<close> and the four
  predicates \<open>HasValidate()\<close>, \<open>HasMutate()\<close>, \<open>HasGenerate()\<close>,
  \<open>HasVerifyImages()\<close>. A policy carries \<open>GetName()\<close> and \<open>GetSpec().Rules\<close>.
\<close>

record GroupVersionKind =
  Group :: string
  Version :: string
  Kind :: string

record GroupVersionResource =
  Group :: string
  Version :: string
  Resource :: string

record Unstructured =
  GroupVersionKind :: GroupVersionKind
  Namespace :: string
  Name :: string

definition GetKind :: "Unstructured \<Rightarrow> string" where
  "GetKind u = Kind (GroupVersionKind u)"

record Rule =
  Name :: string
  GetKinds :: "string list"
  HasValidate :: bool
  HasMutate :: bool
  HasGenerate :: bool
  HasVerifyImages :: bool

record PolicyInterface =
  GetName :: string
  Rules :: "Rule list"

section \<open>Discovery registry of the fast backend\<close>

record enhancedFakeDiscovery =
  resources :: "GroupVersionResource list"
  gvrToGVK :: "GroupVersionResource \<rightharpoonup> GroupVersionKind"

text \<open>The table \<open>coreResources\<close> of \<open>newEnhancedFakeDiscovery\<close>: group, version, resource, kind.\<close>

definition coreResources :: "(string \<times> string \<times> string \<times> string) list" where
  "coreResources =
    [('''', ''v1'', ''bindings'', ''Binding''),
     ('''', ''v1'', ''componentstatuses'', ''ComponentStatus''),
     ('''', ''v1'', ''configmaps'', ''ConfigMap''),
     ('''', ''v1'', ''endpoints'', ''Endpoints''),
     ('''', ''v1'', ''events'', ''Event''),
     ('''', ''v1'', ''limitranges'', ''LimitRange''),
     ('''', ''v1'', ''namespaces'', ''Namespace''),
     ('''', ''v1'', ''nodes'', ''Node''),
     ('''', ''v1'', ''persistentvolumeclaims'', ''PersistentVolumeClaim''),
     ('''', ''v1'', ''persistentvolumes'', ''PersistentVolume''),
     ('''', ''v1'', ''pods'', ''Pod''),
     ('''', ''v1'', ''replicationcontrollers'', ''ReplicationController''),
     ('''', ''v1'', ''resourcequotas'', ''ResourceQuota''),
     ('''', ''v1'', ''secrets'', ''Secret''),
     ('''', ''v1'', ''serviceaccounts'', ''ServiceAccount''),
     ('''', ''v1'', ''services'', ''Service''),
     (''apps'', ''v1'', ''controllerrevisions'', ''ControllerRevision''),
     (''apps'', ''v1'', ''daemonsets'', ''DaemonSet''),
     (''apps'', ''v1'', ''deployments'', ''Deployment''),
     (''apps'', ''v1'', ''replicasets'', ''ReplicaSet''),
     (''apps'', ''v1'', ''statefulsets'', ''StatefulSet''),
     (''batch'', ''v1'', ''cronjobs'', ''CronJob''),
     (''batch'', ''v1'', ''jobs'', ''Job''),
     (''networking.k8s.io'', ''v1'', ''ingressclasses'', ''IngressClass''),
     (''networking.k8s.io'', ''v1'', ''ingresses'', ''Ingress''),
     (''networking.k8s.io'', ''v1'', ''networkpolicies'', ''NetworkPolicy''),
     (''storage.k8s.io'', ''v1'', ''csidrivers'', ''CSIDriver''),
     (''storage.k8s.io'', ''v1'', ''csinodes'', ''CSINode''),
     (''storage.k8s.io'', ''v1'', ''csistoragecapacities'', ''CSIStorageCapacity''),
     (''storage.k8s.io'', ''v1'', ''storageclasses'', ''StorageClass''),
     (''storage.k8s.io'', ''v1'', ''volumeattachments'', ''VolumeAttachment''),
     (''rbac.authorization.k8s.io'', ''v1'', ''clusterrolebindings'', ''ClusterRoleBinding''),
     (''rbac.authorization.k8s.io'', ''v1'', ''clusterroles'', ''ClusterRole''),
     (''rbac.authorization.k8s.io'', ''v1'', ''rolebindings'', ''RoleBinding''),
     (''rbac.authorization.k8s.io'', ''v1'', ''roles'', ''Role''),
     (''autoscaling'', ''v2'', ''horizontalpodautoscalers'', ''HorizontalPodAutoscaler''),
     (''autoscaling'', ''v1'', ''horizontalpodautoscalers'', ''HorizontalPodAutoscaler''),
     (''policy'', ''v1'', ''poddisruptionbudgets'', ''PodDisruptionBudget''),
     (''certificates.k8s.io'', ''v1'', ''certificatesigningrequests'', ''CertificateSigningRequest''),
     (''coordination.k8s.io'', ''v1'', ''leases'', ''Lease''),
     (''discovery.k8s.io'', ''v1'', ''endpointslices'', ''EndpointSlice''),
     (''node.k8s.io'', ''v1'', ''runtimeclasses'', ''RuntimeClass''),
     (''scheduling.k8s.io'', ''v1'', ''priorityclasses'', ''PriorityClass''),
     (''admissionregistration.k8s.io'', ''v1'', ''mutatingwebhookconfigurations'',
        ''MutatingWebhookConfiguration''),
     (''admissionregistration.k8s.io'', ''v1'', ''validatingwebhookconfigurations'',
        ''ValidatingWebhookConfiguration''),
     (''apiextensions.k8s.io'', ''v1'', ''customresourcedefinitions'', ''CustomResourceDefinition''),
     (''apiregistration.k8s.io'', ''v1'', ''apiservices'', ''APIService''),
     (''events.k8s.io'', ''v1'', ''events'', ''Event''),
     (''flowcontrol.apiserver.k8s.io'', ''v1'', ''flowschemas'', ''FlowSchema''),
     (''flowcontrol.apiserver.k8s.io'', ''v1'', ''prioritylevelconfigurations'',
        ''PriorityLevelConfiguration''),
     (''kyverno.io'', ''v1'', ''clusterpolicies'', ''ClusterPolicy''),
     (''kyverno.io'', ''v1'', ''policies'', ''Policy''),
     (''kyverno.io'', ''v1'', ''clusteradmissionreports'', ''ClusterAdmissionReport''),
     (''kyverno.io'', ''v1'', ''admissionreports'', ''AdmissionReport''),
     (''kyverno.io'', ''v2'', ''updaterequests'', ''UpdateRequest''),
     (''kyverno.io'', ''v2'', ''cleanuppolicies'', ''CleanupPolicy''),
     (''kyverno.io'', ''v2'', ''clustercleanuppolicies'', ''ClusterCleanupPolicy''),
     (''kyverno.io'', ''v2alpha1'', ''globalcontextentries'', ''GlobalContextEntry''),
     (''wgpolicyk8s.io'', ''v1alpha2'', ''clusterpolicyreports'', ''ClusterPolicyReport''),
     (''wgpolicyk8s.io'', ''v1alpha2'', ''policyreports'', ''PolicyReport'')]"

text \<open>
  The constructor appends every table row without looking for duplicates and stores
  its kind; \<open>RegisterResource\<close> returns early when the resource identity is already in
  the list.
\<close>

fun addCoreResource ::
  "string \<times> string \<times> string \<times> string \<Rightarrow> enhancedFakeDiscovery \<Rightarrow> enhancedFakeDiscovery" where
  "addCoreResource (g, v, r, k) d =
     (let gvr = \<lparr>GroupVersionResource.Group = g, Version = v, Resource = r\<rparr>;
          gvk = \<lparr>GroupVersionKind.Group = g, Version = v, Kind = k\<rparr>
      in d\<lparr>resources := resources d @ [gvr], gvrToGVK := (gvrToGVK d)(gvr \<mapsto> gvk)\<rparr>)"

definition newEnhancedFakeDiscovery :: enhancedFakeDiscovery where
  "newEnhancedFakeDiscovery =
     fold addCoreResource coreResources \<lparr>resources = [], gvrToGVK = Map.empty\<rparr>"

definition RegisterResource ::
  "GroupVersionResource \<Rightarrow> GroupVersionKind \<Rightarrow> enhancedFakeDiscovery \<Rightarrow> enhancedFakeDiscovery" where
  "RegisterResource gvr gvk d =
     (if list_ex (\<lambda>existing. existing = gvr) (resources d) then d
      else d\<lparr>resources := resources d @ [gvr], gvrToGVK := (gvrToGVK d)(gvr \<mapsto> gvk)\<rparr>)"

section \<open>The outside world\<close>

text \<open>
  The backends call into libraries and an external control plane whose answers the
  code cannot determine. A \<open>World\<close> fixes those answers for one run: for each fallible
  external call the error it returns (\<open>None\<close> for success), and the three elapsed times
  that \<open>Run\<close> stores in the summary (nanoseconds, as \<open>time.Duration\<close>).
\<close>

record World =
  envtestStart :: "string option"
  dynamicNewForConfig :: "string option"
  kubernetesNewForConfig :: "string option"
  dclientNewClient :: "string option"
  fakeNewClient :: "string option"
  envtestStop :: "string option"
  setupElapsed :: int
  evalElapsed :: int
  totalElapsed :: int

text \<open>A non-nil \<open>dclient.Interface\<close>; the code under study only tests it against \<open>nil\<close>.\<close>

datatype Client = FakeClient | RealClient

section \<open>Fast backend\<close>

record fastBackend =
  client :: "Client option"
  disco :: "enhancedFakeDiscovery option"
  ready :: bool

definition newFastBackend :: fastBackend where
  "newFastBackend = \<lparr>client = None, disco = None, ready = False\<rparr>"

text \<open>
  The first loop of \<open>fastBackend.Setup\<close>: an object with an empty kind is skipped; for
  the others the resource name is the lower-cased kind followed by \<open>s\<close>, and the
  resource is registered in the discovery registry.
\<close>

definition fastResourceName :: "string \<Rightarrow> string" where
  "fastResourceName kind = ToLower kind @ ''s''"

fun registerObjects :: "Unstructured list \<Rightarrow> enhancedFakeDiscovery \<Rightarrow> enhancedFakeDiscovery" where
  "registerObjects [] d = d"
| "registerObjects (obj # objects) d =
     (let gvk = GroupVersionKind obj in
      if Kind gvk = '''' then registerObjects objects d
      else
        let resource = fastResourceName (Kind gvk);
            gvr = \<lparr>GroupVersionResource.Group = GroupVersionKind.Group gvk,
                   Version = GroupVersionKind.Version gvk, Resource = resource\<rparr>
        in registerObjects objects (RegisterResource gvr gvk d))"

text \<open>
  \<open>fastBackend.Setup\<close> returns the error (if any) and the backend as it leaves it. The
  only failure is that of \<open>dclient.NewClient\<close> over the fake clients; the registry has
  been stored in the backend by then.
\<close>

definition fastBackend_Setup ::
  "World \<Rightarrow> Unstructured list \<Rightarrow> fastBackend \<Rightarrow> string option \<times> fastBackend" where
  "fastBackend_Setup w objects b =
     (let b1 = b\<lparr>disco := Some (registerObjects objects newEnhancedFakeDiscovery)\<rparr> in
      case fakeNewClient w of
        Some err \<Rightarrow> (Some (''failed to create fake client: '' @ err), b1)
      | None \<Rightarrow> (None, b1\<lparr>client := Some FakeClient, ready := True\<rparr>))"

definition fastBackend_Teardown :: "fastBackend \<Rightarrow> string option \<times> fastBackend" where
  "fastBackend_Teardown b = (None, b\<lparr>client := None, ready := False\<rparr>)"

section \<open>Accurate backend\<close>

text \<open>
  \<open>started\<close> stands for \<open>testEnv != nil\<close>; \<open>created\<close> lists the create calls that
  \<open>seedObjects\<close> issues against the API server, each with the resource identity it
  was sent to. Errors of those calls are dropped by the code, so they have no place in
  the state.
\<close>

record accurateBackend =
  crdPaths :: "string list"
  started :: bool
  client :: "Client option"
  ready :: bool
  created :: "(GroupVersionResource \<times> Unstructured) list"

definition newAccurateBackend :: "string list \<Rightarrow> accurateBackend" where
  "newAccurateBackend paths =
     \<lparr>crdPaths = paths, started = False, client = None, ready = False, created = []\<rparr>"

fun seedObjects :: "Unstructured list \<Rightarrow> accurateBackend \<Rightarrow> accurateBackend" where
  "seedObjects [] b = b"
| "seedObjects (u # objects) b =
     (let gvk = GroupVersionKind u;
          resource = inferResourceFromKind (Kind gvk);
          gvr = \<lparr>GroupVersionResource.Group = GroupVersionKind.Group gvk,
                 Version = GroupVersionKind.Version gvk, Resource = resource\<rparr>
      in seedObjects objects (b\<lparr>created := created b @ [(gvr, u)]\<rparr>))"

definition accurateBackend_Setup ::
  "World \<Rightarrow> Unstructured list \<Rightarrow> accurateBackend \<Rightarrow> string option \<times> accurateBackend" where
  "accurateBackend_Setup w objects b =
     (let b1 = b\<lparr>started := True\<rparr> in
      case envtestStart w of
        Some err \<Rightarrow>
          (Some (''failed to start envtest environment: '' @ err @
                 '' (ensure envtest binaries are installed via '' @ [CHR 0x27] @
                 ''setup-envtest use'' @ [CHR 0x27] @ '')''), b1)
      | None \<Rightarrow>
         (case dynamicNewForConfig w of
            Some err \<Rightarrow> (Some (''failed to create dynamic client: '' @ err), b1)
          | None \<Rightarrow>
             (case kubernetesNewForConfig w of
                Some err \<Rightarrow> (Some (''failed to create kubernetes client: '' @ err), b1)
              | None \<Rightarrow>
                 (case dclientNewClient w of
                    Some err \<Rightarrow> (Some (''failed to create dclient: '' @ err), b1)
                  | None \<Rightarrow>
                      (None, (seedObjects objects (b1\<lparr>accurateBackend.client := Some RealClient\<rparr>))
                               \<lparr>accurateBackend.ready := True\<rparr>)))))"

definition accurateBackend_Teardown ::
  "World \<Rightarrow> accurateBackend \<Rightarrow> string option \<times> accurateBackend" where
  "accurateBackend_Teardown w b =
     (case (if started b then envtestStop w else None) of
        Some err \<Rightarrow> (Some (''failed to stop envtest: '' @ err), b)
      | None \<Rightarrow> (None, b\<lparr>accurateBackend.client := None, accurateBackend.ready := False\<rparr>))"

section \<open>The backend interface\<close>

datatype TestBackend = Fast fastBackend | Accurate accurateBackend

fun Setup :: "World \<Rightarrow> Unstructured list \<Rightarrow> TestBackend \<Rightarrow> string option \<times> TestBackend" where
  "Setup w objects (Fast b) =
     (case fastBackend_Setup w objects b of (err, b1) \<Rightarrow> (err, Fast b1))"
| "Setup w objects (Accurate b) =
     (case accurateBackend_Setup w objects b of (err, b1) \<Rightarrow> (err, Accurate b1))"

fun Teardown :: "World \<Rightarrow> TestBackend \<Rightarrow> string option \<times> TestBackend" where
  "Teardown w (Fast b) =
     (case fastBackend_Teardown b of (err, b1) \<Rightarrow> (err, Fast b1))"
| "Teardown w (Accurate b) =
     (case accurateBackend_Teardown w b of (err, b1) \<Rightarrow> (err, Accurate b1))"

fun BackendClient :: "TestBackend \<Rightarrow> Client option" where
  "BackendClient (Fast b) = fastBackend.client b"
| "BackendClient (Accurate b) = accurateBackend.client b"

fun BackendMode :: "TestBackend \<Rightarrow> TestMode" where
  "BackendMode (Fast b) = ModeFast"
| "BackendMode (Accurate b) = ModeAccurate"

fun IsReady :: "TestBackend \<Rightarrow> bool" where
  "IsReady (Fast b) = fastBackend.ready b"
| "IsReady (Accurate b) = accurateBackend.ready b"

section \<open>Results and the runner\<close>

text \<open>
  \<open>TestResult\<close> and \<open>TestSummary\<close> as declared, except that the wall-clock
  \<open>Duration\<close> of a single result is left out. The counters are Go \<open>int\<close>s (they count
  list entries, far from 64-bit overflow).
\<close>

record TestResult =
  PolicyName :: string
  RuleName :: string
  ResourceName :: string
  ResourceNamespace :: string
  ResourceKind :: string
  Status :: string
  Message :: string
  Mode :: TestMode

record TestSummary =
  Mode :: TestMode
  SetupDuration :: int
  EvalDuration :: int
  TotalDuration :: int
  Results :: "TestResult list"
  Pass :: int
  Fail :: int
  Warn :: int
  Error :: int
  Skip :: int
  FellBack :: bool
  FallbackReason :: string

record TestRunner =
  config :: TestConfig
  backend :: "TestBackend option"

definition NewTestRunner :: "TestConfig \<Rightarrow> TestRunner" where
  "NewTestRunner c = \<lparr>config = c, backend = None\<rparr>"

definition createBackend :: "TestRunner \<Rightarrow> string + TestBackend" where
  "createBackend r =
     (if TestConfig.Mode (config r) = ModeFast then Inr (Fast newFastBackend)
      else if TestConfig.Mode (config r) = ModeAccurate
        then Inr (Accurate (newAccurateBackend (CRDPaths (config r))))
      else Inl (''unknown mode: '' @ TestConfig.Mode (config r)))"

subsection \<open>Evaluation\<close>

definition policyMatchesResource :: "PolicyInterface \<Rightarrow> Unstructured \<Rightarrow> bool" where
  "policyMatchesResource pol resource =
     list_ex (\<lambda>rule. list_ex (\<lambda>kind. kind = GetKind resource) (GetKinds rule)) (Rules pol)"

text \<open>The body of the loop of \<open>evaluatePolicyRules\<close>: the result for one rule.\<close>

definition evaluateRule :: "PolicyInterface \<Rightarrow> Unstructured \<Rightarrow> TestMode \<Rightarrow> Rule \<Rightarrow> TestResult" where
  "evaluateRule pol resource mode rule =
     (let result = \<lparr>PolicyName = GetName pol, RuleName = Rule.Name rule,
                     ResourceName = Unstructured.Name resource,
                     ResourceNamespace = Namespace resource,
                     ResourceKind = GetKind resource,
                     Status = '''', Message = '''', Mode = mode\<rparr>;
          tail = [CHR 0x27] @ Rule.Name rule @ [CHR 0x27] @ '' evaluated in '' @ mode @ '' mode''
      in if HasValidate rule
           then result\<lparr>Status := ''pass'', Message := ''validation rule '' @ tail\<rparr>
         else if HasMutate rule
           then result\<lparr>Status := ''pass'', Message := ''mutation rule '' @ tail\<rparr>
         else if HasGenerate rule
           then result\<lparr>Status := ''pass'', Message := ''generation rule '' @ tail\<rparr>
         else if HasVerifyImages rule
           then result\<lparr>Status := ''pass'', Message := ''image verification rule '' @ tail\<rparr>
         else result\<lparr>Status := ''skip'', Message := ''no actionable rule type''\<rparr>)"

definition evaluatePolicyRules :: "PolicyInterface \<Rightarrow> Unstructured \<Rightarrow> TestMode \<Rightarrow> TestResult list" where
  "evaluatePolicyRules pol resource mode = map (evaluateRule pol resource mode) (Rules pol)"

text \<open>
  The two nested loops of \<open>evaluatePolicies\<close>, each with the list \<open>results\<close> it appends
  to: the inner one over the policies for one resource, the outer one over the resources.
\<close>

fun evaluateResource ::
  "TestMode \<Rightarrow> Unstructured \<Rightarrow> PolicyInterface list \<Rightarrow> TestResult list \<Rightarrow> TestResult list" where
  "evaluateResource mode resource [] results = results"
| "evaluateResource mode resource (pol # policies) results =
     (if \<not> policyMatchesResource pol resource
      then evaluateResource mode resource policies
             (results @ [\<lparr>PolicyName = GetName pol, RuleName = '''',
                           ResourceName = Unstructured.Name resource,
                           ResourceNamespace = Namespace resource,
                           ResourceKind = GetKind resource,
                           Status = ''skip'', Message = ''policy does not match resource'',
                           Mode = mode\<rparr>])
      else evaluateResource mode resource policies
             (results @ evaluatePolicyRules pol resource mode))"

fun evaluateResources ::
  "TestMode \<Rightarrow> PolicyInterface list \<Rightarrow> Unstructured list \<Rightarrow> TestResult list \<Rightarrow> TestResult list" where
  "evaluateResources mode policies [] results = results"
| "evaluateResources mode policies (resource # ress) results =
     evaluateResources mode policies ress (evaluateResource mode resource policies results)"

text \<open>
  \<open>evaluatePolicies\<close> reads the runner's backend. Calling a method on a nil interface
  panics in Go; \<open>Run\<close> always stores a backend first, and the model reports that case
  as an error of its own.
\<close>

definition evaluatePolicies ::
  "TestRunner \<Rightarrow> PolicyInterface list \<Rightarrow> Unstructured list \<Rightarrow> string + TestResult list" where
  "evaluatePolicies r policies ress =
     (case backend r of
        None \<Rightarrow> Inl ''panic: nil backend''
      | Some b \<Rightarrow>
         (case BackendClient b of
            None \<Rightarrow> Inl ''backend client is nil''
          | Some c \<Rightarrow> Inr (evaluateResources (BackendMode b) policies ress [])))"

subsection \<open>Run\<close>

text \<open>Phase 3 of \<open>Run\<close>: the \<open>switch\<close> on the status of each result.\<close>

fun aggregate :: "TestResult list \<Rightarrow> TestSummary \<Rightarrow> TestSummary" where
  "aggregate [] summary = summary"
| "aggregate (result # results) summary =
     aggregate results
       (if Status result = ''pass'' then summary\<lparr>Pass := Pass summary + 1\<rparr>
        else if Status result = ''fail'' then summary\<lparr>Fail := Fail summary + 1\<rparr>
        else if Status result = ''warn'' then summary\<lparr>Warn := Warn summary + 1\<rparr>
        else if Status result = ''error'' then summary\<lparr>Error := Error summary + 1\<rparr>
        else if Status result = ''skip'' then summary\<lparr>Skip := Skip summary + 1\<rparr>
        else summary)"

text \<open>
  \<open>Run\<close> is written in its phases. Each returns either the error text with which
  \<open>Run\<close> returns, or the runner and the summary as the phase leaves them; the runner
  is returned in both cases, since \<open>Run\<close> changes its configuration and backend.

  The backend constructor is a parameter of the phases, so that what \<open>Run\<close> does when
  construction fails can be stated: \<open>createBackend\<close> itself fails only for a mode
  that \<open>Validate\<close> has already refused. \<open>Run\<close> is \<open>Run_with createBackend\<close>.
\<close>

text \<open>
  The summary that \<open>Run\<close> starts from, \<open>&TestSummary{Mode: r.config.Mode}\<close>: every other
  field has its zero value. \<open>setMode\<close> is the assignment \<open>r.config.Mode = mode\<close>.
\<close>

definition newTestSummary :: "TestMode \<Rightarrow> TestSummary" where
  "newTestSummary mode =
     \<lparr>Mode = mode, SetupDuration = 0, EvalDuration = 0, TotalDuration = 0, Results = [],
      Pass = 0, Fail = 0, Warn = 0, Error = 0, Skip = 0, FellBack = False, FallbackReason = ''''\<rparr>"

definition setMode :: "TestMode \<Rightarrow> TestRunner \<Rightarrow> TestRunner" where
  "setMode mode r = r\<lparr>config := (config r)\<lparr>TestConfig.Mode := mode\<rparr>\<rparr>"

definition Run_construct ::
  "(TestRunner \<Rightarrow> string + TestBackend) \<Rightarrow> TestRunner \<Rightarrow> TestSummary \<Rightarrow>
     (string \<times> TestRunner) + (TestRunner \<times> TestSummary)" where
  "Run_construct create r summary =
     (case create r of
        Inr b \<Rightarrow> Inr (r\<lparr>backend := Some b\<rparr>, summary)
      | Inl err \<Rightarrow>
          if TestConfig.Mode (config r) = ModeAccurate \<and> AutoFallback (config r) then
            (let summary1 = summary\<lparr>FellBack := True, FallbackReason := err\<rparr>;
                 r1 = setMode ModeFast r
             in case create r1 of
                  Inl err2 \<Rightarrow> Inl (''both accurate and fast mode setup failed: '' @ err2, r1)
                | Inr b \<Rightarrow> Inr (r1\<lparr>backend := Some b\<rparr>, summary1))
          else Inl (''backend setup failed: '' @ err, r))"

definition Run_setup ::
  "World \<Rightarrow> Unstructured list \<Rightarrow> TestRunner \<Rightarrow> TestSummary \<Rightarrow>
     (string \<times> TestRunner) + (TestRunner \<times> TestSummary)" where
  "Run_setup w objects r summary =
     (case backend r of
        None \<Rightarrow> Inl (''panic: nil backend'', r)
      | Some b \<Rightarrow>
         (case Setup w objects b of
            (None, b1) \<Rightarrow> Inr (r\<lparr>backend := Some b1\<rparr>, summary)
          | (Some err, b1) \<Rightarrow>
              if TestConfig.Mode (config r) = ModeAccurate \<and> AutoFallback (config r) then
                (let summary1 = summary\<lparr>FellBack := True, FallbackReason := err\<rparr> in
                 case fastBackend_Setup w objects newFastBackend of
                   (Some err2, fb) \<Rightarrow>
                      Inl (''fallback fast mode setup failed: '' @ err2, r\<lparr>backend := Some b1\<rparr>)
                 | (None, fb) \<Rightarrow>
                      Inr (r\<lparr>backend := Some (Fast fb)\<rparr>, summary1\<lparr>TestSummary.Mode := ModeFast\<rparr>))
              else Inl (''backend setup failed: '' @ err, r\<lparr>backend := Some b1\<rparr>)))"

definition Run_teardown :: "World \<Rightarrow> TestRunner \<Rightarrow> TestRunner" where
  "Run_teardown w r =
     (case backend r of
        None \<Rightarrow> r
      | Some b \<Rightarrow> r\<lparr>backend := Some (snd (Teardown w b))\<rparr>)"

definition Run_with ::
  "(TestRunner \<Rightarrow> string + TestBackend) \<Rightarrow> World \<Rightarrow> TestRunner \<Rightarrow>
     PolicyInterface list \<Rightarrow> Unstructured list \<Rightarrow>
     (string \<times> TestRunner) + (TestSummary \<times> TestRunner)" where
  "Run_with create w r policies ress =
     (case Validate (config r) of
        Some err \<Rightarrow> Inl (''invalid config: '' @ err, r)
      | None \<Rightarrow>
         (let summary = newTestSummary (TestConfig.Mode (config r));
              objects = ress
          in case Run_construct create r summary of
               Inl failure \<Rightarrow> Inl failure
             | Inr (r1, summary1) \<Rightarrow>
                (case Run_setup w objects r1 summary1 of
                   Inl failure \<Rightarrow> Inl failure
                 | Inr (r2, summary2) \<Rightarrow>
                    (let summary3 = summary2\<lparr>SetupDuration := setupElapsed w\<rparr> in
                     case evaluatePolicies r2 policies ress of
                       Inl err \<Rightarrow> Inl (''policy evaluation failed: '' @ err, r2)
                     | Inr results \<Rightarrow>
                        (let summary4 = summary3\<lparr>EvalDuration := evalElapsed w, Results := results\<rparr>;
                             summary5 = aggregate results summary4;
                             r3 = Run_teardown w r2;
                             summary6 = summary5\<lparr>TotalDuration := totalElapsed w\<rparr>
                         in Inr (summary6, r3))))))"

definition Run ::
  "World \<Rightarrow> TestRunner \<Rightarrow> PolicyInterface list \<Rightarrow> Unstructured list \<Rightarrow>
     (string \<times> TestRunner) + (TestSummary \<times> TestRunner)" where
  "Run = Run_with createBackend"

text \<open>
  What one pass through the body of the inner loop of \<open>evaluatePolicies\<close> appends to
  \<open>results\<close>, for one policy and one resource.
\<close>

definition pairResults :: "TestMode \<Rightarrow> Unstructured \<Rightarrow> PolicyInterface \<Rightarrow> TestResult list" where
  "pairResults mode resource pol =
     (if \<not> policyMatchesResource pol resource
      then [\<lparr>PolicyName = GetName pol, RuleName = '''',
              ResourceName = Unstructured.Name resource,
              ResourceNamespace = Namespace resource,
              ResourceKind = GetKind resource,
              Status = ''skip'', Message = ''policy does not match resource'',
              Mode = mode\<rparr>]
      else evaluatePolicyRules pol resource mode)"

text \<open>Inputs of the examples: the objects that the repository's runner tests build.\<close>

definition newUnstructuredPod :: "string \<Rightarrow> string \<Rightarrow> Unstructured" where
  "newUnstructuredPod namespace name =
     \<lparr>GroupVersionKind = \<lparr>GroupVersionKind.Group = '''', Version = ''v1'', Kind = ''Pod''\<rparr>,
      Namespace = namespace, Name = name\<rparr>"

definition newTestClusterPolicy ::
  "string \<Rightarrow> string \<Rightarrow> string list \<Rightarrow> bool \<Rightarrow> bool \<Rightarrow> bool \<Rightarrow> PolicyInterface" where
  "newTestClusterPolicy name ruleName kinds validate mutate generate =
     \<lparr>GetName = name,
      Rules = [\<lparr>Rule.Name = ruleName, GetKinds = kinds, HasValidate = validate,
                HasMutate = mutate, HasGenerate = generate, HasVerifyImages = False\<rparr>]\<rparr>"

definition quietWorld :: World where
  "quietWorld = \<lparr>envtestStart = None, dynamicNewForConfig = None, kubernetesNewForConfig = None,
     dclientNewClient = None, fakeNewClient = None, envtestStop = None,
     setupElapsed = 1000, evalElapsed = 2000, totalElapsed = 4000\<rparr>"

definition noEnvtestWorld :: World where
  "noEnvtestWorld = quietWorld\<lparr>envtestStart := Some ''no binaries''\<rparr>"

definition testConfig :: "TestMode \<Rightarrow> bool \<Rightarrow> TestConfig" where
  "testConfig mode fallback =
     \<lparr>TestConfig.Mode = mode, PolicyPaths = [''test.yaml''], ResourcePaths = [''test.yaml''],
      CRDPaths = [], AutoFallback = fallback\<rparr>"

text \<open>
  Two constructors that fail, to run the fallback paths of \<open>Run_with\<close> on: one that
  has no accurate backend to offer, one that has none at all.
\<close>

definition createWithoutAccurate :: "TestRunner \<Rightarrow> string + TestBackend" where
  "createWithoutAccurate r =
     (if TestConfig.Mode (config r) = ModeAccurate then Inl ''accurate backend unavailable''
      else createBackend r)"

definition createNothing :: "TestRunner \<Rightarrow> string + TestBackend" where
  "createNothing r = Inl (''no backend for mode '' @ TestConfig.Mode (config r))"

section \<open>Comparing two summaries\<close>

text \<open>
  A Go map is modelled as a partial function. A \<open>range\<close> loop over a map visits every
  key once, in an order that Go leaves unspecified: the loop is modelled as a recursion
  over a list of keys, which is a parameter of the function, and the theorems hold for
  every list that enumerates the keys of the map (\<open>rangeOrder\<close>).
\<close>

definition rangeOrder :: "('k \<rightharpoonup> 'v) \<Rightarrow> 'k list \<Rightarrow> bool" where
  "rangeOrder m keys = (distinct keys \<and> set keys = dom m)"

text \<open>
  \<open>SpeedupFactor\<close> is a \<open>float64\<close>. The model keeps the cases of IEEE 754 division
  apart: dividing by zero does not fault but gives an infinity, or not-a-number for
  \<open>0/0\<close>. A finite quotient is modelled by the exact quotient of the two durations;
  rounding to 53 bits is not modelled.
\<close>

datatype float64 = Finite real | PosInf | NegInf | NaN

definition float64_div_int :: "int \<Rightarrow> int \<Rightarrow> float64" where
  "float64_div_int a b =
     (if b = 0 then (if a = 0 then NaN else if 0 < a then PosInf else NegInf)
      else Finite (real_of_int a / real_of_int b))"

record Divergence =
  Key :: string
  FastStatus :: string
  AccurateStatus :: string
  FastMessage :: string
  AccurateMsg :: string

record ComparisonReport =
  FastResults :: TestSummary
  AccurateResults :: TestSummary
  Matching :: int
  Divergent :: int
  OnlyInFast :: int
  OnlyInAccurate :: int
  Divergences :: "Divergence list"
  SpeedupFactor :: float64

text \<open>\<open>fmt.Sprintf("%s/%s/%s/%s", r.PolicyName, r.RuleName, r.ResourceKind, r.ResourceName)\<close>\<close>

definition resultKey :: "TestResult \<Rightarrow> string" where
  "resultKey r = PolicyName r @ ''/'' @ RuleName r @ ''/'' @ ResourceKind r @ ''/'' @ ResourceName r"

text \<open>The two loops that build the lookup maps: a later result replaces an earlier one with the same key.\<close>

fun buildMap :: "TestResult list \<Rightarrow> (string \<rightharpoonup> TestResult) \<Rightarrow> (string \<rightharpoonup> TestResult)" where
  "buildMap [] m = m"
| "buildMap (r # rs) m = buildMap rs (m(resultKey r \<mapsto> r))"

text \<open>
  The loop over \<open>fastMap\<close>. Its keys come from the map, so the lookup of a key in
  \<open>fastMap\<close> finds a result; a list with a foreign key is no \<open>rangeOrder\<close>, and the
  model skips such a key.
\<close>

fun compareFast ::
  "(string \<rightharpoonup> TestResult) \<Rightarrow> (string \<rightharpoonup> TestResult) \<Rightarrow> string list \<Rightarrow>
     ComparisonReport \<Rightarrow> ComparisonReport" where
  "compareFast fastMap accurateMap [] report = report"
| "compareFast fastMap accurateMap (key # keys) report =
     (case fastMap key of
        None \<Rightarrow> compareFast fastMap accurateMap keys report
      | Some fastResult \<Rightarrow>
         (case accurateMap key of
            Some accurateResult \<Rightarrow>
              if Status fastResult = Status accurateResult
              then compareFast fastMap accurateMap keys (report\<lparr>Matching := Matching report + 1\<rparr>)
              else compareFast fastMap accurateMap keys
                     (report\<lparr>Divergent := Divergent report + 1,
                             Divergences := Divergences report @
                               [\<lparr>Key = key, FastStatus = Status fastResult,
                                  AccurateStatus = Status accurateResult,
                                  FastMessage = Message fastResult,
                                  AccurateMsg = Message accurateResult\<rparr>]\<rparr>)
          | None \<Rightarrow>
              compareFast fastMap accurateMap keys (report\<lparr>OnlyInFast := OnlyInFast report + 1\<rparr>)))"

fun compareAccurate ::
  "(string \<rightharpoonup> TestResult) \<Rightarrow> string list \<Rightarrow> ComparisonReport \<Rightarrow> ComparisonReport" where
  "compareAccurate fastMap [] report = report"
| "compareAccurate fastMap (key # keys) report =
     (case fastMap key of
        None \<Rightarrow> compareAccurate fastMap keys (report\<lparr>OnlyInAccurate := OnlyInAccurate report + 1\<rparr>)
      | Some r \<Rightarrow> compareAccurate fastMap keys report)"

text \<open>
  \<open>CompareResults\<close>, with the orders in which the two \<open>range\<close> loops visit the keys of
  \<open>fastMap\<close> and of \<open>accurateMap\<close>.
\<close>

definition CompareResults ::
  "string list \<Rightarrow> string list \<Rightarrow> TestSummary \<Rightarrow> TestSummary \<Rightarrow> ComparisonReport" where
  "CompareResults fastOrder accurateOrder fast accurate =
     (let report = \<lparr>FastResults = fast, AccurateResults = accurate, Matching = 0, Divergent = 0,
                     OnlyInFast = 0, OnlyInAccurate = 0, Divergences = [],
                     SpeedupFactor = Finite 0\<rparr>;
          fastMap = buildMap (Results fast) Map.empty;
          accurateMap = buildMap (Results accurate) Map.empty;
          report1 = compareFast fastMap accurateMap fastOrder report;
          report2 = compareAccurate fastMap accurateOrder report1
      in report2\<lparr>SpeedupFactor :=
                    float64_div_int (TotalDuration accurate) (TotalDuration fast)\<rparr>)"

text \<open>The results of the repository's comparison test, as input of the example.\<close>

definition podResult :: "string \<Rightarrow> string \<Rightarrow> string \<Rightarrow> TestResult" where
  "podResult policy rule status =
     \<lparr>PolicyName = policy, RuleName = rule, ResourceName = ''pod1'', ResourceNamespace = '''',
      ResourceKind = ''Pod'', Status = status, Message = '''', Mode = ''''\<rparr>"

definition summaryOf :: "TestMode \<Rightarrow> int \<Rightarrow> TestResult list \<Rightarrow> TestSummary" where
  "summaryOf mode duration results =
     (newTestSummary mode)\<lparr>TotalDuration := duration, Results := results\<rparr>"

text \<open>
  The record that the body of the loop over \<open>fastMap\<close> appends to \<open>Divergences\<close> for a
  key, if it appends one: the key is in both maps and the two statuses differ.
\<close>

definition divergenceAt ::
  "(string \<rightharpoonup> TestResult) \<Rightarrow> (string \<rightharpoonup> TestResult) \<Rightarrow> string \<Rightarrow> Divergence option" where
  "divergenceAt fastMap accurateMap key =
     (case fastMap key of
        None \<Rightarrow> None
      | Some fastResult \<Rightarrow>
         (case accurateMap key of
            None \<Rightarrow> None
          | Some accurateResult \<Rightarrow>
              if Status fastResult = Status accurateResult then None
              else Some \<lparr>Key = key, FastStatus = Status fastResult,
                         AccurateStatus = Status accurateResult,
                         FastMessage = Message fastResult,
                         AccurateMsg = Message accurateResult\<rparr>))"

section \<open>The regular expressions of the mock resolver\<close>

text \<open>
  \<open>matchesPattern\<close> calls package \<open>regexp\<close> four times. Each call is modelled by a
  function on strings that does what the call does on the strings that can reach it.

  \<open>regexp.QuoteMeta\<close> puts a backslash before each of the fourteen metacharacters
  \<^verbatim>\<open>\.+*?()|[]{}^$\<close>.
\<close>

definition backslash :: char where
  "backslash = CHR 0x5C"

definition metaChars :: "char list" where
  "metaChars = backslash # ''.+*?()|[]{}^$''"

definition QuoteMeta :: "string \<Rightarrow> string" where
  "QuoteMeta s = concat (map (\<lambda>c. if c \<in> set metaChars then [backslash, c] else [c]) s)"

text \<open>
  The placeholder expression is, in Go's raw string, \<^verbatim>\<open>\\\{\\\{[^}]+\\\}\\\}\<close>:
  a backslash, \<open>{\<close>, a backslash, \<open>{\<close>, then one or more characters other than
  \<open>}\<close>, then a backslash, \<open>}\<close>, a backslash, \<open>}\<close>. \<open>placeholderAt q\<close> is the length of
  its match at the start of \<open>q\<close>, if there is one. After the four opening characters the
  characters up to the first \<open>}\<close> must be the one-or-more part followed by a backslash
  (so there are at least two of them, the last a backslash), and the \<open>}\<close> must be
  followed by a backslash and \<open>}\<close>; hence a match at a position has one possible length.
\<close>

definition placeholderAt :: "string \<Rightarrow> nat option" where
  "placeholderAt q =
     (if prefix [backslash, CHR ''{'', backslash, CHR ''{''] q then
        (let rest = drop 4 q;
             run = takeWhile (\<lambda>c. c \<noteq> CHR ''}'') rest;
             after = dropWhile (\<lambda>c. c \<noteq> CHR ''}'') rest
         in if 2 \<le> length run \<and> last run = backslash \<and>
               prefix [CHR ''}'', backslash, CHR ''}''] after
            then Some (4 + length run + 3) else None)
      else None)"

text \<open>
  \<open>ReplaceAllString(q, "[^/]+")\<close> with the placeholder expression: from left to right,
  a match is replaced by the text \<open>[^/]+\<close> (it has no \<open>$\<close>, so nothing is expanded in
  it) and the scan goes on after the match; where there is no match the character is
  copied.
\<close>

function replacePlaceholders :: "string \<Rightarrow> string" where
  "replacePlaceholders [] = []"
| "replacePlaceholders (c # q) =
     (case placeholderAt (c # q) of
        Some n \<Rightarrow> ''[^/]+'' @ replacePlaceholders (drop n (c # q))
      | None \<Rightarrow> c # replacePlaceholders q)"
  by pat_completeness auto
termination
  by (relation "measure length")
     (auto simp: placeholderAt_def Let_def split: if_splits)

text \<open>
  \<open>regexp.Compile\<close> on the text \<open>^\<close>, body, \<open>$\<close>. The body is read as a sequence of
  tokens: a backslash followed by a metacharacter is that character, the text \<open>[^/]+\<close>
  is one or more characters other than \<open>/\<close>, any other character that is not a
  metacharacter is itself. Any other text is outside the model and gives \<open>None\<close>, which
  stands for a compile error; the quoted and replaced patterns never get there
  (\<open>Compile_quoted\<close> below).
\<close>

datatype token = Lit char | NonSlashPlus

fun parseBody :: "string \<Rightarrow> token list option" where
  "parseBody [] = Some []"
| "parseBody (c # cs) =
     (if c = backslash then
        (case cs of
           [] \<Rightarrow> None
         | d # ds \<Rightarrow> if d \<in> set metaChars then map_option ((#) (Lit d)) (parseBody ds) else None)
      else if prefix ''[^/]+'' (c # cs) then map_option ((#) NonSlashPlus) (parseBody (drop 4 cs))
      else if c \<in> set metaChars then None
      else map_option ((#) (Lit c)) (parseBody cs))"

definition Compile :: "string \<Rightarrow> token list option" where
  "Compile s =
     (case s of
        [] \<Rightarrow> None
      | c # rest \<Rightarrow>
          if c = CHR ''^'' \<and> rest \<noteq> [] \<and> last rest = CHR ''$'' then parseBody (butlast rest)
          else None)"

text \<open>
  \<open>MatchString\<close> for an expression anchored at both ends: the whole text is matched by
  the tokens, one after the other.
\<close>

fun MatchString :: "token list \<Rightarrow> string \<Rightarrow> bool" where
  "MatchString [] s = (s = [])"
| "MatchString (Lit c # ts) s = (case s of [] \<Rightarrow> False | d # ds \<Rightarrow> c = d \<and> MatchString ts ds)"
| "MatchString (NonSlashPlus # ts) s =
     list_ex (\<lambda>n. list_all (\<lambda>c. c \<noteq> CHR ''/'') (take n s) \<and> MatchString ts (drop n s))
       [1 ..< Suc (length s)]"

section \<open>Mock resolver\<close>

text \<open>
  The responses and values of the mocks are Go \<open>interface{}\<close> values; the model is
  polymorphic in them. The resolver keeps its two maps and, when the configuration has
  HTTP call mocks, its HTTP mock server.
\<close>

record 'a APICallMock =
  URLPath :: string
  Method :: string
  Response :: 'a

record 'g GlobalContextMock =
  Name :: string
  Value :: 'g

record ('a, 'g) MockConfig =
  APICallMocks :: "'a APICallMock list"
  GlobalContextMocks :: "'g GlobalContextMock list"
  HTTPCallMocks :: "HTTPCallMock list"

record ('a, 'g) MockResolver =
  apiCalls :: "string \<rightharpoonup> 'a"
  globalCtx :: "string \<rightharpoonup> 'g"
  httpServer :: "HTTPMockServer option"

text \<open>
  The two indexing loops of \<open>NewMockResolver\<close>: a later mock replaces an earlier one
  with the same key. \<open>NewHTTPMockServer\<close> always returns a \<open>nil\<close> error, so the
  constructor has no failing branch.
\<close>

fun indexAPICalls :: "'a APICallMock list \<Rightarrow> (string \<rightharpoonup> 'a) \<Rightarrow> (string \<rightharpoonup> 'a)" where
  "indexAPICalls [] m = m"
| "indexAPICalls (mock # mocks) m = indexAPICalls mocks (m(URLPath mock \<mapsto> Response mock))"

fun indexGlobalContext :: "'g GlobalContextMock list \<Rightarrow> (string \<rightharpoonup> 'g) \<Rightarrow> (string \<rightharpoonup> 'g)" where
  "indexGlobalContext [] m = m"
| "indexGlobalContext (mock # mocks) m =
     indexGlobalContext mocks (m(GlobalContextMock.Name mock \<mapsto> Value mock))"

definition NewMockResolver :: "('a, 'g) MockConfig \<Rightarrow> ('a, 'g) MockResolver" where
  "NewMockResolver cfg =
     \<lparr>apiCalls = indexAPICalls (APICallMocks cfg) Map.empty,
      globalCtx = indexGlobalContext (GlobalContextMocks cfg) Map.empty,
      httpServer =
        (if length (HTTPCallMocks cfg) > 0 then Some (NewHTTPMockServer (HTTPCallMocks cfg))
         else None)\<rparr>"

text \<open>
  \<open>substituteVariables\<close> ranges over the map \<open>vars\<close>; the list \<open>vars\<close> of the model holds
  the entries of that map in the order in which the loop visits them.
\<close>

fun substituteVariables :: "string \<Rightarrow> (string \<times> string) list \<Rightarrow> string" where
  "substituteVariables result [] = result"
| "substituteVariables result ((key, val) # vars) =
     substituteVariables (ReplaceAll result (''{{'' @ key @ ''}}'') val) vars"

definition matchesPattern :: "string \<Rightarrow> string \<Rightarrow> bool" where
  "matchesPattern pattern url =
     (let regexPattern = QuoteMeta pattern;
          regexPattern = replacePlaceholders regexPattern
      in case Compile (''^'' @ regexPattern @ ''$'') of
           None \<Rightarrow> False
         | Some regex \<Rightarrow> MatchString regex url)"

text \<open>
  The pattern loop of \<open>ResolveAPICall\<close>, over the keys of \<open>apiCalls\<close> in the order
  \<open>patterns\<close> in which the \<open>range\<close> visits them. A key that is not in the map cannot
  come from the \<open>range\<close>; the model skips it.
\<close>

fun scanPatterns :: "(string \<rightharpoonup> 'a) \<Rightarrow> string list \<Rightarrow> string \<Rightarrow> string + 'a" where
  "scanPatterns calls [] resolvedPath = Inl (''no mock found for API call: '' @ resolvedPath)"
| "scanPatterns calls (pattern # patterns) resolvedPath =
     (case calls pattern of
        None \<Rightarrow> scanPatterns calls patterns resolvedPath
      | Some response \<Rightarrow>
          if matchesPattern pattern resolvedPath then Inr response
          else scanPatterns calls patterns resolvedPath)"

definition ResolveAPICall ::
  "string list \<Rightarrow> ('a, 'g) MockResolver \<Rightarrow> string \<Rightarrow> (string \<times> string) list \<Rightarrow> string + 'a" where
  "ResolveAPICall patterns r urlPath vars =
     (let resolvedPath = substituteVariables urlPath vars in
      case apiCalls r resolvedPath of
        Some response \<Rightarrow> Inr response
      | None \<Rightarrow> scanPatterns (apiCalls r) patterns resolvedPath)"

definition ResolveGlobalContext :: "('a, 'g) MockResolver \<Rightarrow> string \<Rightarrow> string + 'g" where
  "ResolveGlobalContext r name =
     (case globalCtx r name of
        Some v \<Rightarrow> Inr v
      | None \<Rightarrow> Inl (''no mock found for GlobalContextEntry: '' @ name))"

definition HasGlobalContext :: "('a, 'g) MockResolver \<Rightarrow> string \<Rightarrow> bool" where
  "HasGlobalContext r name = (globalCtx r name \<noteq> None)"

section \<open>The pattern match as the specification words it\<close>

text \<open>
  For comparison with \<open>matchesPattern\<close>. A placeholder of a pattern is \<open>{{\<close>, one or
  more characters other than \<open>}\<close>, and \<open>}}\<close>; \<open>rawPlaceholderAt p\<close> is the length of the
  placeholder at the start of \<open>p\<close>, if there is one. \<open>placeholderTokens\<close> reads a pattern
  from left to right into wildcards, one for each placeholder, and literal characters.
  \<open>accepts\<close> says that a text is made of one segment per token: the character itself
  for a literal, one or more characters other than \<open>/\<close> for a wildcard.
\<close>

definition rawPlaceholderAt :: "string \<Rightarrow> nat option" where
  "rawPlaceholderAt p =
     (if prefix ''{{'' p then
        (let rest = drop 2 p;
             name = takeWhile (\<lambda>c. c \<noteq> CHR ''}'') rest;
             after = dropWhile (\<lambda>c. c \<noteq> CHR ''}'') rest
         in if name \<noteq> [] \<and> prefix ''}}'' after then Some (2 + length name + 2) else None)
      else None)"

function placeholderTokens :: "string \<Rightarrow> token list" where
  "placeholderTokens [] = []"
| "placeholderTokens (c # p) =
     (case rawPlaceholderAt (c # p) of
        Some n \<Rightarrow> NonSlashPlus # placeholderTokens (drop n (c # p))
      | None \<Rightarrow> Lit c # placeholderTokens p)"
  by pat_completeness auto
termination
  by (relation "measure length")
     (auto simp: rawPlaceholderAt_def Let_def split: if_splits)

fun fits :: "token \<Rightarrow> string \<Rightarrow> bool" where
  "fits (Lit c) seg = (seg = [c])"
| "fits NonSlashPlus seg = (seg \<noteq> [] \<and> CHR ''/'' \<notin> set seg)"

definition accepts :: "token list \<Rightarrow> string \<Rightarrow> bool" where
  "accepts ts url = (\<exists>segs. concat segs = url \<and> list_all2 fits ts segs)"

text \<open>
  \<open>ResolveAPICall\<close> as the specification words it: after the exact lookup, the mocks
  are tried in the order of the configuration.
\<close>

definition ResolveAPICall_spec ::
  "('a, 'g) MockConfig \<Rightarrow> string \<Rightarrow> (string \<times> string) list \<Rightarrow> string + 'a" where
  "ResolveAPICall_spec cfg urlPath vars =
     (let resolvedPath = substituteVariables urlPath vars in
      case apiCalls (NewMockResolver cfg) resolvedPath of
        Some response \<Rightarrow> Inr response
      | None \<Rightarrow>
         (case find (\<lambda>mock. accepts (placeholderTokens (URLPath mock)) resolvedPath)
                 (APICallMocks cfg) of
            Some mock \<Rightarrow> Inr (Response mock)
          | None \<Rightarrow> Inl (''no mock found for API call: '' @ resolvedPath)))"

text \<open>Configurations for the examples.\<close>

definition configmapsConfig :: "(string, string) MockConfig" where
  "configmapsConfig =
     \<lparr>APICallMocks =
        [\<lparr>URLPath = ''/api/v1/namespaces/{{namespace}}/configmaps'', Method = ''GET'',
          Response = ''items''\<rparr>],
      GlobalContextMocks = [\<lparr>GlobalContextMock.Name = ''deployment-count'', Value = ''5''\<rparr>],
      HTTPCallMocks = []\<rparr>"

definition overlappingConfig :: "(string, string) MockConfig" where
  "overlappingConfig =
     \<lparr>APICallMocks =
        [\<lparr>URLPath = ''/a/{{x}}'', Method = ''GET'', Response = ''first''\<rparr>,
         \<lparr>URLPath = ''/{{y}}/b'', Method = ''GET'', Response = ''second''\<rparr>],
      GlobalContextMocks = [], HTTPCallMocks = []\<rparr>"

definition emptyConfig :: "(string, string) MockConfig" where
  "emptyConfig = \<lparr>APICallMocks = [], GlobalContextMocks = [], HTTPCallMocks = []\<rparr>"

section \<open>Properties of the string helpers\<close>

lemma HasSuffix_iff_suffix: "HasSuffix s t \<longleftrightarrow> suffix t s"
  unfolding HasSuffix_def
  by (metis suffix_def suffix_drop suffix_length_le append_eq_conv_conj length_append
      add_diff_cancel_right')

lemma length_ToLower [simp]: "length (ToLower s) = length s"
  by (simp add: ToLower_def)

lemma of_char_toLowerChar:
  "of_char (toLowerChar c) =
     (let n = (of_char c :: nat) in if 65 \<le> n \<and> n \<le> 90 then n + 32 else n)"
  by (cases c) (simp add: Let_def)

section \<open>Kind to resource-name inference: results\<close>

lemma suffix_y_only: "suffix ''y'' l \<Longrightarrow> length l \<le> 1 \<Longrightarrow> l = ''y''"
  by (cases l) (auto simp: suffix_def Cons_eq_append_conv)

lemma not_vowel_y_suffix_of_y:
  "\<not> suffix ''ay'' ''y''" "\<not> suffix ''ey'' ''y''" "\<not> suffix ''oy'' ''y''"
  by (auto dest: suffix_length_le)

text \<open>
  C4, counterexample. For the one-letter kind \<open>y\<close> the rule of the specification drops
  the \<open>y\<close> and yields \<open>ies\<close>, while the code, whose first case also asks for more than
  one character, yields \<open>ys\<close>.
\<close>

theorem C4_counterexample:
  "inferResourceFromKind ''y'' = ''ys'' \<and> inferResourceFromKind_spec ''y'' = ''ies''"
  by (simp add: inferResourceFromKind_def inferResourceFromKind_spec_def HasSuffix_def
      ToLower_def suffix_def Cons_eq_append_conv)

text \<open>
  C4, as amended. For every kind whose lower-cased form is not the single letter \<open>y\<close>,
  \<open>inferResourceFromKind\<close> returns what the rule of the specification says; for the
  single letter \<open>y\<close> it returns \<open>ys\<close>. In particular \<open>Deployment\<close> gives
  \<open>deployments\<close>, \<open>Policy\<close> gives \<open>policies\<close>, \<open>Ingress\<close> gives \<open>ingresses\<close>,
  \<open>NetworkPolicy\<close> gives \<open>networkpolicies\<close> and \<open>Pod\<close> gives \<open>pods\<close>.
\<close>

theorem C4_inferResourceFromKind:
  "inferResourceFromKind kind =
     (if ToLower kind = ''y'' then ''ys'' else inferResourceFromKind_spec kind) \<and>
   inferResourceFromKind ''Deployment'' = ''deployments'' \<and>
   inferResourceFromKind ''Policy'' = ''policies'' \<and>
   inferResourceFromKind ''Ingress'' = ''ingresses'' \<and>
   inferResourceFromKind ''NetworkPolicy'' = ''networkpolicies'' \<and>
   inferResourceFromKind ''Pod'' = ''pods''"
proof -
  have rule: "inferResourceFromKind kind =
     (if ToLower kind = ''y'' then ''ys'' else inferResourceFromKind_spec kind)"
  proof (cases "ToLower kind = ''y''")
    case True
    then show ?thesis
      by (simp add: inferResourceFromKind_def HasSuffix_def)
  next
    case False
    have "suffix ''y'' (ToLower kind) \<Longrightarrow> 1 < length (ToLower kind)"
      using False suffix_y_only [of "ToLower kind"] by (cases "length (ToLower kind) \<le> 1") auto
    then show ?thesis
      using False
      by (auto simp: inferResourceFromKind_def inferResourceFromKind_spec_def
          HasSuffix_iff_suffix butlast_conv_take Let_def simp del: length_ToLower)
  qed
  have examples:
    "inferResourceFromKind ''Deployment'' = ''deployments''"
    "inferResourceFromKind ''Policy'' = ''policies''"
    "inferResourceFromKind ''Ingress'' = ''ingresses''"
    "inferResourceFromKind ''NetworkPolicy'' = ''networkpolicies''"
    "inferResourceFromKind ''Pod'' = ''pods''"
    by (simp_all add: inferResourceFromKind_def HasSuffix_def ToLower_def)
  from rule examples show ?thesis by blast
qed

theorem C4_inferResourceFromKind_witness:
  "ToLower ''Gateway'' \<noteq> ''y'' \<and> inferResourceFromKind ''Gateway'' = ''gateways'' \<and>
   inferResourceFromKind_spec ''Gateway'' = ''gateways''"
  using C4_inferResourceFromKind [of "''Gateway''"]
  by (simp add: inferResourceFromKind_def HasSuffix_def ToLower_def)

section \<open>The runner: lemmas\<close>

lemma aggregate_Results [simp]: "Results (aggregate rs s) = Results s"
  by (induction rs arbitrary: s) auto

lemma aggregate_Pass: "Pass (aggregate rs s) = Pass s + int (length (filter (\<lambda>x. Status x = ''pass'') rs))"
  by (induction rs arbitrary: s) auto

lemma aggregate_Fail: "Fail (aggregate rs s) = Fail s + int (length (filter (\<lambda>x. Status x = ''fail'') rs))"
  by (induction rs arbitrary: s) auto

lemma aggregate_Warn: "Warn (aggregate rs s) = Warn s + int (length (filter (\<lambda>x. Status x = ''warn'') rs))"
  by (induction rs arbitrary: s) auto

lemma aggregate_Error: "Error (aggregate rs s) = Error s + int (length (filter (\<lambda>x. Status x = ''error'') rs))"
  by (induction rs arbitrary: s) auto

lemma aggregate_Skip: "Skip (aggregate rs s) = Skip s + int (length (filter (\<lambda>x. Status x = ''skip'') rs))"
  by (induction rs arbitrary: s) auto

lemma aggregate_frame [simp]:
  "TestSummary.Mode (aggregate rs s) = TestSummary.Mode s"
  "FellBack (aggregate rs s) = FellBack s"
  "FallbackReason (aggregate rs s) = FallbackReason s"
  by (induction rs arbitrary: s) auto

lemma evaluateResource_pairResults:
  "evaluateResource mode resource policies acc =
     acc @ concat (map (pairResults mode resource) policies)"
  by (induction policies arbitrary: acc) (auto simp: pairResults_def)

lemma evaluateResources_concat:
  "evaluateResources mode policies ress acc =
     acc @ concat (map (\<lambda>resource. concat (map (pairResults mode resource) policies)) ress)"
  by (induction ress arbitrary: acc) (auto simp: evaluateResource_pairResults)

lemma policyMatchesResource_iff:
  "policyMatchesResource pol resource \<longleftrightarrow>
     (\<exists>rule \<in> set (Rules pol). GetKind resource \<in> set (GetKinds rule))"
  by (auto simp: policyMatchesResource_def list_ex_iff)

lemma evaluatePolicies_ok:
  "backend r = Some b \<Longrightarrow> BackendClient b = Some c \<Longrightarrow>
   evaluatePolicies r policies ress =
     Inr (concat (map (\<lambda>resource. concat (map (pairResults (BackendMode b) resource) policies)) ress))"
  by (simp add: evaluatePolicies_def evaluateResources_concat)

lemma fastBackend_Setup_ok:
  "fastBackend_Setup w objs b = (None, b1) \<Longrightarrow> fastBackend.client b1 = Some FakeClient \<and> fastBackend.ready b1"
  by (auto simp: fastBackend_Setup_def Let_def split: option.splits)

lemma accurateBackend_seedObjects_frame [simp]:
  "accurateBackend.client (seedObjects objs b) = accurateBackend.client b"
  "accurateBackend.ready (seedObjects objs b) = accurateBackend.ready b"
  "started (seedObjects objs b) = started b"
  by (induction objs arbitrary: b) (auto simp: Let_def)

lemma accurateBackend_Setup_ok:
  "accurateBackend_Setup w objs b = (None, b1) \<Longrightarrow>
     accurateBackend.client b1 = Some RealClient \<and> accurateBackend.ready b1"
  by (auto simp: accurateBackend_Setup_def Let_def split: option.splits)

lemma Setup_ok:
  "Setup w objs b = (None, b1) \<Longrightarrow>
     (\<exists>c. BackendClient b1 = Some c) \<and> BackendMode b1 = BackendMode b \<and> IsReady b1"
  by (cases b) (auto dest: fastBackend_Setup_ok accurateBackend_Setup_ok split: prod.splits)

lemma Setup_mode: "BackendMode (snd (Setup w objs b)) = BackendMode b"
  by (cases b) (auto split: prod.splits)

text \<open>What the two setup phases do, case by case.\<close>

lemma Run_construct_ok:
  "create r = Inr b \<Longrightarrow> Run_construct create r s = Inr (r\<lparr>backend := Some b\<rparr>, s)"
  by (simp add: Run_construct_def)

lemma Run_construct_fallback:
  "create r = Inl e \<Longrightarrow> TestConfig.Mode (config r) = ModeAccurate \<Longrightarrow> AutoFallback (config r) \<Longrightarrow>
   Run_construct create r s =
     (case create (setMode ModeFast r) of
        Inl e2 \<Rightarrow> Inl (''both accurate and fast mode setup failed: '' @ e2, setMode ModeFast r)
      | Inr b \<Rightarrow> Inr ((setMode ModeFast r)\<lparr>backend := Some b\<rparr>,
                   s\<lparr>FellBack := True, FallbackReason := e\<rparr>))"
  by (simp add: Run_construct_def Let_def)

lemma Run_construct_fatal:
  "create r = Inl e \<Longrightarrow> \<not> (TestConfig.Mode (config r) = ModeAccurate \<and> AutoFallback (config r)) \<Longrightarrow>
   Run_construct create r s = Inl (''backend setup failed: '' @ e, r)"
  by (auto simp add: Run_construct_def Let_def)

lemma Run_setup_ok:
  "backend r = Some b \<Longrightarrow> Setup w objs b = (None, b1) \<Longrightarrow>
   Run_setup w objs r s = Inr (r\<lparr>backend := Some b1\<rparr>, s)"
  by (simp add: Run_setup_def)

lemma Run_setup_fallback:
  "backend r = Some b \<Longrightarrow> Setup w objs b = (Some e, b1) \<Longrightarrow>
   TestConfig.Mode (config r) = ModeAccurate \<Longrightarrow> AutoFallback (config r) \<Longrightarrow>
   Run_setup w objs r s =
     (case fastBackend_Setup w objs newFastBackend of
        (Some e2, fb) \<Rightarrow> Inl (''fallback fast mode setup failed: '' @ e2, r\<lparr>backend := Some b1\<rparr>)
      | (None, fb) \<Rightarrow> Inr (r\<lparr>backend := Some (Fast fb)\<rparr>,
                          s\<lparr>FellBack := True, FallbackReason := e, TestSummary.Mode := ModeFast\<rparr>))"
  by (simp add: Run_setup_def Let_def split: prod.splits option.splits)

lemma Run_setup_fatal:
  "backend r = Some b \<Longrightarrow> Setup w objs b = (Some e, b1) \<Longrightarrow>
   \<not> (TestConfig.Mode (config r) = ModeAccurate \<and> AutoFallback (config r)) \<Longrightarrow>
   Run_setup w objs r s = Inl (''backend setup failed: '' @ e, r\<lparr>backend := Some b1\<rparr>)"
  by (auto simp add: Run_setup_def Let_def)

text \<open>After the setup phases, the rest of \<open>Run\<close> cannot fail.\<close>

lemma Run_with_after_setup:
  assumes "Validate (config r) = None"
    and "Run_construct create r (newTestSummary (TestConfig.Mode (config r))) = Inr (r1, s1)"
    and "Run_setup w ress r1 s1 = Inr (r2, s2)"
    and "backend r2 = Some b2" and "BackendClient b2 = Some c"
  shows "Run_with create w r policies ress =
           Inr ((aggregate (concat (map (\<lambda>resource. concat (map (pairResults (BackendMode b2) resource) policies)) ress))
                  (s2\<lparr>SetupDuration := setupElapsed w, EvalDuration := evalElapsed w,
                      Results := concat (map (\<lambda>resource. concat (map (pairResults (BackendMode b2) resource) policies)) ress)\<rparr>))
                 \<lparr>TotalDuration := totalElapsed w\<rparr>,
                Run_teardown w r2)"
  using assms by (simp add: Run_with_def Let_def evaluatePolicies_ok)

lemma Run_with_histogram:
  assumes "Run_with create w r policies ress = Inr (s, r')"
  shows "Pass s = int (length (filter (\<lambda>x. Status x = ''pass'') (Results s))) \<and>
     Fail s = int (length (filter (\<lambda>x. Status x = ''fail'') (Results s))) \<and>
     Warn s = int (length (filter (\<lambda>x. Status x = ''warn'') (Results s))) \<and>
     Error s = int (length (filter (\<lambda>x. Status x = ''error'') (Results s))) \<and>
     Skip s = int (length (filter (\<lambda>x. Status x = ''skip'') (Results s)))"
proof -
  from assms obtain r1 s1 r2 s2 results where
    c: "Run_construct create r (newTestSummary (TestConfig.Mode (config r))) = Inr (r1, s1)"
    and su: "Run_setup w ress r1 s1 = Inr (r2, s2)"
    and s: "s = (aggregate results (s2\<lparr>SetupDuration := setupElapsed w, EvalDuration := evalElapsed w,
                   Results := results\<rparr>))\<lparr>TotalDuration := totalElapsed w\<rparr>"
    by (auto simp: Run_with_def Let_def split: option.splits sum.splits prod.splits)
  from c have "Pass s1 = 0 \<and> Fail s1 = 0 \<and> Warn s1 = 0 \<and> Error s1 = 0 \<and> Skip s1 = 0"
    by (auto simp: Run_construct_def newTestSummary_def Let_def split: sum.splits if_splits)
  with su have z: "Pass s2 = 0 \<and> Fail s2 = 0 \<and> Warn s2 = 0 \<and> Error s2 = 0 \<and> Skip s2 = 0"
    by (auto simp: Run_setup_def Let_def split: sum.splits if_splits option.splits prod.splits)
  show ?thesis
    by (simp add: s aggregate_Pass aggregate_Fail aggregate_Warn aggregate_Error aggregate_Skip z)
qed

text \<open>The runner after the construction phase has fallen back.\<close>

lemma setMode_simps [simp]:
  "TestConfig.Mode (config (setMode m r)) = m"
  "AutoFallback (config (setMode m r)) = AutoFallback (config r)"
  "backend (setMode m r) = backend r"
  by (simp_all add: setMode_def)

lemma ModeFast_neq_ModeAccurate [simp]: "ModeFast \<noteq> ModeAccurate" "ModeAccurate \<noteq> ModeFast"
  by (simp_all add: ModeFast_def ModeAccurate_def)

lemma Run_teardown_config [simp]: "config (Run_teardown w r) = config r"
  by (simp add: Run_teardown_def split: option.splits)

lemma Run_teardown_backend:
  "backend r = Some b \<Longrightarrow> backend (Run_teardown w r) = Some (snd (Teardown w b))"
  by (simp add: Run_teardown_def)

lemma fastBackend_Setup_fst:
  "fst (fastBackend_Setup w objs b) = (case fakeNewClient w of None \<Rightarrow> None
      | Some err \<Rightarrow> Some (''failed to create fake client: '' @ err))"
  by (simp add: fastBackend_Setup_def Let_def split: option.splits)

lemma accurateBackend_Setup_start_fails:
  "envtestStart w = Some err \<Longrightarrow>
   accurateBackend_Setup w objs b =
     (Some (''failed to start envtest environment: '' @ err @
            '' (ensure envtest binaries are installed via '' @ [CHR 0x27] @
            ''setup-envtest use'' @ [CHR 0x27] @ '')''), b\<lparr>started := True\<rparr>)"
  by (simp add: accurateBackend_Setup_def Let_def)

lemma Validate_testConfig [simp]:
  "Validate (testConfig mode fallback) = None \<longleftrightarrow> mode = ModeFast \<or> mode = ModeAccurate"
  by (auto simp: Validate_def testConfig_def)

lemma testConfig_simps [simp]:
  "TestConfig.Mode (testConfig mode fallback) = mode"
  "AutoFallback (testConfig mode fallback) = fallback"
  "CRDPaths (testConfig mode fallback) = []"
  by (simp_all add: testConfig_def)

lemma NewTestRunner_simps [simp]:
  "config (NewTestRunner c) = c" "backend (NewTestRunner c) = None"
  by (simp_all add: NewTestRunner_def)

lemma createWithoutAccurate_simps [simp]:
  "TestConfig.Mode (config r) = ModeAccurate \<Longrightarrow>
     createWithoutAccurate r = Inl ''accurate backend unavailable''"
  "TestConfig.Mode (config r) = ModeFast \<Longrightarrow> createWithoutAccurate r = Inr (Fast newFastBackend)"
  by (simp_all add: createWithoutAccurate_def createBackend_def)

lemma createBackend_simps [simp]:
  "TestConfig.Mode (config r) = ModeAccurate \<Longrightarrow>
     createBackend r = Inr (Accurate (newAccurateBackend (CRDPaths (config r))))"
  "TestConfig.Mode (config r) = ModeFast \<Longrightarrow> createBackend r = Inr (Fast newFastBackend)"
  by (simp_all add: createBackend_def)

lemma world_simps [simp]:
  "fakeNewClient quietWorld = None" "envtestStart quietWorld = None"
  "fakeNewClient noEnvtestWorld = None" "envtestStart noEnvtestWorld = Some ''no binaries''"
  "fakeNewClient (w\<lparr>fakeNewClient := x\<rparr>) = x"
  "envtestStart (w\<lparr>fakeNewClient := x\<rparr>) = envtestStart w"
  by (simp_all add: quietWorld_def noEnvtestWorld_def)

section \<open>The runner: fallback\<close>

text \<open>
  C2. \<open>Run\<close> is \<open>Run_with createBackend\<close>; the statement is about \<open>Run_with\<close> for any
  constructor \<open>create\<close>, since \<open>createBackend\<close> cannot fail once \<open>Validate\<close> has
  accepted the mode. For a valid configuration:
  \<^item> when construction fails in accurate mode with auto-fallback enabled, the runner's mode
    is switched to fast and construction is retried; if the retry and the setup of the
    backend it returns succeed, \<open>Run\<close> returns a summary with \<open>FellBack\<close> set and the
    text of the first failure as \<open>FallbackReason\<close>; if the retry fails, or the setup of
    the backend it returns fails, \<open>Run\<close> returns that second error and falls back no
    further;
  \<^item> when construction fails in fast mode or with auto-fallback disabled, \<open>Run\<close> returns
    the failure;
  \<^item> when the setup of the constructed backend fails in accurate mode with auto-fallback
    enabled, a new fast backend is set up; if that succeeds, \<open>Run\<close> returns a summary
    with \<open>FellBack\<close> set and the text of the setup failure as \<open>FallbackReason\<close>, and
    the runner's backend is that fast backend; if it fails, \<open>Run\<close> returns that error;
  \<^item> when the setup fails in fast mode or with auto-fallback disabled, \<open>Run\<close> returns the
    failure;
  \<^item> whenever a returned summary has \<open>FellBack\<close> set, its \<open>FallbackReason\<close> is the text
    of the construction failure or of the setup failure of the first backend.
\<close>

theorem C2_fallback_policy:
  assumes valid: "Validate (config r) = None"
  shows
   "(create r = Inl e \<and> TestConfig.Mode (config r) = ModeAccurate \<and> AutoFallback (config r) \<and>
     create (setMode ModeFast r) = Inr b \<and> Setup w ress b = (None, b1) \<longrightarrow>
       (\<exists>s r'. Run_with create w r policies ress = Inr (s, r') \<and>
          FellBack s \<and> FallbackReason s = e \<and>
          TestConfig.Mode (config r') = ModeFast \<and> backend r' = Some (snd (Teardown w b1)))) \<and>
    (create r = Inl e \<and> TestConfig.Mode (config r) = ModeAccurate \<and> AutoFallback (config r) \<and>
     create (setMode ModeFast r) = Inl e2 \<longrightarrow>
       Run_with create w r policies ress =
         Inl (''both accurate and fast mode setup failed: '' @ e2, setMode ModeFast r)) \<and>
    (create r = Inl e \<and> TestConfig.Mode (config r) = ModeAccurate \<and> AutoFallback (config r) \<and>
     create (setMode ModeFast r) = Inr b \<and> Setup w ress b = (Some e2, b1) \<longrightarrow>
       Run_with create w r policies ress =
         Inl (''backend setup failed: '' @ e2, (setMode ModeFast r)\<lparr>backend := Some b1\<rparr>)) \<and>
    (create r = Inl e \<and> (TestConfig.Mode (config r) = ModeFast \<or> \<not> AutoFallback (config r)) \<longrightarrow>
       Run_with create w r policies ress = Inl (''backend setup failed: '' @ e, r)) \<and>
    (create r = Inr b \<and> Setup w ress b = (Some e, b1) \<and>
     TestConfig.Mode (config r) = ModeAccurate \<and> AutoFallback (config r) \<and>
     fastBackend_Setup w ress newFastBackend = (None, fb) \<longrightarrow>
       (\<exists>s r'. Run_with create w r policies ress = Inr (s, r') \<and>
          FellBack s \<and> FallbackReason s = e \<and>
          backend r' = Some (Fast (snd (fastBackend_Teardown fb))))) \<and>
    (create r = Inr b \<and> Setup w ress b = (Some e, b1) \<and>
     TestConfig.Mode (config r) = ModeAccurate \<and> AutoFallback (config r) \<and>
     fastBackend_Setup w ress newFastBackend = (Some e2, fb) \<longrightarrow>
       Run_with create w r policies ress =
         Inl (''fallback fast mode setup failed: '' @ e2, r\<lparr>backend := Some b1\<rparr>)) \<and>
    (create r = Inr b \<and> Setup w ress b = (Some e, b1) \<and>
     (TestConfig.Mode (config r) = ModeFast \<or> \<not> AutoFallback (config r)) \<longrightarrow>
       Run_with create w r policies ress =
         Inl (''backend setup failed: '' @ e, r\<lparr>backend := Some b1\<rparr>)) \<and>
    (Run_with create w r policies ress = Inr (s, r') \<and> FellBack s \<longrightarrow>
       create r = Inl (FallbackReason s) \<or>
       (\<exists>b b1. create r = Inr b \<and> Setup w ress b = (Some (FallbackReason s), b1)))"
proof (intro conjI impI; (elim conjE)?)
  let ?s0 = "newTestSummary (TestConfig.Mode (config r))"
  {
    assume c: "create r = Inl e" and m: "TestConfig.Mode (config r) = ModeAccurate"
      and f: "AutoFallback (config r)" and c2: "create (setMode ModeFast r) = Inr b"
      and su: "Setup w ress b = (None, b1)"
    let ?r1 = "(setMode ModeFast r)\<lparr>backend := Some b\<rparr>"
    let ?s1 = "?s0\<lparr>FellBack := True, FallbackReason := e\<rparr>"
    have 1: "Run_construct create r ?s0 = Inr (?r1, ?s1)"
      using Run_construct_fallback [of create r e ?s0] c m f c2 by simp
    have 2: "Run_setup w ress ?r1 ?s1 = Inr (?r1\<lparr>backend := Some b1\<rparr>, ?s1)"
      by (rule Run_setup_ok [OF _ su]) simp
    from Setup_ok [OF su] obtain cl where cl: "BackendClient b1 = Some cl" by blast
    show "\<exists>s r'. Run_with create w r policies ress = Inr (s, r') \<and>
          FellBack s \<and> FallbackReason s = e \<and>
          TestConfig.Mode (config r') = ModeFast \<and> backend r' = Some (snd (Teardown w b1))"
      using Run_with_after_setup [OF valid 1 2 _ cl, of policies]
      by (simp add: Run_teardown_backend)
  }
  {
    assume c: "create r = Inl e" and m: "TestConfig.Mode (config r) = ModeAccurate"
      and f: "AutoFallback (config r)" and c2: "create (setMode ModeFast r) = Inl e2"
    show "Run_with create w r policies ress =
         Inl (''both accurate and fast mode setup failed: '' @ e2, setMode ModeFast r)"
      using Run_construct_fallback [of create r e ?s0] c m f c2 valid
      by (simp add: Run_with_def)
  }
  {
    assume c: "create r = Inl e" and m: "TestConfig.Mode (config r) = ModeAccurate"
      and f: "AutoFallback (config r)" and c2: "create (setMode ModeFast r) = Inr b"
      and su: "Setup w ress b = (Some e2, b1)"
    let ?r1 = "(setMode ModeFast r)\<lparr>backend := Some b\<rparr>"
    let ?s1 = "?s0\<lparr>FellBack := True, FallbackReason := e\<rparr>"
    have 1: "Run_construct create r ?s0 = Inr (?r1, ?s1)"
      using Run_construct_fallback [of create r e ?s0] c m f c2 by simp
    have 2: "Run_setup w ress ?r1 ?s1 = Inl (''backend setup failed: '' @ e2, ?r1\<lparr>backend := Some b1\<rparr>)"
      by (rule Run_setup_fatal [OF _ su]) simp_all
    show "Run_with create w r policies ress =
         Inl (''backend setup failed: '' @ e2, (setMode ModeFast r)\<lparr>backend := Some b1\<rparr>)"
      using valid 1 2 by (simp add: Run_with_def)
  }
  {
    assume c: "create r = Inl e"
      and nf: "TestConfig.Mode (config r) = ModeFast \<or> \<not> AutoFallback (config r)"
    from nf have "\<not> (TestConfig.Mode (config r) = ModeAccurate \<and> AutoFallback (config r))"
      by auto
    from Run_construct_fatal [of create r e ?s0] c this valid
    show "Run_with create w r policies ress = Inl (''backend setup failed: '' @ e, r)"
      by (simp add: Run_with_def)
  }
  {
    assume c: "create r = Inr b" and su: "Setup w ress b = (Some e, b1)"
      and m: "TestConfig.Mode (config r) = ModeAccurate" and f: "AutoFallback (config r)"
      and fs: "fastBackend_Setup w ress newFastBackend = (None, fb)"
    let ?r1 = "r\<lparr>backend := Some b\<rparr>"
    let ?s2 = "?s0\<lparr>FellBack := True, FallbackReason := e, TestSummary.Mode := ModeFast\<rparr>"
    have 1: "Run_construct create r ?s0 = Inr (?r1, ?s0)"
      using Run_construct_ok [of create r b ?s0] c by simp
    have 2: "Run_setup w ress ?r1 ?s0 = Inr (?r1\<lparr>backend := Some (Fast fb)\<rparr>, ?s2)"
      using Run_setup_fallback [of ?r1 b w ress e b1 ?s0] su m f fs by simp
    have cl: "BackendClient (Fast fb) = Some FakeClient"
      using fastBackend_Setup_ok [OF fs] by simp
    show "\<exists>s r'. Run_with create w r policies ress = Inr (s, r') \<and>
          FellBack s \<and> FallbackReason s = e \<and>
          backend r' = Some (Fast (snd (fastBackend_Teardown fb)))"
      using Run_with_after_setup [OF valid 1 2 _ cl, of policies]
      by (simp add: Run_teardown_backend split: prod.splits)
  }
  {
    assume c: "create r = Inr b" and su: "Setup w ress b = (Some e, b1)"
      and m: "TestConfig.Mode (config r) = ModeAccurate" and f: "AutoFallback (config r)"
      and fs: "fastBackend_Setup w ress newFastBackend = (Some e2, fb)"
    let ?r1 = "r\<lparr>backend := Some b\<rparr>"
    have 1: "Run_construct create r ?s0 = Inr (?r1, ?s0)"
      using Run_construct_ok [of create r b ?s0] c by simp
    have 2: "Run_setup w ress ?r1 ?s0 =
               Inl (''fallback fast mode setup failed: '' @ e2, ?r1\<lparr>backend := Some b1\<rparr>)"
      using Run_setup_fallback [of ?r1 b w ress e b1 ?s0] su m f fs by simp
    show "Run_with create w r policies ress =
         Inl (''fallback fast mode setup failed: '' @ e2, r\<lparr>backend := Some b1\<rparr>)"
      using valid 1 2 by (simp add: Run_with_def)
  }
  {
    assume c: "create r = Inr b" and su: "Setup w ress b = (Some e, b1)"
      and nf: "TestConfig.Mode (config r) = ModeFast \<or> \<not> AutoFallback (config r)"
    let ?r1 = "r\<lparr>backend := Some b\<rparr>"
    have 1: "Run_construct create r ?s0 = Inr (?r1, ?s0)"
      using Run_construct_ok [of create r b ?s0] c by simp
    have 2: "Run_setup w ress ?r1 ?s0 = Inl (''backend setup failed: '' @ e, ?r1\<lparr>backend := Some b1\<rparr>)"
      using Run_setup_fatal [of ?r1 b w ress e b1 ?s0] su nf by auto
    show "Run_with create w r policies ress =
         Inl (''backend setup failed: '' @ e, r\<lparr>backend := Some b1\<rparr>)"
      using valid 1 2 by (simp add: Run_with_def)
  }
  {
    assume run: "Run_with create w r policies ress = Inr (s, r')" and fb: "FellBack s"
    show "create r = Inl (FallbackReason s) \<or>
       (\<exists>b b1. create r = Inr b \<and> Setup w ress b = (Some (FallbackReason s), b1))"
      using run fb
      by (auto simp: Run_with_def Run_construct_def Run_setup_def Let_def newTestSummary_def
          split: option.splits sum.splits prod.splits if_splits)
  }
qed

theorem C2_fallback_policy_witness:
  "(\<exists>s r'. Run_with createWithoutAccurate quietWorld (NewTestRunner (testConfig ModeAccurate True)) [] []
             = Inr (s, r') \<and>
      FellBack s \<and> FallbackReason s = ''accurate backend unavailable'' \<and>
      TestConfig.Mode (config r') = ModeFast) \<and>
   Run_with createNothing quietWorld (NewTestRunner (testConfig ModeAccurate True)) [] [] =
     Inl (''both accurate and fast mode setup failed: no backend for mode fast'',
          setMode ModeFast (NewTestRunner (testConfig ModeAccurate True))) \<and>
   (\<exists>r'. Run_with createWithoutAccurate (quietWorld\<lparr>fakeNewClient := Some ''refused''\<rparr>)
            (NewTestRunner (testConfig ModeAccurate True)) [] [] =
          Inl (''backend setup failed: failed to create fake client: refused'', r')) \<and>
   Run_with createWithoutAccurate quietWorld (NewTestRunner (testConfig ModeAccurate False)) [] [] =
     Inl (''backend setup failed: accurate backend unavailable'',
          NewTestRunner (testConfig ModeAccurate False)) \<and>
   (\<exists>s r'. Run_with createBackend noEnvtestWorld (NewTestRunner (testConfig ModeAccurate True)) [] []
             = Inr (s, r') \<and>
      FellBack s \<and>
      FallbackReason s = ''failed to start envtest environment: no binaries'' @
            '' (ensure envtest binaries are installed via '' @ [CHR 0x27] @
            ''setup-envtest use'' @ [CHR 0x27] @ '')'') \<and>
   (\<exists>r'. Run_with createBackend (noEnvtestWorld\<lparr>fakeNewClient := Some ''refused''\<rparr>)
            (NewTestRunner (testConfig ModeAccurate True)) [] [] =
          Inl (''fallback fast mode setup failed: failed to create fake client: refused'', r')) \<and>
   (\<exists>r'. Run_with createBackend noEnvtestWorld (NewTestRunner (testConfig ModeAccurate False)) [] [] =
          Inl (''backend setup failed: failed to start envtest environment: no binaries'' @
            '' (ensure envtest binaries are installed via '' @ [CHR 0x27] @
            ''setup-envtest use'' @ [CHR 0x27] @ '')'', r'))"
proof -
  let ?rA = "NewTestRunner (testConfig ModeAccurate True)"
  let ?rN = "NewTestRunner (testConfig ModeAccurate False)"
  let ?refused = "quietWorld\<lparr>fakeNewClient := Some ''refused''\<rparr>"
  let ?refused2 = "noEnvtestWorld\<lparr>fakeNewClient := Some ''refused''\<rparr>"
  let ?startErr = "''failed to start envtest environment: no binaries'' @
            '' (ensure envtest binaries are installed via '' @ [CHR 0x27] @
            ''setup-envtest use'' @ [CHR 0x27] @ '')''"
  have vA: "Validate (config ?rA) = None" and vN: "Validate (config ?rN) = None"
    by simp_all
  have fastOk: "\<And>w. fakeNewClient w = None \<Longrightarrow>
      Setup w [] (Fast newFastBackend) = (None, snd (Setup w [] (Fast newFastBackend)))"
    using fastBackend_Setup_fst [of _ "[]" newFastBackend]
    by (auto simp: prod_eq_iff split: prod.splits)
  have fastBad: "\<And>w. fakeNewClient w = Some ''refused'' \<Longrightarrow>
      Setup w [] (Fast newFastBackend) =
        (Some ''failed to create fake client: refused'', snd (Setup w [] (Fast newFastBackend)))"
    using fastBackend_Setup_fst [of _ "[]" newFastBackend]
    by (auto simp: prod_eq_iff split: prod.splits)
  have fastOk': "\<And>w. fakeNewClient w = None \<Longrightarrow>
      fastBackend_Setup w [] newFastBackend = (None, snd (fastBackend_Setup w [] newFastBackend))"
    using fastBackend_Setup_fst [of _ "[]" newFastBackend]
    by (auto simp: prod_eq_iff)
  have fastBad': "\<And>w. fakeNewClient w = Some ''refused'' \<Longrightarrow>
      fastBackend_Setup w [] newFastBackend =
        (Some ''failed to create fake client: refused'', snd (fastBackend_Setup w [] newFastBackend))"
    using fastBackend_Setup_fst [of _ "[]" newFastBackend]
    by (auto simp: prod_eq_iff)
  have accBad: "\<And>w b. envtestStart w = Some ''no binaries'' \<Longrightarrow>
      Setup w [] (Accurate b) = (Some ?startErr, Accurate (b\<lparr>started := True\<rparr>))"
    by (simp add: accurateBackend_Setup_start_fails)
  have 1: "\<exists>s r'. Run_with createWithoutAccurate quietWorld ?rA [] [] = Inr (s, r') \<and>
      FellBack s \<and> FallbackReason s = ''accurate backend unavailable'' \<and>
      TestConfig.Mode (config r') = ModeFast"
    using C2_fallback_policy [OF vA, THEN conjunct1, rule_format, where create = createWithoutAccurate
        and e = "''accurate backend unavailable''" and b = "Fast newFastBackend"
        and w = quietWorld and ress = "[]" and policies = "[]"
        and ?b1.0 = "snd (Setup quietWorld [] (Fast newFastBackend))"]
      fastOk [of quietWorld]
    by (simp; blast)
  have 2: "Run_with createNothing quietWorld ?rA [] [] =
     Inl (''both accurate and fast mode setup failed: no backend for mode fast'', setMode ModeFast ?rA)"
    using C2_fallback_policy [OF vA, THEN conjunct2, THEN conjunct1, rule_format, where create = createNothing
        and e = "''no backend for mode accurate''" and ?e2.0 = "''no backend for mode fast''"
        and w = quietWorld and ress = "[]" and policies = "[]"]
    by (simp add: createNothing_def ModeFast_def ModeAccurate_def)
  have 3: "\<exists>r'. Run_with createWithoutAccurate ?refused ?rA [] [] =
          Inl (''backend setup failed: failed to create fake client: refused'', r')"
    using C2_fallback_policy [OF vA, THEN conjunct2, THEN conjunct2, THEN conjunct1, rule_format, where create = createWithoutAccurate
        and e = "''accurate backend unavailable''" and b = "Fast newFastBackend"
        and w = ?refused and ress = "[]" and policies = "[]"
        and ?b1.0 = "snd (Setup ?refused [] (Fast newFastBackend))"
        and ?e2.0 = "''failed to create fake client: refused''"]
      fastBad [of ?refused]
    by simp
  have 4: "Run_with createWithoutAccurate quietWorld ?rN [] [] =
     Inl (''backend setup failed: accurate backend unavailable'', ?rN)"
    using C2_fallback_policy [OF vN, THEN conjunct2, THEN conjunct2, THEN conjunct2, THEN conjunct1, rule_format, where create = createWithoutAccurate
        and e = "''accurate backend unavailable''" and w = quietWorld and ress = "[]"
        and policies = "[]"]
    by simp
  have 5: "\<exists>s r'. Run_with createBackend noEnvtestWorld ?rA [] [] = Inr (s, r') \<and>
      FellBack s \<and> FallbackReason s = ?startErr"
    using C2_fallback_policy [OF vA, THEN conjunct2, THEN conjunct2, THEN conjunct2, THEN conjunct2, THEN conjunct1, rule_format, where create = createBackend and e = ?startErr
        and b = "Accurate (newAccurateBackend [])" and w = noEnvtestWorld and ress = "[]"
        and policies = "[]"
        and ?b1.0 = "Accurate ((newAccurateBackend [])\<lparr>started := True\<rparr>)"
        and fb = "snd (fastBackend_Setup noEnvtestWorld [] newFastBackend)"]
      fastOk' [of noEnvtestWorld] accBad [of noEnvtestWorld]
    by (simp; blast)
  have 6: "\<exists>r'. Run_with createBackend ?refused2 ?rA [] [] =
          Inl (''fallback fast mode setup failed: failed to create fake client: refused'', r')"
    using C2_fallback_policy [OF vA, THEN conjunct2, THEN conjunct2, THEN conjunct2, THEN conjunct2, THEN conjunct2, THEN conjunct1, rule_format, where create = createBackend and e = ?startErr
        and b = "Accurate (newAccurateBackend [])" and w = ?refused2 and ress = "[]"
        and policies = "[]"
        and ?b1.0 = "Accurate ((newAccurateBackend [])\<lparr>started := True\<rparr>)"
        and ?e2.0 = "''failed to create fake client: refused''"
        and fb = "snd (fastBackend_Setup ?refused2 [] newFastBackend)"]
      fastBad' [of ?refused2] accBad [of ?refused2]
    by (simp add: noEnvtestWorld_def quietWorld_def)
  have 7: "\<exists>r'. Run_with createBackend noEnvtestWorld ?rN [] [] =
          Inl (''backend setup failed: '' @ ?startErr, r')"
    using C2_fallback_policy [OF vN, THEN conjunct2, THEN conjunct2, THEN conjunct2, THEN conjunct2, THEN conjunct2, THEN conjunct2, THEN conjunct1, rule_format, where create = createBackend and e = ?startErr
        and b = "Accurate (newAccurateBackend [])" and w = noEnvtestWorld and ress = "[]"
        and policies = "[]"
        and ?b1.0 = "Accurate ((newAccurateBackend [])\<lparr>started := True\<rparr>)"]
      accBad [of noEnvtestWorld]
    by simp
  from 1 2 3 4 5 6 7 show ?thesis by simp
qed

section \<open>The runner: the paths through Run\<close>

lemma Run_with_InrD:
  assumes "Run_with create w r policies ress = Inr (s, r')"
  shows "\<exists>r1 s1 r2 s2 b2 c.
           Validate (config r) = None \<and>
           Run_construct create r (newTestSummary (TestConfig.Mode (config r))) = Inr (r1, s1) \<and>
           Run_setup w ress r1 s1 = Inr (r2, s2) \<and>
           backend r2 = Some b2 \<and> BackendClient b2 = Some c \<and>
           Results s = concat (map (\<lambda>resource. concat (map (pairResults (BackendMode b2) resource) policies)) ress) \<and>
           TestSummary.Mode s = TestSummary.Mode s2 \<and> FellBack s = FellBack s2 \<and>
           FallbackReason s = FallbackReason s2 \<and>
           r' = Run_teardown w r2"
proof -
  from assms obtain r1 s1 r2 s2 results where
    v: "Validate (config r) = None"
    and c: "Run_construct create r (newTestSummary (TestConfig.Mode (config r))) = Inr (r1, s1)"
    and su: "Run_setup w ress r1 s1 = Inr (r2, s2)"
    and ev: "evaluatePolicies r2 policies ress = Inr results"
    and s: "s = (aggregate results (s2\<lparr>SetupDuration := setupElapsed w, EvalDuration := evalElapsed w,
                   Results := results\<rparr>))\<lparr>TotalDuration := totalElapsed w\<rparr>"
    and r': "r' = Run_teardown w r2"
    by (auto simp: Run_with_def Let_def split: option.splits sum.splits prod.splits)
  from ev obtain b2 c where b2: "backend r2 = Some b2" "BackendClient b2 = Some c"
    by (auto simp: evaluatePolicies_def split: option.splits)
  from evaluatePolicies_ok [OF b2, of policies ress] ev
  have "results = concat (map (\<lambda>resource. concat (map (pairResults (BackendMode b2) resource) policies)) ress)"
    by simp
  with v c su b2 s r' show ?thesis by simp
qed

lemma Run_fast:
  assumes "Validate (config r) = None" and "TestConfig.Mode (config r) = ModeFast"
    and "fakeNewClient w = None"
  shows "\<exists>s r'. Run w r policies ress = Inr (s, r') \<and>
           Results s = concat (map (\<lambda>resource. concat (map (pairResults ModeFast resource) policies)) ress) \<and>
           TestSummary.Mode s = ModeFast \<and> \<not> FellBack s"
proof -
  let ?s0 = "newTestSummary (TestConfig.Mode (config r))"
  let ?b1 = "snd (fastBackend_Setup w ress newFastBackend)"
  have su: "Setup w ress (Fast newFastBackend) = (None, Fast ?b1)"
    using fastBackend_Setup_fst [of w ress newFastBackend] assms(3)
    by (auto simp: prod_eq_iff split: prod.splits)
  have 1: "Run_construct createBackend r ?s0 = Inr (r\<lparr>backend := Some (Fast newFastBackend)\<rparr>, ?s0)"
    using Run_construct_ok [of createBackend r "Fast newFastBackend" ?s0] assms(2) by simp
  have 2: "Run_setup w ress (r\<lparr>backend := Some (Fast newFastBackend)\<rparr>) ?s0 =
             Inr (r\<lparr>backend := Some (Fast newFastBackend)\<rparr>\<lparr>backend := Some (Fast ?b1)\<rparr>, ?s0)"
    by (rule Run_setup_ok [OF _ su]) simp
  from Setup_ok [OF su] obtain cl where cl: "BackendClient (Fast ?b1) = Some cl" by blast
  show ?thesis
    using Run_with_after_setup [OF assms(1) 1 2 _ cl, of policies] assms(2)
    by (simp add: Run_def newTestSummary_def)
qed

lemma pairResults_examples:
  "pairResults m (newUnstructuredPod ns nm) (newTestClusterPolicy n rn [''Pod''] True False False) =
     [\<lparr>PolicyName = n, RuleName = rn, ResourceName = nm, ResourceNamespace = ns,
       ResourceKind = ''Pod'', Status = ''pass'',
       Message = ''validation rule '' @ [CHR 0x27] @ rn @ [CHR 0x27] @ '' evaluated in '' @ m @ '' mode'',
       Mode = m\<rparr>]"
  "pairResults m (newUnstructuredPod ns nm) (newTestClusterPolicy n rn [''Deployment''] True False False) =
     [\<lparr>PolicyName = n, RuleName = '''', ResourceName = nm, ResourceNamespace = ns,
       ResourceKind = ''Pod'', Status = ''skip'',
       Message = ''policy does not match resource'', Mode = m\<rparr>]"
  by (simp_all add: pairResults_def policyMatchesResource_def newUnstructuredPod_def
      newTestClusterPolicy_def GetKind_def evaluatePolicyRules_def evaluateRule_def)

lemma pairResults_Mode: "x \<in> set (pairResults m resource pol) \<Longrightarrow> TestResult.Mode x = m"
  by (auto simp: pairResults_def evaluatePolicyRules_def evaluateRule_def Let_def split: if_splits)

lemma Run_with_construct_fallback:
  assumes valid: "Validate (config r) = None"
    and c: "create r = Inl e" and m: "TestConfig.Mode (config r) = ModeAccurate"
    and f: "AutoFallback (config r)" and c2: "create (setMode ModeFast r) = Inr b"
    and su: "Setup w ress b = (None, b1)"
  shows "\<exists>s. Run_with create w r policies ress =
               Inr (s, Run_teardown w ((setMode ModeFast r)\<lparr>backend := Some b1\<rparr>)) \<and>
             FellBack s \<and> FallbackReason s = e \<and> TestSummary.Mode s = ModeAccurate \<and>
             Results s = concat (map (\<lambda>resource. concat (map (pairResults (BackendMode b) resource) policies)) ress)"
proof -
  let ?s0 = "newTestSummary (TestConfig.Mode (config r))"
  let ?r1 = "(setMode ModeFast r)\<lparr>backend := Some b\<rparr>"
  let ?s1 = "?s0\<lparr>FellBack := True, FallbackReason := e\<rparr>"
  have 1: "Run_construct create r ?s0 = Inr (?r1, ?s1)"
    using Run_construct_fallback [of create r e ?s0] c m f c2 by simp
  have 2: "Run_setup w ress ?r1 ?s1 = Inr (?r1\<lparr>backend := Some b1\<rparr>, ?s1)"
    by (rule Run_setup_ok [OF _ su]) simp
  from Setup_ok [OF su] obtain cl where cl: "BackendClient b1 = Some cl"
    and bm: "BackendMode b1 = BackendMode b" by blast
  show ?thesis
    using Run_with_after_setup [OF valid 1 2 _ cl, of policies] m bm
    by (simp add: newTestSummary_def)
qed

lemma Run_with_setup_fallback:
  assumes valid: "Validate (config r) = None"
    and c: "create r = Inr b" and su: "Setup w ress b = (Some e, b1)"
    and m: "TestConfig.Mode (config r) = ModeAccurate" and f: "AutoFallback (config r)"
    and fs: "fastBackend_Setup w ress newFastBackend = (None, fb)"
  shows "\<exists>s. Run_with create w r policies ress =
               Inr (s, Run_teardown w (r\<lparr>backend := Some (Fast fb)\<rparr>)) \<and>
             FellBack s \<and> FallbackReason s = e \<and> TestSummary.Mode s = ModeFast \<and>
             Results s = concat (map (\<lambda>resource. concat (map (pairResults ModeFast resource) policies)) ress)"
proof -
  let ?s0 = "newTestSummary (TestConfig.Mode (config r))"
  let ?r1 = "r\<lparr>backend := Some b\<rparr>"
  let ?s2 = "?s0\<lparr>FellBack := True, FallbackReason := e, TestSummary.Mode := ModeFast\<rparr>"
  have 1: "Run_construct create r ?s0 = Inr (?r1, ?s0)"
    using Run_construct_ok [of create r b ?s0] c by simp
  have 2: "Run_setup w ress ?r1 ?s0 = Inr (?r1\<lparr>backend := Some (Fast fb)\<rparr>, ?s2)"
    using Run_setup_fallback [of ?r1 b w ress e b1 ?s0] su m f fs by simp
  have cl: "BackendClient (Fast fb) = Some FakeClient"
    using fastBackend_Setup_ok [OF fs] by simp
  show ?thesis
    using Run_with_after_setup [OF valid 1 2 _ cl, of policies]
    by (simp add: newTestSummary_def)
qed

lemma Run_with_plain:
  assumes valid: "Validate (config r) = None"
    and c: "create r = Inr b" and su: "Setup w ress b = (None, b1)"
  shows "\<exists>s. Run_with create w r policies ress =
               Inr (s, Run_teardown w (r\<lparr>backend := Some b1\<rparr>)) \<and>
             \<not> FellBack s \<and> TestSummary.Mode s = TestConfig.Mode (config r) \<and>
             Results s = concat (map (\<lambda>resource. concat (map (pairResults (BackendMode b) resource) policies)) ress)"
proof -
  let ?s0 = "newTestSummary (TestConfig.Mode (config r))"
  let ?r1 = "r\<lparr>backend := Some b\<rparr>"
  have 1: "Run_construct create r ?s0 = Inr (?r1, ?s0)"
    using Run_construct_ok [of create r b ?s0] c by simp
  have 2: "Run_setup w ress ?r1 ?s0 = Inr (?r1\<lparr>backend := Some b1\<rparr>, ?s0)"
    by (rule Run_setup_ok [OF _ su]) simp
  from Setup_ok [OF su] obtain cl where cl: "BackendClient b1 = Some cl"
    and bm: "BackendMode b1 = BackendMode b" by blast
  show ?thesis
    using Run_with_after_setup [OF valid 1 2 _ cl, of policies] bm
    by (simp add: newTestSummary_def)
qed

lemma accurateBackend_Setup_quiet:
  "envtestStart w = None \<Longrightarrow> dynamicNewForConfig w = None \<Longrightarrow> kubernetesNewForConfig w = None \<Longrightarrow>
   dclientNewClient w = None \<Longrightarrow> fst (accurateBackend_Setup w objs b) = None"
  by (simp add: accurateBackend_Setup_def Let_def)

lemma Setup_fast_ok:
  "fakeNewClient w = None \<Longrightarrow>
     Setup w objs (Fast b) = (None, Fast (snd (fastBackend_Setup w objs b)))"
  using fastBackend_Setup_fst [of w objs b] by (auto simp: prod_eq_iff split: prod.splits)

lemma fastBackend_Setup_ok':
  "fakeNewClient w = None \<Longrightarrow>
     fastBackend_Setup w objs b = (None, snd (fastBackend_Setup w objs b))"
  using fastBackend_Setup_fst [of w objs b] by (auto simp: prod_eq_iff)

lemma Setup_accurate_ok:
  "envtestStart w = None \<Longrightarrow> dynamicNewForConfig w = None \<Longrightarrow> kubernetesNewForConfig w = None \<Longrightarrow>
   dclientNewClient w = None \<Longrightarrow>
     Setup w objs (Accurate b) = (None, Accurate (snd (accurateBackend_Setup w objs b)))"
  using accurateBackend_Setup_quiet [of w objs b] by (auto simp: prod_eq_iff split: prod.splits)

lemma Setup_accurate_start_fails:
  "envtestStart w = Some err \<Longrightarrow>
     Setup w objs (Accurate b) =
       (Some (''failed to start envtest environment: '' @ err @
            '' (ensure envtest binaries are installed via '' @ [CHR 0x27] @
            ''setup-envtest use'' @ [CHR 0x27] @ '')''), Accurate (b\<lparr>started := True\<rparr>))"
  by (simp add: accurateBackend_Setup_start_fails)

lemma quietWorld_simps [simp]:
  "dynamicNewForConfig quietWorld = None" "kubernetesNewForConfig quietWorld = None"
  "dclientNewClient quietWorld = None"
  by (simp_all add: quietWorld_def)

lemma length_pairResults_single:
  "length (Rules pol) = 1 \<Longrightarrow> length (pairResults m resource pol) = 1"
  by (simp add: pairResults_def evaluatePolicyRules_def)

lemma length_concat_single:
  "(\<And>x. x \<in> set xs \<Longrightarrow> length (f x) = 1) \<Longrightarrow> length (concat (map f xs)) = length xs"
  by (induction xs) auto

lemma length_concat_const:
  "(\<And>x. x \<in> set xs \<Longrightarrow> length (f x) = n) \<Longrightarrow> length (concat (map f xs)) = length xs * n"
  by (induction xs) auto

section \<open>The runner: evaluation, counts and the mode of the summary\<close>

text \<open>
  C3. For a runner whose backend has a client, \<open>evaluatePolicies\<close> returns, resource by
  resource and policy by policy, the results of each (policy, resource) pair:
  \<^item> one policy with kinds \<open>Pod\<close> and a validation rule against one Pod gives exactly one
    result, with status \<open>pass\<close>; one policy with kinds \<open>Deployment\<close> against one Pod gives
    exactly one result, with status \<open>skip\<close>;
  \<^item> when every policy has exactly one rule, the number of results is the number of
    resources times the number of policies, nine for three and three;
  \<^item> a policy none of whose rules lists the resource's kind gives exactly one result, with
    status \<open>skip\<close>, the message \<open>policy does not match resource\<close> and no rule name;
  \<^item> a matching policy gives one result per rule, in the order of the rules;
  \<^item> the result of a rule names the policy, the rule and the resource, has status
    \<open>pass\<close> and a message that names the type (validation, mutation, generation, image
    verification, tried in this order) when the rule has one of the four, and status
    \<open>skip\<close> with the message \<open>no actionable rule type\<close> otherwise.
\<close>

theorem C3_evaluation:
  assumes "backend r = Some b" and "BackendClient b = Some c"
  shows
   "evaluatePolicies r policies ress =
      Inr (concat (map (\<lambda>resource. concat (map (pairResults (BackendMode b) resource) policies)) ress)) \<and>
    evaluatePolicies r [newTestClusterPolicy n rn [''Pod''] True False False]
        [newUnstructuredPod ns nm] =
      Inr [\<lparr>PolicyName = n, RuleName = rn, ResourceName = nm, ResourceNamespace = ns,
            ResourceKind = ''Pod'', Status = ''pass'',
            Message = ''validation rule '' @ [CHR 0x27] @ rn @ [CHR 0x27] @ '' evaluated in '' @
                      BackendMode b @ '' mode'',
            Mode = BackendMode b\<rparr>] \<and>
    evaluatePolicies r [newTestClusterPolicy n rn [''Deployment''] True False False]
        [newUnstructuredPod ns nm] =
      Inr [\<lparr>PolicyName = n, RuleName = '''', ResourceName = nm, ResourceNamespace = ns,
            ResourceKind = ''Pod'', Status = ''skip'',
            Message = ''policy does not match resource'', Mode = BackendMode b\<rparr>] \<and>
    ((\<forall>p \<in> set policies. length (Rules p) = 1) \<longrightarrow>
       (\<exists>results. evaluatePolicies r policies ress = Inr results \<and>
          length results = length ress * length policies)) \<and>
    (\<not> (\<exists>rule \<in> set (Rules pol). GetKind resource \<in> set (GetKinds rule)) \<longrightarrow>
       pairResults m resource pol =
         [\<lparr>PolicyName = GetName pol, RuleName = '''', ResourceName = Unstructured.Name resource,
           ResourceNamespace = Namespace resource, ResourceKind = GetKind resource,
           Status = ''skip'', Message = ''policy does not match resource'', Mode = m\<rparr>]) \<and>
    ((\<exists>rule \<in> set (Rules pol). GetKind resource \<in> set (GetKinds rule)) \<longrightarrow>
       pairResults m resource pol = map (evaluateRule pol resource m) (Rules pol) \<and>
       length (pairResults m resource pol) = length (Rules pol)) \<and>
    PolicyName (evaluateRule pol resource m rule) = GetName pol \<and>
    RuleName (evaluateRule pol resource m rule) = Rule.Name rule \<and>
    ResourceName (evaluateRule pol resource m rule) = Unstructured.Name resource \<and>
    ResourceNamespace (evaluateRule pol resource m rule) = Namespace resource \<and>
    ResourceKind (evaluateRule pol resource m rule) = GetKind resource \<and>
    TestResult.Mode (evaluateRule pol resource m rule) = m \<and>
    Status (evaluateRule pol resource m rule) =
      (if HasValidate rule \<or> HasMutate rule \<or> HasGenerate rule \<or> HasVerifyImages rule
       then ''pass'' else ''skip'') \<and>
    Message (evaluateRule pol resource m rule) =
      (if HasValidate rule \<or> HasMutate rule \<or> HasGenerate rule \<or> HasVerifyImages rule
       then (if HasValidate rule then ''validation'' else if HasMutate rule then ''mutation''
             else if HasGenerate rule then ''generation'' else ''image verification'') @
            '' rule '' @ [CHR 0x27] @ Rule.Name rule @ [CHR 0x27] @ '' evaluated in '' @ m @ '' mode''
       else ''no actionable rule type'')"
proof -
  have ev: "\<And>ps rs. evaluatePolicies r ps rs =
      Inr (concat (map (\<lambda>resource. concat (map (pairResults (BackendMode b) resource) ps)) rs))"
    by (rule evaluatePolicies_ok [OF assms])
  have skip: "\<not> (\<exists>rule \<in> set (Rules pol). GetKind resource \<in> set (GetKinds rule)) \<longrightarrow>
       pairResults m resource pol =
         [\<lparr>PolicyName = GetName pol, RuleName = '''', ResourceName = Unstructured.Name resource,
           ResourceNamespace = Namespace resource, ResourceKind = GetKind resource,
           Status = ''skip'', Message = ''policy does not match resource'', Mode = m\<rparr>]"
    by (simp add: pairResults_def policyMatchesResource_iff)
  have rules: "(\<exists>rule \<in> set (Rules pol). GetKind resource \<in> set (GetKinds rule)) \<longrightarrow>
       pairResults m resource pol = map (evaluateRule pol resource m) (Rules pol) \<and>
       length (pairResults m resource pol) = length (Rules pol)"
    by (simp add: pairResults_def policyMatchesResource_iff evaluatePolicyRules_def)
  have fields: "PolicyName (evaluateRule pol resource m rule) = GetName pol \<and>
    RuleName (evaluateRule pol resource m rule) = Rule.Name rule \<and>
    ResourceName (evaluateRule pol resource m rule) = Unstructured.Name resource \<and>
    ResourceNamespace (evaluateRule pol resource m rule) = Namespace resource \<and>
    ResourceKind (evaluateRule pol resource m rule) = GetKind resource \<and>
    TestResult.Mode (evaluateRule pol resource m rule) = m"
    by (simp add: evaluateRule_def Let_def)
  have status: "Status (evaluateRule pol resource m rule) =
      (if HasValidate rule \<or> HasMutate rule \<or> HasGenerate rule \<or> HasVerifyImages rule
       then ''pass'' else ''skip'')"
    by (simp add: evaluateRule_def Let_def)
  have message: "Message (evaluateRule pol resource m rule) =
      (if HasValidate rule \<or> HasMutate rule \<or> HasGenerate rule \<or> HasVerifyImages rule
       then (if HasValidate rule then ''validation'' else if HasMutate rule then ''mutation''
             else if HasGenerate rule then ''generation'' else ''image verification'') @
            '' rule '' @ [CHR 0x27] @ Rule.Name rule @ [CHR 0x27] @ '' evaluated in '' @ m @ '' mode''
       else ''no actionable rule type'')"
    by (simp add: evaluateRule_def Let_def)
  have ex1: "evaluatePolicies r [newTestClusterPolicy n rn [''Pod''] True False False]
        [newUnstructuredPod ns nm] =
      Inr [\<lparr>PolicyName = n, RuleName = rn, ResourceName = nm, ResourceNamespace = ns,
            ResourceKind = ''Pod'', Status = ''pass'',
            Message = ''validation rule '' @ [CHR 0x27] @ rn @ [CHR 0x27] @ '' evaluated in '' @
                      BackendMode b @ '' mode'',
            Mode = BackendMode b\<rparr>]"
    by (simp add: ev pairResults_examples)
  have ex2: "evaluatePolicies r [newTestClusterPolicy n rn [''Deployment''] True False False]
        [newUnstructuredPod ns nm] =
      Inr [\<lparr>PolicyName = n, RuleName = '''', ResourceName = nm, ResourceNamespace = ns,
            ResourceKind = ''Pod'', Status = ''skip'',
            Message = ''policy does not match resource'', Mode = BackendMode b\<rparr>]"
    by (simp add: ev pairResults_examples)
  have nine: "(\<forall>p \<in> set policies. length (Rules p) = 1) \<longrightarrow>
       (\<exists>results. evaluatePolicies r policies ress = Inr results \<and>
          length results = length ress * length policies)"
  proof
    assume h: "\<forall>p \<in> set policies. length (Rules p) = 1"
    then have inner: "\<And>resource. length (concat (map (pairResults (BackendMode b) resource) policies))
        = length policies"
      using length_concat_single [of policies "pairResults (BackendMode b) _"]
      by (simp add: length_pairResults_single)
    have "length (concat (map (\<lambda>resource. concat (map (pairResults (BackendMode b) resource) policies)) ress))
            = length ress * length policies"
      by (rule length_concat_const) (rule inner)
    then show "\<exists>results. evaluatePolicies r policies ress = Inr results \<and>
          length results = length ress * length policies"
      by (simp add: ev)
  qed
  from ev [of policies ress] ex1 ex2 nine skip rules fields status message
  show ?thesis by (intro conjI) blast+
qed

theorem C3_evaluation_witness:
  "evaluatePolicies
     ((NewTestRunner (testConfig ModeFast True))
        \<lparr>backend := Some (Fast (snd (fastBackend_Setup quietWorld [] newFastBackend)))\<rparr>)
     [newTestClusterPolicy ''require-labels'' ''check-team-label'' [''Pod''] True False False]
     [newUnstructuredPod ''default'' ''test-pod''] =
   Inr [\<lparr>PolicyName = ''require-labels'', RuleName = ''check-team-label'',
         ResourceName = ''test-pod'', ResourceNamespace = ''default'', ResourceKind = ''Pod'',
         Status = ''pass'',
         Message = ''validation rule '' @ [CHR 0x27] @ ''check-team-label'' @ [CHR 0x27] @
                   '' evaluated in fast mode'',
         Mode = ''fast''\<rparr>] \<and>
   evaluatePolicies
     ((NewTestRunner (testConfig ModeFast True))
        \<lparr>backend := Some (Fast (snd (fastBackend_Setup quietWorld [] newFastBackend)))\<rparr>)
     [newTestClusterPolicy ''require-replicas'' ''check-replicas'' [''Deployment''] True False False]
     [newUnstructuredPod ''default'' ''test-pod''] =
   Inr [\<lparr>PolicyName = ''require-replicas'', RuleName = [],
         ResourceName = ''test-pod'', ResourceNamespace = ''default'', ResourceKind = ''Pod'',
         Status = ''skip'', Message = ''policy does not match resource'', Mode = ''fast''\<rparr>] \<and>
   (\<exists>results. evaluatePolicies
     ((NewTestRunner (testConfig ModeFast True))
        \<lparr>backend := Some (Fast (snd (fastBackend_Setup quietWorld [] newFastBackend)))\<rparr>)
     [newTestClusterPolicy ''require-labels'' ''check-team'' [''Pod''] True False False,
      newTestClusterPolicy ''restrict-image'' ''verify-registry'' [''Pod''] True False False,
      newTestClusterPolicy ''disallow-privileged'' ''check-privileged'' [''Pod''] True False False]
     [newUnstructuredPod ''default'' ''web-app'', newUnstructuredPod ''production'' ''api-server'',
      newUnstructuredPod ''staging'' ''worker''] = Inr results \<and> length results = 9)"
proof -
  let ?b = "Fast (snd (fastBackend_Setup quietWorld [] newFastBackend))"
  let ?r = "(NewTestRunner (testConfig ModeFast True))\<lparr>backend := Some ?b\<rparr>"
  have b: "backend ?r = Some ?b" by simp
  have c: "BackendClient ?b = Some FakeClient"
    using fastBackend_Setup_ok [OF fastBackend_Setup_ok' [of quietWorld "[]" newFastBackend]]
    by simp
  note inst = C3_evaluation [OF b c]
  have 1: "evaluatePolicies ?r
     [newTestClusterPolicy ''require-labels'' ''check-team-label'' [''Pod''] True False False]
     [newUnstructuredPod ''default'' ''test-pod''] =
   Inr [\<lparr>PolicyName = ''require-labels'', RuleName = ''check-team-label'',
         ResourceName = ''test-pod'', ResourceNamespace = ''default'', ResourceKind = ''Pod'',
         Status = ''pass'',
         Message = ''validation rule '' @ [CHR 0x27] @ ''check-team-label'' @ [CHR 0x27] @
                   '' evaluated in fast mode'',
         Mode = ''fast''\<rparr>]"
    using inst [where n = "''require-labels''" and rn = "''check-team-label''"
        and ns = "''default''" and nm = "''test-pod''", THEN conjunct2, THEN conjunct1]
    by (simp add: ModeFast_def)
  have 2: "evaluatePolicies ?r
     [newTestClusterPolicy ''require-replicas'' ''check-replicas'' [''Deployment''] True False False]
     [newUnstructuredPod ''default'' ''test-pod''] =
   Inr [\<lparr>PolicyName = ''require-replicas'', RuleName = [],
         ResourceName = ''test-pod'', ResourceNamespace = ''default'', ResourceKind = ''Pod'',
         Status = ''skip'', Message = ''policy does not match resource'', Mode = ''fast''\<rparr>]"
    using inst [where n = "''require-replicas''" and rn = "''check-replicas''"
        and ns = "''default''" and nm = "''test-pod''", THEN conjunct2, THEN conjunct2,
        THEN conjunct1]
    by (simp add: ModeFast_def)
  let ?pols = "[newTestClusterPolicy ''require-labels'' ''check-team'' [''Pod''] True False False,
      newTestClusterPolicy ''restrict-image'' ''verify-registry'' [''Pod''] True False False,
      newTestClusterPolicy ''disallow-privileged'' ''check-privileged'' [''Pod''] True False False]"
  let ?ress = "[newUnstructuredPod ''default'' ''web-app'', newUnstructuredPod ''production'' ''api-server'',
      newUnstructuredPod ''staging'' ''worker'']"
  have 3: "\<exists>results. evaluatePolicies ?r ?pols ?ress = Inr results \<and> length results = 9"
    using inst [where policies = ?pols and ress = ?ress, THEN conjunct2, THEN conjunct2,
        THEN conjunct2, THEN conjunct1]
    by (simp add: newTestClusterPolicy_def eval_nat_numeral)
  from 1 2 3 show ?thesis by (intro conjI)
qed

text \<open>
  C8. Whenever \<open>Run\<close> returns a summary, each of its five counters is the number of
  results in its \<open>Results\<close> list that have that status.
\<close>

theorem C8_counts_are_histogram:
  assumes "Run w r policies ress = Inr (s, r')"
  shows "Pass s = int (length (filter (\<lambda>x. Status x = ''pass'') (Results s))) \<and>
     Fail s = int (length (filter (\<lambda>x. Status x = ''fail'') (Results s))) \<and>
     Warn s = int (length (filter (\<lambda>x. Status x = ''warn'') (Results s))) \<and>
     Error s = int (length (filter (\<lambda>x. Status x = ''error'') (Results s))) \<and>
     Skip s = int (length (filter (\<lambda>x. Status x = ''skip'') (Results s)))"
  using assms unfolding Run_def by (rule Run_with_histogram)

theorem C8_counts_are_histogram_witness:
  "\<exists>s r'. Run quietWorld (NewTestRunner (testConfig ModeFast True))
             [newTestClusterPolicy ''require-labels'' ''check-team'' [''Pod''] True False False,
              newTestClusterPolicy ''require-replicas'' ''check-replicas'' [''Deployment''] True False False]
             [newUnstructuredPod ''default'' ''test-pod''] = Inr (s, r') \<and>
      map Status (Results s) = [''pass'', ''skip''] \<and>
      Pass s = 1 \<and> Fail s = 0 \<and> Warn s = 0 \<and> Error s = 0 \<and> Skip s = 1"
proof -
  let ?pols = "[newTestClusterPolicy ''require-labels'' ''check-team'' [''Pod''] True False False,
              newTestClusterPolicy ''require-replicas'' ''check-replicas'' [''Deployment''] True False False]"
  let ?ress = "[newUnstructuredPod ''default'' ''test-pod'']"
  let ?r = "NewTestRunner (testConfig ModeFast True)"
  from Run_fast [of ?r quietWorld ?pols ?ress]
  obtain s r' where run: "Run quietWorld ?r ?pols ?ress = Inr (s, r')"
    and res: "Results s = concat (map (\<lambda>resource. concat (map (pairResults ModeFast resource) ?pols)) ?ress)"
    by auto
  have st: "map Status (Results s) = [''pass'', ''skip'']"
    by (simp add: res pairResults_examples)
  from C8_counts_are_histogram [OF run] st
  have cnt: "Pass s = 1 \<and> Fail s = 0 \<and> Warn s = 0 \<and> Error s = 0 \<and> Skip s = 1"
    by (simp add: res pairResults_examples)
  show ?thesis
    by (rule exI [of _ s], rule exI [of _ r']) (use run st cnt in simp)
qed

text \<open>
  C10. As for C2, the statement is about \<open>Run_with\<close> for any constructor. Whenever a
  summary is returned:
  \<^item> if construction failed, the configured mode was accurate, the summary has \<open>FellBack\<close>
    set and still carries the mode \<open>accurate\<close>, the runner's configuration has been
    switched to fast, and, the retried constructor having returned a fast backend, every
    result carries the mode \<open>fast\<close>;
  \<^item> if construction succeeded and the setup of that backend failed, the summary has
    \<open>FellBack\<close> set and carries the mode \<open>fast\<close>, as does every result, while the
    runner's configuration keeps the mode \<open>accurate\<close>;
  \<^item> if neither failed, the summary carries the configured mode and \<open>FellBack\<close> is not set;
  \<^item> the mode of the summary differs from the configured mode only on the path where
    the setup failed.
\<close>

theorem C10_summary_mode:
  assumes run: "Run_with create w r policies ress = Inr (s, r')"
  shows
   "(create r = Inl e \<longrightarrow>
       TestConfig.Mode (config r) = ModeAccurate \<and> FellBack s \<and>
       TestSummary.Mode s = ModeAccurate \<and> TestConfig.Mode (config r') = ModeFast \<and>
       (create (setMode ModeFast r) = Inr b \<and> BackendMode b = ModeFast \<longrightarrow>
          (\<forall>x \<in> set (Results s). TestResult.Mode x = ModeFast))) \<and>
    (create r = Inr b \<and> Setup w ress b = (Some e, b1) \<longrightarrow>
       TestConfig.Mode (config r) = ModeAccurate \<and> FellBack s \<and>
       TestSummary.Mode s = ModeFast \<and> TestConfig.Mode (config r') = ModeAccurate \<and>
       (\<forall>x \<in> set (Results s). TestResult.Mode x = ModeFast)) \<and>
    (create r = Inr b \<and> Setup w ress b = (None, b1) \<longrightarrow>
       \<not> FellBack s \<and> TestSummary.Mode s = TestConfig.Mode (config r) \<and>
       (\<forall>x \<in> set (Results s). TestResult.Mode x = BackendMode b)) \<and>
    (TestSummary.Mode s \<noteq> TestConfig.Mode (config r) \<longrightarrow>
       (\<exists>b e b1. create r = Inr b \<and> Setup w ress b = (Some e, b1)))"
proof -
  from Run_with_InrD [OF run] obtain r1 s1 r2 s2 b2 c where
    v: "Validate (config r) = None"
    and c: "Run_construct create r (newTestSummary (TestConfig.Mode (config r))) = Inr (r1, s1)"
    and su: "Run_setup w ress r1 s1 = Inr (r2, s2)"
    and b2: "backend r2 = Some b2"
    and res: "Results s = concat (map (\<lambda>resource. concat (map (pairResults (BackendMode b2) resource) policies)) ress)"
    and fr: "TestSummary.Mode s = TestSummary.Mode s2" "FellBack s = FellBack s2"
    and r': "r' = Run_teardown w r2"
    by blast
  have modes: "\<forall>x \<in> set (Results s). TestResult.Mode x = BackendMode b2"
    by (auto simp: res dest: pairResults_Mode)
  have A: "create r = Inl e \<longrightarrow>
       TestConfig.Mode (config r) = ModeAccurate \<and> FellBack s \<and>
       TestSummary.Mode s = ModeAccurate \<and> TestConfig.Mode (config r') = ModeFast \<and>
       (create (setMode ModeFast r) = Inr b \<and> BackendMode b = ModeFast \<longrightarrow>
          (\<forall>x \<in> set (Results s). TestResult.Mode x = ModeFast))"
  proof
    assume ce: "create r = Inl e"
    with c have m: "TestConfig.Mode (config r) = ModeAccurate" and f: "AutoFallback (config r)"
      by (auto simp: Run_construct_def split: if_splits)
    from c ce m f obtain b' where cb: "create (setMode ModeFast r) = Inr b'"
      and r1: "r1 = (setMode ModeFast r)\<lparr>backend := Some b'\<rparr>"
      and s1: "s1 = (newTestSummary ModeAccurate)\<lparr>FellBack := True, FallbackReason := e\<rparr>"
      by (auto simp: Run_construct_fallback [of create r e] split: sum.splits)
    from su r1 s1 have s2: "s2 = s1" and r2: "r2 = r1\<lparr>backend := Some (snd (Setup w ress b'))\<rparr>"
      by (auto simp: Run_setup_def split: prod.splits option.splits if_splits)
    have "BackendMode b2 = BackendMode b'"
      using b2 r2 Setup_mode [of w ress b'] by auto
    with modes cb m fr s2 s1 r' r2 r1 show "TestConfig.Mode (config r) = ModeAccurate \<and> FellBack s \<and>
       TestSummary.Mode s = ModeAccurate \<and> TestConfig.Mode (config r') = ModeFast \<and>
       (create (setMode ModeFast r) = Inr b \<and> BackendMode b = ModeFast \<longrightarrow>
          (\<forall>x \<in> set (Results s). TestResult.Mode x = ModeFast))"
      by (auto simp: newTestSummary_def)
  qed
  have B: "create r = Inr b \<and> Setup w ress b = (Some e, b1) \<longrightarrow>
       TestConfig.Mode (config r) = ModeAccurate \<and> FellBack s \<and>
       TestSummary.Mode s = ModeFast \<and> TestConfig.Mode (config r') = ModeAccurate \<and>
       (\<forall>x \<in> set (Results s). TestResult.Mode x = ModeFast)"
  proof
    assume h: "create r = Inr b \<and> Setup w ress b = (Some e, b1)"
    with c have r1: "r1 = r\<lparr>backend := Some b\<rparr>" and s1: "s1 = newTestSummary (TestConfig.Mode (config r))"
      by (auto simp: Run_construct_def)
    from su r1 s1 h obtain fb where m: "TestConfig.Mode (config r) = ModeAccurate"
      and r2: "r2 = r1\<lparr>backend := Some (Fast fb)\<rparr>"
      and s2: "s2 = s1\<lparr>FellBack := True, FallbackReason := e, TestSummary.Mode := ModeFast\<rparr>"
      by (auto simp: Run_setup_def Let_def split: prod.splits option.splits if_splits)
    from b2 r2 have "BackendMode b2 = ModeFast" by auto
    with modes m fr s2 r' r2 r1 show "TestConfig.Mode (config r) = ModeAccurate \<and> FellBack s \<and>
       TestSummary.Mode s = ModeFast \<and> TestConfig.Mode (config r') = ModeAccurate \<and>
       (\<forall>x \<in> set (Results s). TestResult.Mode x = ModeFast)"
      by auto
  qed
  have C: "create r = Inr b \<and> Setup w ress b = (None, b1) \<longrightarrow>
       \<not> FellBack s \<and> TestSummary.Mode s = TestConfig.Mode (config r) \<and>
       (\<forall>x \<in> set (Results s). TestResult.Mode x = BackendMode b)"
  proof
    assume h: "create r = Inr b \<and> Setup w ress b = (None, b1)"
    with c have r1: "r1 = r\<lparr>backend := Some b\<rparr>" and s1: "s1 = newTestSummary (TestConfig.Mode (config r))"
      by (auto simp: Run_construct_def)
    from su r1 s1 h have r2: "r2 = r1\<lparr>backend := Some b1\<rparr>" and s2: "s2 = s1"
      by (auto simp: Run_setup_def Let_def split: prod.splits option.splits if_splits)
    from b2 r2 h have "BackendMode b2 = BackendMode b"
      using Setup_mode [of w ress b] by auto
    with modes fr s2 s1 show "\<not> FellBack s \<and> TestSummary.Mode s = TestConfig.Mode (config r) \<and>
       (\<forall>x \<in> set (Results s). TestResult.Mode x = BackendMode b)"
      by (auto simp: newTestSummary_def)
  qed
  have D: "TestSummary.Mode s \<noteq> TestConfig.Mode (config r) \<longrightarrow>
       (\<exists>b e b1. create r = Inr b \<and> Setup w ress b = (Some e, b1))"
    using c su fr
    by (auto simp: Run_construct_def Run_setup_def Let_def newTestSummary_def
        split: sum.splits prod.splits option.splits if_splits)
  from A B C D show ?thesis by blast
qed

theorem C10_summary_mode_witness:
  "(\<exists>s r'. Run_with createWithoutAccurate quietWorld (NewTestRunner (testConfig ModeAccurate True))
             [newTestClusterPolicy ''require-labels'' ''check-team'' [''Pod''] True False False]
             [newUnstructuredPod ''default'' ''test-pod''] = Inr (s, r') \<and>
      TestSummary.Mode s = ModeAccurate \<and> FellBack s \<and>
      map TestResult.Mode (Results s) = [ModeFast] \<and> TestConfig.Mode (config r') = ModeFast) \<and>
   (\<exists>s r'. Run_with createBackend noEnvtestWorld (NewTestRunner (testConfig ModeAccurate True))
             [newTestClusterPolicy ''require-labels'' ''check-team'' [''Pod''] True False False]
             [newUnstructuredPod ''default'' ''test-pod''] = Inr (s, r') \<and>
      TestSummary.Mode s = ModeFast \<and> FellBack s \<and>
      map TestResult.Mode (Results s) = [ModeFast] \<and> TestConfig.Mode (config r') = ModeAccurate) \<and>
   (\<exists>s r'. Run_with createBackend quietWorld (NewTestRunner (testConfig ModeAccurate True))
             [newTestClusterPolicy ''require-labels'' ''check-team'' [''Pod''] True False False]
             [newUnstructuredPod ''default'' ''test-pod''] = Inr (s, r') \<and>
      TestSummary.Mode s = ModeAccurate \<and> \<not> FellBack s \<and>
      map TestResult.Mode (Results s) = [ModeAccurate])"
proof -
  let ?r = "NewTestRunner (testConfig ModeAccurate True)"
  let ?pols = "[newTestClusterPolicy ''require-labels'' ''check-team'' [''Pod''] True False False]"
  let ?ress = "[newUnstructuredPod ''default'' ''test-pod'']"
  let ?startErr = "''failed to start envtest environment: no binaries'' @
            '' (ensure envtest binaries are installed via '' @ [CHR 0x27] @
            ''setup-envtest use'' @ [CHR 0x27] @ '')''"
  have v: "Validate (config ?r) = None" by simp
  have accBad: "Setup noEnvtestWorld ?ress (Accurate (newAccurateBackend [])) =
      (Some ?startErr, Accurate ((newAccurateBackend [])\<lparr>started := True\<rparr>))"
    using Setup_accurate_start_fails [of noEnvtestWorld "''no binaries''"] by simp
  have accOk: "Setup quietWorld ?ress (Accurate (newAccurateBackend [])) =
      (None, Accurate (snd (accurateBackend_Setup quietWorld ?ress (newAccurateBackend []))))"
    by (rule Setup_accurate_ok) simp_all
  have one: "\<And>s m. Results s = concat (map (\<lambda>resource. concat (map (pairResults m resource) ?pols)) ?ress)
      \<Longrightarrow> length (Results s) = 1"
    by (simp add: pairResults_examples)
  have single: "\<And>xs m. length xs = 1 \<Longrightarrow> \<forall>x \<in> set xs. TestResult.Mode x = m \<Longrightarrow>
      map TestResult.Mode xs = [m]"
    by (case_tac xs) auto
  have "\<exists>s. Run_with createWithoutAccurate quietWorld ?r ?pols ?ress =
               Inr (s, Run_teardown quietWorld ((setMode ModeFast ?r)
                      \<lparr>backend := Some (Fast (snd (fastBackend_Setup quietWorld ?ress newFastBackend)))\<rparr>)) \<and>
             FellBack s \<and> FallbackReason s = ''accurate backend unavailable'' \<and>
             TestSummary.Mode s = ModeAccurate \<and>
             Results s = concat (map (\<lambda>resource. concat (map (pairResults (BackendMode (Fast newFastBackend)) resource) ?pols)) ?ress)"
    by (rule Run_with_construct_fallback [OF v, where create = createWithoutAccurate
          and b = "Fast newFastBackend"]) (simp_all add: Setup_fast_ok del: Setup.simps)
  then obtain s1 r1 where run1: "Run_with createWithoutAccurate quietWorld ?r ?pols ?ress = Inr (s1, r1)"
    and res1: "Results s1 = concat (map (\<lambda>resource. concat (map (pairResults (BackendMode (Fast newFastBackend)) resource) ?pols)) ?ress)"
    by blast
  from C10_summary_mode [OF run1, THEN conjunct1, rule_format,
      of "''accurate backend unavailable''" "Fast newFastBackend"]
  have f1: "TestSummary.Mode s1 = ModeAccurate \<and> FellBack s1 \<and>
      map TestResult.Mode (Results s1) = [ModeFast] \<and> TestConfig.Mode (config r1) = ModeFast"
    using single [OF one [OF res1], of ModeFast] by simp
  have "\<exists>s. Run_with createBackend noEnvtestWorld ?r ?pols ?ress =
               Inr (s, Run_teardown noEnvtestWorld (?r\<lparr>backend :=
                      Some (Fast (snd (fastBackend_Setup noEnvtestWorld ?ress newFastBackend)))\<rparr>)) \<and>
             FellBack s \<and> FallbackReason s = ?startErr \<and> TestSummary.Mode s = ModeFast \<and>
             Results s = concat (map (\<lambda>resource. concat (map (pairResults ModeFast resource) ?pols)) ?ress)"
    by (rule Run_with_setup_fallback [OF v _ accBad _ _ fastBackend_Setup_ok',
          where create = createBackend]) simp_all
  then obtain s2 r2 where run2: "Run_with createBackend noEnvtestWorld ?r ?pols ?ress = Inr (s2, r2)"
    and res2: "Results s2 = concat (map (\<lambda>resource. concat (map (pairResults ModeFast resource) ?pols)) ?ress)"
    by blast
  from C10_summary_mode [OF run2, THEN conjunct2, THEN conjunct1, rule_format,
      of "Accurate (newAccurateBackend [])" ?startErr] accBad
  have f2: "TestSummary.Mode s2 = ModeFast \<and> FellBack s2 \<and>
      map TestResult.Mode (Results s2) = [ModeFast] \<and> TestConfig.Mode (config r2) = ModeAccurate"
    using single [OF one [OF res2], of ModeFast] by simp
  have "\<exists>s. Run_with createBackend quietWorld ?r ?pols ?ress =
               Inr (s, Run_teardown quietWorld (?r\<lparr>backend :=
                      Some (Accurate (snd (accurateBackend_Setup quietWorld ?ress (newAccurateBackend []))))\<rparr>)) \<and>
             \<not> FellBack s \<and> TestSummary.Mode s = TestConfig.Mode (config ?r) \<and>
             Results s = concat (map (\<lambda>resource. concat (map (pairResults (BackendMode (Accurate (newAccurateBackend []))) resource) ?pols)) ?ress)"
    by (rule Run_with_plain [OF v, where create = createBackend
          and b = "Accurate (newAccurateBackend [])"]) (simp, rule accOk)
  then obtain s3 r3 where run3: "Run_with createBackend quietWorld ?r ?pols ?ress = Inr (s3, r3)"
    and res3: "Results s3 = concat (map (\<lambda>resource. concat (map (pairResults (BackendMode (Accurate (newAccurateBackend []))) resource) ?pols)) ?ress)"
    by blast
  from C10_summary_mode [OF run3, THEN conjunct2, THEN conjunct2, THEN conjunct1, rule_format,
      of "Accurate (newAccurateBackend [])"] accOk
  have f3: "TestSummary.Mode s3 = ModeAccurate \<and> \<not> FellBack s3 \<and>
      map TestResult.Mode (Results s3) = [ModeAccurate]"
    using single [OF one [OF res3], of ModeAccurate] by simp
  have w1: "\<exists>s r'. Run_with createWithoutAccurate quietWorld ?r ?pols ?ress = Inr (s, r') \<and>
      TestSummary.Mode s = ModeAccurate \<and> FellBack s \<and>
      map TestResult.Mode (Results s) = [ModeFast] \<and> TestConfig.Mode (config r') = ModeFast"
    by (rule exI [of _ s1], rule exI [of _ r1]) (simp add: run1 f1)
  have w2: "\<exists>s r'. Run_with createBackend noEnvtestWorld ?r ?pols ?ress = Inr (s, r') \<and>
      TestSummary.Mode s = ModeFast \<and> FellBack s \<and>
      map TestResult.Mode (Results s) = [ModeFast] \<and> TestConfig.Mode (config r') = ModeAccurate"
    by (rule exI [of _ s2], rule exI [of _ r2]) (simp add: run2 f2)
  have w3: "\<exists>s r'. Run_with createBackend quietWorld ?r ?pols ?ress = Inr (s, r') \<and>
      TestSummary.Mode s = ModeAccurate \<and> \<not> FellBack s \<and>
      map TestResult.Mode (Results s) = [ModeAccurate]"
    by (rule exI [of _ s3], rule exI [of _ r3]) (simp add: run3 f3)
  from w1 w2 w3 show ?thesis by (intro conjI)
qed

section \<open>The resource names of the two backends\<close>

lemma fold_addCoreResource_resources:
  "resources (fold addCoreResource rows d) =
     resources d @ map (\<lambda>(g, v, r, k). \<lparr>GroupVersionResource.Group = g, Version = v, Resource = r\<rparr>) rows"
  by (induction rows arbitrary: d) (auto simp: Let_def)

lemma resources_newEnhancedFakeDiscovery:
  "resources newEnhancedFakeDiscovery =
     map (\<lambda>(g, v, r, k). \<lparr>GroupVersionResource.Group = g, Version = v, Resource = r\<rparr>) coreResources"
  by (simp add: newEnhancedFakeDiscovery_def fold_addCoreResource_resources)

lemma length_coreResources: "length coreResources = 60"
  by (simp add: coreResources_def)

lemma policys_not_in_catalog:
  "\<lparr>GroupVersionResource.Group = ''kyverno.io'', Version = ''v1'', Resource = ''policys''\<rparr>
     \<notin> set (resources newEnhancedFakeDiscovery)"
  by (simp add: resources_newEnhancedFakeDiscovery coreResources_def)

lemma policies_in_catalog:
  "\<lparr>GroupVersionResource.Group = ''kyverno.io'', Version = ''v1'', Resource = ''policies''\<rparr>
     \<in> set (resources newEnhancedFakeDiscovery)"
  by (simp add: resources_newEnhancedFakeDiscovery coreResources_def)

text \<open>
  C5. The claim fails on the code: for a seed object of kind \<open>Policy\<close> (group
  \<open>kyverno.io\<close>, version \<open>v1\<close>) the setup of the fast backend registers the resource
  name \<open>policys\<close>, the lower-cased kind followed by \<open>s\<close>, as a new entry after the
  sixty of the catalogue, which already lists \<open>policies\<close> for that kind; the seeding of
  the accurate backend sends the same object to \<open>policies\<close>, the name that
  \<open>inferResourceFromKind\<close> computes.
\<close>

theorem C5_fast_backend_resource_name:
  "(let obj = \<lparr>GroupVersionKind =
                 \<lparr>GroupVersionKind.Group = ''kyverno.io'', Version = ''v1'', Kind = ''Policy''\<rparr>,
               Namespace = ''default'', Name = ''require-labels''\<rparr>;
        policys = \<lparr>GroupVersionResource.Group = ''kyverno.io'', Version = ''v1'', Resource = ''policys''\<rparr>;
        policies = \<lparr>GroupVersionResource.Group = ''kyverno.io'', Version = ''v1'', Resource = ''policies''\<rparr>;
        fast = snd (fastBackend_Setup quietWorld [obj] newFastBackend);
        accurate = snd (accurateBackend_Setup quietWorld [obj] (newAccurateBackend []))
    in fastBackend.ready fast \<and> accurateBackend.ready accurate \<and>
       disco fast = Some (RegisterResource policys (GroupVersionKind obj) newEnhancedFakeDiscovery) \<and>
       resources (RegisterResource policys (GroupVersionKind obj) newEnhancedFakeDiscovery) =
         resources newEnhancedFakeDiscovery @ [policys] \<and>
       policies \<in> set (resources newEnhancedFakeDiscovery) \<and>
       created accurate = [(policies, obj)] \<and>
       fastResourceName ''Policy'' = ''policys'' \<and>
       inferResourceFromKind ''Policy'' = ''policies'')"
proof -
  have 1: "fastResourceName ''Policy'' = ''policys''"
    by (simp add: fastResourceName_def ToLower_def)
  have 2: "inferResourceFromKind ''Policy'' = ''policies''"
    by (simp add: inferResourceFromKind_def HasSuffix_def ToLower_def)
  show ?thesis
    using policys_not_in_catalog policies_in_catalog
    by (simp add: Let_def fastBackend_Setup_def accurateBackend_Setup_def 1 2 RegisterResource_def
        list_ex_iff newFastBackend_def newAccurateBackend_def quietWorld_def)
qed

section \<open>Comparing two summaries: results\<close>

lemma dom_buildMap: "dom (buildMap rs m) = dom m \<union> resultKey ` set rs"
  by (induction rs arbitrary: m) auto

lemma buildMap_append: "buildMap (rs @ [r]) m = (buildMap rs m)(resultKey r \<mapsto> r)"
  by (induction rs arbitrary: m) auto

lemma buildMap_Some_key: "buildMap rs Map.empty k = Some r \<Longrightarrow> r \<in> set rs \<and> resultKey r = k"
proof (induction rs arbitrary: r rule: rev_induct)
  case Nil
  then show ?case by simp
next
  case (snoc x xs)
  then show ?case by (auto simp: buildMap_append split: if_splits)
qed

lemma buildMap_last:
  "buildMap (rs @ r # rs') Map.empty (resultKey r) = Some r"
  if "resultKey r \<notin> resultKey ` set rs'"
  using that
proof (induction rs' rule: rev_induct)
  case Nil
  then show ?case by (simp add: buildMap_append)
next
  case (snoc x xs)
  then show ?case
    using buildMap_append [of "rs @ r # xs" x Map.empty] by auto
qed

lemma compareFast_Matching:
  "Matching (compareFast fm am ks rep) =
     Matching rep + int (length (filter (\<lambda>k. \<exists>f a. fm k = Some f \<and> am k = Some a \<and> Status f = Status a) ks))"
  by (induction ks arbitrary: rep) (auto split: option.splits)

lemma compareFast_Divergent:
  "Divergent (compareFast fm am ks rep) =
     Divergent rep + int (length (filter (\<lambda>k. \<exists>f a. fm k = Some f \<and> am k = Some a \<and> Status f \<noteq> Status a) ks))"
  by (induction ks arbitrary: rep) (auto split: option.splits)

lemma compareFast_OnlyInFast:
  "OnlyInFast (compareFast fm am ks rep) =
     OnlyInFast rep + int (length (filter (\<lambda>k. k \<in> dom fm \<and> k \<notin> dom am) ks))"
  by (induction ks arbitrary: rep) (auto split: option.splits)

lemma compareFast_Divergences:
  "Divergences (compareFast fm am ks rep) =
     Divergences rep @ List.map_filter (divergenceAt fm am) ks"
  by (induction ks arbitrary: rep)
     (auto simp: List.map_filter_simps divergenceAt_def split: option.splits)

lemma length_map_filter: "length (List.map_filter f xs) = length (filter (\<lambda>x. f x \<noteq> None) xs)"
  by (induction xs) (auto simp: List.map_filter_simps split: option.splits)

lemma set_map_filter: "set (List.map_filter f xs) = {y. \<exists>x \<in> set xs. f x = Some y}"
  by (induction xs) (auto simp: List.map_filter_simps split: option.splits)


lemma compareFast_frame [simp]:
  "OnlyInAccurate (compareFast fm am ks rep) = OnlyInAccurate rep"
  by (induction ks arbitrary: rep) (auto split: option.splits)

lemma compareAccurate_OnlyInAccurate:
  "OnlyInAccurate (compareAccurate fm ks rep) =
     OnlyInAccurate rep + int (length (filter (\<lambda>k. k \<notin> dom fm) ks))"
  by (induction ks arbitrary: rep) (auto split: option.splits)

lemma compareAccurate_frame [simp]:
  "Matching (compareAccurate fm ks rep) = Matching rep"
  "Divergent (compareAccurate fm ks rep) = Divergent rep"
  "OnlyInFast (compareAccurate fm ks rep) = OnlyInFast rep"
  "Divergences (compareAccurate fm ks rep) = Divergences rep"
  by (induction ks arbitrary: rep) (auto split: option.splits)

lemma rangeOrder_count:
  assumes "rangeOrder m ks"
  shows "length (filter P ks) = card {k \<in> dom m. P k}"
proof -
  from assms have d: "distinct ks" and s: "set ks = dom m"
    by (simp_all add: rangeOrder_def)
  have "{k \<in> dom m. P k} = {x. P x} \<inter> set ks"
    using s by auto
  with distinct_length_filter [OF d, of P] show ?thesis by simp
qed

text \<open>
  C7. For every order in which the two loops may visit the keys of the two lookup maps:
  the maps are keyed by the composite string of each result, and hold for a key a result
  of the summary with that key; \<open>Matching\<close> is the number of keys in both maps with equal
  statuses, \<open>Divergent\<close> the number of keys in both maps with different statuses,
  \<open>OnlyInFast\<close> and \<open>OnlyInAccurate\<close> the numbers of keys in one map only;
  \<open>Divergences\<close> has one record for each divergent key, with both statuses and both
  messages, and as many records as \<open>Divergent\<close> counts; \<open>SpeedupFactor\<close> is the total
  duration of the accurate summary divided by that of the fast one, and for a fast
  duration of zero it is an infinity or not-a-number, not a fault.
\<close>

theorem C7_compare:
  assumes fo: "rangeOrder (buildMap (Results fast) Map.empty) fastOrder"
    and ao: "rangeOrder (buildMap (Results accurate) Map.empty) accurateOrder"
  shows
   "(let fastMap = buildMap (Results fast) Map.empty;
         accurateMap = buildMap (Results accurate) Map.empty;
         report = CompareResults fastOrder accurateOrder fast accurate
     in dom fastMap = resultKey ` set (Results fast) \<and>
        dom accurateMap = resultKey ` set (Results accurate) \<and>
        (\<forall>k x. fastMap k = Some x \<longrightarrow> x \<in> set (Results fast) \<and> resultKey x = k) \<and>
        (\<forall>k x. accurateMap k = Some x \<longrightarrow> x \<in> set (Results accurate) \<and> resultKey x = k) \<and>
        Matching report =
          int (card {k. \<exists>f a. fastMap k = Some f \<and> accurateMap k = Some a \<and> Status f = Status a}) \<and>
        Divergent report =
          int (card {k. \<exists>f a. fastMap k = Some f \<and> accurateMap k = Some a \<and> Status f \<noteq> Status a}) \<and>
        OnlyInFast report = int (card (dom fastMap - dom accurateMap)) \<and>
        OnlyInAccurate report = int (card (dom accurateMap - dom fastMap)) \<and>
        int (length (Divergences report)) = Divergent report \<and>
        set (Divergences report) =
          {\<lparr>Key = k, FastStatus = Status f, AccurateStatus = Status a,
             FastMessage = Message f, AccurateMsg = Message a\<rparr> | k f a.
             fastMap k = Some f \<and> accurateMap k = Some a \<and> Status f \<noteq> Status a} \<and>
        SpeedupFactor report =
          (if TotalDuration fast = 0
           then (if TotalDuration accurate = 0 then NaN
                 else if 0 < TotalDuration accurate then PosInf else NegInf)
           else Finite (real_of_int (TotalDuration accurate) / real_of_int (TotalDuration fast))))"
proof -
  let ?fm = "buildMap (Results fast) Map.empty"
  let ?am = "buildMap (Results accurate) Map.empty"
  let ?rep = "CompareResults fastOrder accurateOrder fast accurate"
  have d1: "dom ?fm = resultKey ` set (Results fast)"
    and d2: "dom ?am = resultKey ` set (Results accurate)"
    by (simp_all add: dom_buildMap)
  have k1: "\<forall>k x. ?fm k = Some x \<longrightarrow> x \<in> set (Results fast) \<and> resultKey x = k"
    and k2: "\<forall>k x. ?am k = Some x \<longrightarrow> x \<in> set (Results accurate) \<and> resultKey x = k"
    using buildMap_Some_key by blast+
  have m: "Matching ?rep =
      int (card {k. \<exists>f a. ?fm k = Some f \<and> ?am k = Some a \<and> Status f = Status a})"
  proof -
    have "{k \<in> dom ?fm. \<exists>f a. ?fm k = Some f \<and> ?am k = Some a \<and> Status f = Status a}
        = {k. \<exists>f a. ?fm k = Some f \<and> ?am k = Some a \<and> Status f = Status a}"
      by auto
    then show ?thesis
      using rangeOrder_count [OF fo,
          of "\<lambda>k. \<exists>f a. ?fm k = Some f \<and> ?am k = Some a \<and> Status f = Status a"]
      by (simp add: CompareResults_def Let_def compareFast_Matching)
  qed
  have dv: "Divergent ?rep =
      int (card {k. \<exists>f a. ?fm k = Some f \<and> ?am k = Some a \<and> Status f \<noteq> Status a})"
  proof -
    have "{k \<in> dom ?fm. \<exists>f a. ?fm k = Some f \<and> ?am k = Some a \<and> Status f \<noteq> Status a}
        = {k. \<exists>f a. ?fm k = Some f \<and> ?am k = Some a \<and> Status f \<noteq> Status a}"
      by auto
    then show ?thesis
      using rangeOrder_count [OF fo,
          of "\<lambda>k. \<exists>f a. ?fm k = Some f \<and> ?am k = Some a \<and> Status f \<noteq> Status a"]
      by (simp add: CompareResults_def Let_def compareFast_Divergent)
  qed
  have "{k \<in> dom ?fm. k \<in> dom ?fm \<and> k \<notin> dom ?am} = dom ?fm - dom ?am"
    by auto
  then have of: "OnlyInFast ?rep = int (card (dom ?fm - dom ?am))"
    using rangeOrder_count [OF fo, of "\<lambda>k. k \<in> dom ?fm \<and> k \<notin> dom ?am"]
    by (simp add: CompareResults_def Let_def compareFast_OnlyInFast)
  have "{k \<in> dom ?am. k \<notin> dom ?fm} = dom ?am - dom ?fm"
    by auto
  then have oa: "OnlyInAccurate ?rep = int (card (dom ?am - dom ?fm))"
    using rangeOrder_count [OF ao, of "\<lambda>k. k \<notin> dom ?fm"]
    by (simp add: CompareResults_def Let_def compareAccurate_OnlyInAccurate)
  have dl: "Divergences ?rep = List.map_filter (divergenceAt ?fm ?am) fastOrder"
    by (simp add: CompareResults_def Let_def compareFast_Divergences)
  have ne: "\<And>k. divergenceAt ?fm ?am k \<noteq> None \<longleftrightarrow>
      (\<exists>f a. ?fm k = Some f \<and> ?am k = Some a \<and> Status f \<noteq> Status a)"
    by (auto simp: divergenceAt_def split: option.splits)
  have "length (Divergences ?rep) =
      length (filter (\<lambda>k. \<exists>f a. ?fm k = Some f \<and> ?am k = Some a \<and> Status f \<noteq> Status a) fastOrder)"
    by (simp only: dl length_map_filter ne)
  moreover have "Divergent ?rep =
      int (length (filter (\<lambda>k. \<exists>f a. ?fm k = Some f \<and> ?am k = Some a \<and> Status f \<noteq> Status a) fastOrder))"
    by (simp add: CompareResults_def Let_def compareFast_Divergent)
  ultimately have len: "int (length (Divergences ?rep)) = Divergent ?rep"
    by simp
  have "set fastOrder = dom ?fm"
    using fo by (simp add: rangeOrder_def)
  then have st: "set (Divergences ?rep) =
          {\<lparr>Key = k, FastStatus = Status f, AccurateStatus = Status a,
             FastMessage = Message f, AccurateMsg = Message a\<rparr> | k f a.
             ?fm k = Some f \<and> ?am k = Some a \<and> Status f \<noteq> Status a}"
    unfolding dl set_map_filter
    by (auto simp: divergenceAt_def split: option.splits if_splits) blast
  have sp: "SpeedupFactor ?rep =
          (if TotalDuration fast = 0
           then (if TotalDuration accurate = 0 then NaN
                 else if 0 < TotalDuration accurate then PosInf else NegInf)
           else Finite (real_of_int (TotalDuration accurate) / real_of_int (TotalDuration fast)))"
    by (simp add: CompareResults_def Let_def float64_div_int_def)
  from d1 d2 k1 k2 m dv "of" oa len st sp show ?thesis
    unfolding Let_def by (intro conjI)
qed

theorem C7_compare_witness:
  "rangeOrder (buildMap [podResult ''p1'' ''r1'' ''pass'', podResult ''p1'' ''r2'' ''fail'',
                         podResult ''p2'' ''r1'' ''pass''] Map.empty)
     [''p2/r1/Pod/pod1'', ''p1/r1/Pod/pod1'', ''p1/r2/Pod/pod1''] \<and>
   rangeOrder (buildMap [podResult ''p1'' ''r1'' ''pass'', podResult ''p1'' ''r2'' ''pass'',
                         podResult ''p3'' ''r1'' ''pass''] Map.empty)
     [''p1/r1/Pod/pod1'', ''p1/r2/Pod/pod1'', ''p3/r1/Pod/pod1''] \<and>
   (let report = CompareResults
       [''p2/r1/Pod/pod1'', ''p1/r1/Pod/pod1'', ''p1/r2/Pod/pod1'']
       [''p1/r1/Pod/pod1'', ''p1/r2/Pod/pod1'', ''p3/r1/Pod/pod1'']
       (summaryOf ModeFast 50000000
          [podResult ''p1'' ''r1'' ''pass'', podResult ''p1'' ''r2'' ''fail'',
           podResult ''p2'' ''r1'' ''pass''])
       (summaryOf ModeAccurate 3000000000
          [podResult ''p1'' ''r1'' ''pass'', podResult ''p1'' ''r2'' ''pass'',
           podResult ''p3'' ''r1'' ''pass''])
    in Matching report = 1 \<and> Divergent report = 1 \<and> OnlyInFast report = 1 \<and>
       OnlyInAccurate report = 1 \<and>
       Divergences report =
         [\<lparr>Key = ''p1/r2/Pod/pod1'', FastStatus = ''fail'', AccurateStatus = ''pass'',
           FastMessage = [], AccurateMsg = []\<rparr>] \<and>
       SpeedupFactor report = Finite 60) \<and>
   SpeedupFactor (CompareResults [] [] (summaryOf ModeFast 0 []) (summaryOf ModeAccurate 3000000000 []))
     = PosInf \<and>
   SpeedupFactor (CompareResults [] [] (summaryOf ModeFast 0 []) (summaryOf ModeAccurate 0 []))
     = NaN"
proof -
  let ?fr = "[podResult ''p1'' ''r1'' ''pass'', podResult ''p1'' ''r2'' ''fail'',
              podResult ''p2'' ''r1'' ''pass'']"
  let ?ar = "[podResult ''p1'' ''r1'' ''pass'', podResult ''p1'' ''r2'' ''pass'',
              podResult ''p3'' ''r1'' ''pass'']"
  let ?fo = "[''p2/r1/Pod/pod1'', ''p1/r1/Pod/pod1'', ''p1/r2/Pod/pod1'']"
  let ?ao = "[''p1/r1/Pod/pod1'', ''p1/r2/Pod/pod1'', ''p3/r1/Pod/pod1'']"
  let ?fast = "summaryOf ModeFast 50000000 ?fr"
  let ?acc = "summaryOf ModeAccurate 3000000000 ?ar"
  let ?rep = "CompareResults ?fo ?ao ?fast ?acc"
  have [simp]: "\<And>m d rs. Results (summaryOf m d rs) = rs" "\<And>m d rs. TotalDuration (summaryOf m d rs) = d"
    by (simp_all add: summaryOf_def)
  have f: "rangeOrder (buildMap ?fr Map.empty) ?fo"
    by (auto simp: rangeOrder_def dom_buildMap resultKey_def podResult_def)
  have a: "rangeOrder (buildMap ?ar Map.empty) ?ao"
    by (auto simp: rangeOrder_def dom_buildMap resultKey_def podResult_def)
  have e: "rangeOrder (buildMap [] Map.empty) ([] :: string list)"
    by (simp add: rangeOrder_def)
  have divs: "Divergences ?rep =
         [\<lparr>Key = ''p1/r2/Pod/pod1'', FastStatus = ''fail'', AccurateStatus = ''pass'',
           FastMessage = [], AccurateMsg = []\<rparr>]"
    by (simp add: CompareResults_def Let_def resultKey_def podResult_def)
  have doms: "dom (buildMap ?fr Map.empty) - dom (buildMap ?ar Map.empty) = {''p2/r1/Pod/pod1''}"
    "dom (buildMap ?ar Map.empty) - dom (buildMap ?fr Map.empty) = {''p3/r1/Pod/pod1''}"
    by (auto simp: dom_buildMap resultKey_def podResult_def)
  have f': "rangeOrder (buildMap (Results ?fast) Map.empty) ?fo"
    and a': "rangeOrder (buildMap (Results ?acc) Map.empty) ?ao"
    using f a by simp_all
  note inst = C7_compare [OF f' a', unfolded Let_def]
  note c_only_fast = inst [THEN conjunct2, THEN conjunct2, THEN conjunct2, THEN conjunct2,
      THEN conjunct2, THEN conjunct2, THEN conjunct1]
  note c_only_acc = inst [THEN conjunct2, THEN conjunct2, THEN conjunct2, THEN conjunct2,
      THEN conjunct2, THEN conjunct2, THEN conjunct2, THEN conjunct1]
  note c_len = inst [THEN conjunct2, THEN conjunct2, THEN conjunct2, THEN conjunct2,
      THEN conjunct2, THEN conjunct2, THEN conjunct2, THEN conjunct2, THEN conjunct1]
  note c_speed = inst [THEN conjunct2, THEN conjunct2, THEN conjunct2, THEN conjunct2,
      THEN conjunct2, THEN conjunct2, THEN conjunct2, THEN conjunct2,
      THEN conjunct2, THEN conjunct2]
  have dv: "Divergent ?rep = 1"
    using c_len divs by simp
  have od: "OnlyInFast ?rep = 1" "OnlyInAccurate ?rep = 1"
    using c_only_fast c_only_acc doms by simp_all
  have sp: "SpeedupFactor ?rep = Finite 60"
    using c_speed by simp
  have m: "Matching ?rep = 1"
    by (simp add: CompareResults_def Let_def resultKey_def podResult_def)
  have z1: "SpeedupFactor (CompareResults [] [] (summaryOf ModeFast 0 []) (summaryOf ModeAccurate 3000000000 [])) = PosInf"
    using C7_compare [of "summaryOf ModeFast 0 []" "[]" "summaryOf ModeAccurate 3000000000 []" "[]",
        unfolded Let_def, THEN conjunct2, THEN conjunct2, THEN conjunct2, THEN conjunct2,
        THEN conjunct2, THEN conjunct2, THEN conjunct2, THEN conjunct2,
      THEN conjunct2, THEN conjunct2] e
    by simp
  have z2: "SpeedupFactor (CompareResults [] [] (summaryOf ModeFast 0 []) (summaryOf ModeAccurate 0 [])) = NaN"
    using C7_compare [of "summaryOf ModeFast 0 []" "[]" "summaryOf ModeAccurate 0 []" "[]",
        unfolded Let_def, THEN conjunct2, THEN conjunct2, THEN conjunct2, THEN conjunct2,
        THEN conjunct2, THEN conjunct2, THEN conjunct2, THEN conjunct2,
      THEN conjunct2, THEN conjunct2] e
    by simp
  from f a m dv od divs sp z1 z2 show ?thesis
    unfolding Let_def by (intro conjI)
qed

section \<open>The regular expressions of the mock resolver: results\<close>

lemma accepts_Nil [simp]: "accepts [] s \<longleftrightarrow> s = []"
  by (auto simp: accepts_def)

lemma accepts_Cons:
  "accepts (t # ts) s \<longleftrightarrow> (\<exists>seg rest. s = seg @ rest \<and> fits t seg \<and> accepts ts rest)"
proof
  assume "accepts (t # ts) s"
  then obtain segs where "concat segs = s" "list_all2 fits (t # ts) segs"
    by (auto simp: accepts_def)
  then obtain z zs where "segs = z # zs" "fits t z" "list_all2 fits ts zs"
    by (auto simp: list_all2_Cons1)
  with \<open>concat segs = s\<close> have "s = z @ concat zs \<and> fits t z \<and> accepts ts (concat zs)"
    by (auto simp: accepts_def)
  then show "\<exists>seg rest. s = seg @ rest \<and> fits t seg \<and> accepts ts rest" by blast
next
  assume "\<exists>seg rest. s = seg @ rest \<and> fits t seg \<and> accepts ts rest"
  then obtain seg rest segs where "s = seg @ rest" "fits t seg" "concat segs = rest"
    "list_all2 fits ts segs"
    by (auto simp: accepts_def)
  then have "concat (seg # segs) = s \<and> list_all2 fits (t # ts) (seg # segs)"
    by simp
  then show "accepts (t # ts) s"
    unfolding accepts_def by blast
qed

lemma MatchString_accepts: "MatchString ts s \<longleftrightarrow> accepts ts s"
proof (induction ts arbitrary: s)
  case Nil
  then show ?case by simp
next
  case (Cons t ts)
  show ?case
  proof (cases t)
    case (Lit c)
    with Cons show ?thesis
      by (auto simp: accepts_Cons split: list.splits)
  next
    case NonSlashPlus
    have "MatchString (NonSlashPlus # ts) s \<longleftrightarrow>
        (\<exists>n. 1 \<le> n \<and> n \<le> length s \<and> CHR ''/'' \<notin> set (take n s) \<and> accepts ts (drop n s))"
      using Cons by (auto simp: list_ex_iff list_all_iff)
    also have "\<dots> \<longleftrightarrow> (\<exists>seg rest. s = seg @ rest \<and> seg \<noteq> [] \<and> CHR ''/'' \<notin> set seg \<and> accepts ts rest)"
    proof
      assume "\<exists>n. 1 \<le> n \<and> n \<le> length s \<and> CHR ''/'' \<notin> set (take n s) \<and> accepts ts (drop n s)"
      then obtain n where n: "1 \<le> n" "n \<le> length s" "CHR ''/'' \<notin> set (take n s)"
        "accepts ts (drop n s)" by blast
      have "s = take n s @ drop n s" by simp
      moreover have "take n s \<noteq> []" using n by auto
      ultimately show "\<exists>seg rest. s = seg @ rest \<and> seg \<noteq> [] \<and> CHR ''/'' \<notin> set seg \<and> accepts ts rest"
        using n by blast
    next
      assume "\<exists>seg rest. s = seg @ rest \<and> seg \<noteq> [] \<and> CHR ''/'' \<notin> set seg \<and> accepts ts rest"
      then obtain seg rest where h: "s = seg @ rest" "seg \<noteq> []" "CHR ''/'' \<notin> set seg"
        "accepts ts rest" by blast
      then have "1 \<le> length seg \<and> length seg \<le> length s \<and>
          CHR ''/'' \<notin> set (take (length seg) s) \<and> accepts ts (drop (length seg) s)"
        by (cases seg) auto
      then show "\<exists>n. 1 \<le> n \<and> n \<le> length s \<and> CHR ''/'' \<notin> set (take n s) \<and> accepts ts (drop n s)"
        by blast
    qed
    finally show ?thesis
      using NonSlashPlus by (simp add: accepts_Cons)
  qed
qed

lemma Compile_anchored: "Compile (''^'' @ body @ ''$'') = parseBody body"
  by (simp add: Compile_def)

lemma QuoteMeta_simps [simp]:
  "QuoteMeta [] = []"
  "QuoteMeta (c # p) = (if c \<in> set metaChars then [backslash, c] else [c]) @ QuoteMeta p"
  "QuoteMeta (a @ b) = QuoteMeta a @ QuoteMeta b"
  by (simp_all add: QuoteMeta_def)

lemma metaChars_simps [simp]:
  "backslash \<in> set metaChars" "CHR ''{'' \<in> set metaChars" "CHR ''}'' \<in> set metaChars"
  "CHR ''['' \<in> set metaChars" "backslash \<noteq> CHR ''}''" "backslash \<noteq> CHR ''{''"
  "backslash \<noteq> CHR ''[''" "CHR ''}'' \<noteq> backslash" "CHR ''{'' \<noteq> backslash"
  by (simp_all add: metaChars_def backslash_def)

lemma closing_notin_QuoteMeta:
  "CHR ''}'' \<notin> set name \<Longrightarrow> CHR ''}'' \<notin> set (QuoteMeta name)"
  by (induction name) auto

lemma QuoteMeta_eq_Nil [simp]: "QuoteMeta p = [] \<longleftrightarrow> p = []"
  by (cases p) auto

text \<open>How a quoted text can begin.\<close>

lemma QuoteMeta_starts_escaped:
  "c \<in> set metaChars \<Longrightarrow> prefix [backslash, c] (QuoteMeta p) \<longleftrightarrow> (\<exists>p'. p = c # p')"
  by (cases p) (auto simp: backslash_def metaChars_def)

lemma QuoteMeta_not_starts_meta:
  "c \<in> set metaChars \<Longrightarrow> c \<noteq> backslash \<Longrightarrow> \<not> prefix [c] (QuoteMeta p)"
  by (cases p) auto

lemma takeWhile_neq_append:
  "a \<notin> set xs \<Longrightarrow> takeWhile (\<lambda>c. c \<noteq> a) (xs @ ys) = xs @ takeWhile (\<lambda>c. c \<noteq> a) ys"
  by (induction xs) auto

lemma dropWhile_neq_append:
  "a \<notin> set xs \<Longrightarrow> dropWhile (\<lambda>c. c \<noteq> a) (xs @ ys) = dropWhile (\<lambda>c. c \<noteq> a) ys"
  by (induction xs) auto

lemma takeWhile_quoted_name:
  assumes "CHR ''}'' \<notin> set name"
  shows "takeWhile (\<lambda>c. c \<noteq> CHR ''}'') (QuoteMeta name @ backslash # CHR ''}'' # X)
           = QuoteMeta name @ [backslash]"
    and "dropWhile (\<lambda>c. c \<noteq> CHR ''}'') (QuoteMeta name @ backslash # CHR ''}'' # X)
           = CHR ''}'' # X"
  using closing_notin_QuoteMeta [OF assms]
  by (simp_all add: takeWhile_neq_append dropWhile_neq_append)

lemma takeWhile_quoted_all:
  assumes "CHR ''}'' \<notin> set name"
  shows "dropWhile (\<lambda>c. c \<noteq> CHR ''}'') (QuoteMeta name) = []"
  using closing_notin_QuoteMeta [OF assms] dropWhile_neq_append [of "CHR ''}''" "QuoteMeta name" "[]"]
  by simp

lemma rawPlaceholderAt_SomeD:
  assumes "rawPlaceholderAt p = Some n"
  shows "\<exists>name rest. p = ''{{'' @ name @ ''}}'' @ rest \<and> name \<noteq> [] \<and>
           CHR ''}'' \<notin> set name \<and> n = length name + 4"
proof -
  let ?P = "\<lambda>c. c \<noteq> CHR ''}''"
  from assms obtain p2 where p: "p = ''{{'' @ p2"
    by (auto simp: rawPlaceholderAt_def prefix_def split: if_splits)
  let ?name = "takeWhile ?P p2" and ?after = "dropWhile ?P p2"
  from assms p have ne: "?name \<noteq> []" and pre: "prefix ''}}'' ?after" and n: "n = 2 + length ?name + 2"
    by (auto simp: rawPlaceholderAt_def Let_def split: if_splits)
  from pre obtain rest where after: "?after = ''}}'' @ rest"
    by (auto simp: prefix_def)
  have "p2 = ?name @ ?after" by simp
  with after have "p = ''{{'' @ ?name @ ''}}'' @ rest"
    using p by simp
  moreover have "CHR ''}'' \<notin> set ?name"
    by (auto dest: set_takeWhileD)
  ultimately show ?thesis using ne n by (intro exI [of _ ?name] exI [of _ rest]) simp
qed

lemma rawPlaceholderAt_SomeI:
  assumes "name \<noteq> []" and "CHR ''}'' \<notin> set name"
  shows "rawPlaceholderAt (''{{'' @ name @ ''}}'' @ rest) = Some (length name + 4)"
  using assms
  by (simp add: rawPlaceholderAt_def Let_def takeWhile_neq_append dropWhile_neq_append)

lemma placeholderAt_quoted_placeholder:
  assumes "name \<noteq> []" and "CHR ''}'' \<notin> set name"
  shows "placeholderAt (QuoteMeta (''{{'' @ name @ ''}}'' @ rest))
           = Some (length (QuoteMeta (''{{'' @ name @ ''}}'')))"
proof -
  have q: "QuoteMeta (''{{'' @ name @ ''}}'' @ rest) =
      [backslash, CHR ''{'', backslash, CHR ''{''] @
      (QuoteMeta name @ backslash # CHR ''}'' # ([backslash, CHR ''}''] @ QuoteMeta rest))"
    by simp
  have len: "2 \<le> length (QuoteMeta name @ [backslash])"
    using assms(1) by (cases name) auto
  show ?thesis
    unfolding q placeholderAt_def
    using len by (simp add: takeWhile_quoted_name [OF assms(2)] Let_def)
qed

lemma dropWhile_neq_cases:
  "dropWhile (\<lambda>c. c \<noteq> a) xs = [] \<or> (\<exists>ys. dropWhile (\<lambda>c. c \<noteq> a) xs = a # ys)"
  by (induction xs) auto

lemma placeholderAt_quoted_SomeD:
  assumes "placeholderAt (QuoteMeta p) = Some m"
  shows "rawPlaceholderAt p \<noteq> None"
proof -
  let ?P = "\<lambda>c. c \<noteq> CHR ''}''"
  from assms have pre: "prefix [backslash, CHR ''{'', backslash, CHR ''{''] (QuoteMeta p)"
    by (auto simp: placeholderAt_def split: if_splits)
  then have "prefix [backslash, CHR ''{''] (QuoteMeta p)"
    by (auto simp: prefix_def)
  then obtain p1 where p1: "p = CHR ''{'' # p1"
    using QuoteMeta_starts_escaped [of "CHR ''{''" p] by auto
  with pre have "prefix [backslash, CHR ''{''] (QuoteMeta p1)"
    by simp
  then obtain p2 where p2: "p1 = CHR ''{'' # p2"
    using QuoteMeta_starts_escaped [of "CHR ''{''" p1] by auto
  define name where "name = takeWhile ?P p2"
  define ra where "ra = dropWhile ?P p2"
  have split: "p2 = name @ ra"
    by (simp add: name_def ra_def)
  have nm: "CHR ''}'' \<notin> set name"
    by (auto simp: name_def dest: set_takeWhileD)
  have ra_hd: "ra = [] \<or> (\<exists>ra'. ra = CHR ''}'' # ra')"
    unfolding ra_def by (rule dropWhile_neq_cases)
  have q: "drop 4 (QuoteMeta p) = QuoteMeta name @ QuoteMeta ra"
    using p1 p2 split by simp
  from assms have cond:
    "2 \<le> length (takeWhile ?P (drop 4 (QuoteMeta p)))"
    "prefix [CHR ''}'', backslash, CHR ''}''] (dropWhile ?P (drop 4 (QuoteMeta p)))"
    by (auto simp: placeholderAt_def Let_def split: if_splits)
  have "ra \<noteq> []"
  proof
    assume "ra = []"
    then have "dropWhile ?P (drop 4 (QuoteMeta p)) = []"
      unfolding q using takeWhile_quoted_all [OF nm] by simp
    with cond(2) show False by simp
  qed
  with ra_hd obtain ra' where ra: "ra = CHR ''}'' # ra'"
    by blast
  have q': "drop 4 (QuoteMeta p) = QuoteMeta name @ backslash # CHR ''}'' # QuoteMeta ra'"
    using q ra by simp
  from cond takeWhile_quoted_name [OF nm, of "QuoteMeta ra'"]
  have len: "2 \<le> length (QuoteMeta name @ [backslash])"
    and pre2: "prefix [backslash, CHR ''}''] (QuoteMeta ra')"
    unfolding q' by simp_all
  from len have name_ne: "name \<noteq> []" by auto
  from pre2 obtain rest where rest: "ra' = CHR ''}'' # rest"
    using QuoteMeta_starts_escaped [of "CHR ''}''" ra'] by auto
  have "p = ''{{'' @ name @ ''}}'' @ rest"
    using p1 p2 split ra rest by simp
  with rawPlaceholderAt_SomeI [OF name_ne nm, of rest] show ?thesis
    by simp
qed

lemma placeholderAt_quoted_None:
  "rawPlaceholderAt p = None \<Longrightarrow> placeholderAt (QuoteMeta p) = None"
  using placeholderAt_quoted_SomeD [of p] by (cases "placeholderAt (QuoteMeta p)") auto

lemma placeholderAt_inside_escape:
  "placeholderAt (c # QuoteMeta p) = None"
proof (cases "c = backslash")
  case True
  have "\<not> prefix [CHR ''{''] (QuoteMeta p)"
    by (rule QuoteMeta_not_starts_meta) simp_all
  then show ?thesis
    using True by (auto simp: placeholderAt_def prefix_def)
next
  case False
  then show ?thesis by (simp add: placeholderAt_def)
qed

lemma replacePlaceholders_quoted_placeholder:
  assumes "rawPlaceholderAt p = Some n"
  shows "replacePlaceholders (QuoteMeta p) = ''[^/]+'' @ replacePlaceholders (QuoteMeta (drop n p))"
proof -
  from rawPlaceholderAt_SomeD [OF assms] obtain name rest where
    p: "p = ''{{'' @ name @ ''}}'' @ rest" and ne: "name \<noteq> []"
    and nm: "CHR ''}'' \<notin> set name" and n: "n = length name + 4"
    by blast
  have "n = length (''{{'' @ name @ ''}}'')"
    using n by simp
  then have dr: "drop n p = rest"
    unfolding p by (metis append.assoc append_eq_conv_conj)
  let ?q = "QuoteMeta (''{{'' @ name @ ''}}'')"
  have qp: "QuoteMeta p = ?q @ QuoteMeta rest"
    using p by simp
  obtain c q' where cq: "QuoteMeta p = c # q'"
    using qp by (cases "QuoteMeta p") auto
  have "placeholderAt (c # q') = Some (length ?q)"
    using placeholderAt_quoted_placeholder [OF ne nm, of rest] p cq by simp
  then have "replacePlaceholders (c # q') = ''[^/]+'' @ replacePlaceholders (drop (length ?q) (c # q'))"
    by simp
  also have "drop (length ?q) (c # q') = QuoteMeta rest"
    using cq qp by (metis append_eq_conv_conj)
  finally show ?thesis
    using cq dr by simp
qed

lemma replacePlaceholders_quoted_literal:
  assumes "rawPlaceholderAt (c # p) = None"
  shows "replacePlaceholders (QuoteMeta (c # p)) = QuoteMeta [c] @ replacePlaceholders (QuoteMeta p)"
proof (cases "c \<in> set metaChars")
  case True
  have "placeholderAt (backslash # c # QuoteMeta p) = None"
    using placeholderAt_quoted_None [OF assms] True by simp
  moreover have "placeholderAt (c # QuoteMeta p) = None"
    by (rule placeholderAt_inside_escape)
  ultimately show ?thesis
    using True by simp
next
  case False
  have "placeholderAt (c # QuoteMeta p) = None"
    by (rule placeholderAt_inside_escape)
  then show ?thesis
    using False by simp
qed

lemma parseBody_wildcard:
  "parseBody (CHR ''['' # CHR ''^'' # CHR ''/'' # CHR '']'' # CHR ''+'' # X) =
     map_option ((#) NonSlashPlus) (parseBody X)"
  by (simp add: backslash_def)

lemma parseBody_quoted_char:
  "parseBody (QuoteMeta [c] @ X) = map_option ((#) (Lit c)) (parseBody X)"
proof (cases "c \<in> set metaChars")
  case True
  then show ?thesis by simp
next
  case False
  then have "c \<noteq> backslash" "c \<noteq> CHR ''[''"
    by auto
  with False show ?thesis by simp
qed

lemma parseBody_quoted:
  "parseBody (replacePlaceholders (QuoteMeta p)) = Some (placeholderTokens p)"
proof (induction p rule: placeholderTokens.induct)
  case 1
  then show ?case by simp
next
  case (2 c p)
  show ?case
  proof (cases "rawPlaceholderAt (c # p)")
    case None
    with 2 show ?thesis
      by (simp add: replacePlaceholders_quoted_literal parseBody_quoted_char
          del: QuoteMeta_simps parseBody.simps)
  next
    case (Some n)
    with 2 show ?thesis
      by (simp add: replacePlaceholders_quoted_placeholder parseBody_wildcard
          del: QuoteMeta_simps parseBody.simps)
  qed
qed

lemma Compile_quoted:
  "Compile (''^'' @ replacePlaceholders (QuoteMeta p) @ ''$'') = Some (placeholderTokens p)"
  using Compile_anchored [of "replacePlaceholders (QuoteMeta p)"]
  by (simp only: parseBody_quoted)

lemma matchesPattern_accepts:
  "matchesPattern pattern url \<longleftrightarrow> accepts (placeholderTokens pattern) url"
  unfolding matchesPattern_def Let_def
  by (simp only: Compile_quoted option.case MatchString_accepts)

section \<open>Properties of the mock resolver\<close>

lemma dom_indexAPICalls: "dom (indexAPICalls mocks m) = dom m \<union> URLPath ` set mocks"
  by (induction mocks arbitrary: m) auto

lemma indexAPICalls_append:
  "indexAPICalls (mocks @ [mock]) m = (indexAPICalls mocks m)(URLPath mock \<mapsto> Response mock)"
  by (induction mocks arbitrary: m) auto

lemma indexAPICalls_last:
  "URLPath mock \<notin> URLPath ` set post \<Longrightarrow>
   indexAPICalls (pre @ mock # post) m (URLPath mock) = Some (Response mock)"
proof (induction post rule: rev_induct)
  case Nil
  then show ?case by (simp add: indexAPICalls_append)
next
  case (snoc x xs)
  then show ?case
    using indexAPICalls_append [of "pre @ mock # xs" x m] by auto
qed

lemma dom_indexGlobalContext:
  "dom (indexGlobalContext mocks m) = dom m \<union> GlobalContextMock.Name ` set mocks"
  by (induction mocks arbitrary: m) auto

lemma indexGlobalContext_append:
  "indexGlobalContext (mocks @ [mock]) m =
     (indexGlobalContext mocks m)(GlobalContextMock.Name mock \<mapsto> Value mock)"
  by (induction mocks arbitrary: m) auto

lemma indexGlobalContext_last:
  "GlobalContextMock.Name mock \<notin> GlobalContextMock.Name ` set post \<Longrightarrow>
   indexGlobalContext (pre @ mock # post) m (GlobalContextMock.Name mock) = Some (Value mock)"
proof (induction post rule: rev_induct)
  case Nil
  then show ?case by (simp add: indexGlobalContext_append)
next
  case (snoc x xs)
  then show ?case
    using indexGlobalContext_append [of "pre @ mock # xs" x m] by auto
qed

text \<open>The pattern loop.\<close>

lemma scanPatterns_none:
  "(\<And>p. p \<in> set ps \<Longrightarrow> calls p \<noteq> None \<Longrightarrow> \<not> matchesPattern p rp) \<Longrightarrow>
   scanPatterns calls ps rp = Inl (''no mock found for API call: '' @ rp)"
  by (induction ps) (auto split: option.splits)

lemma scanPatterns_InrD:
  "scanPatterns calls ps rp = Inr response \<Longrightarrow>
   \<exists>p \<in> set ps. calls p = Some response \<and> matchesPattern p rp"
  by (induction ps) (auto split: option.splits if_splits)

lemma scanPatterns_InlD:
  "scanPatterns calls ps rp = Inl e \<Longrightarrow> e = ''no mock found for API call: '' @ rp"
  by (induction ps) (auto split: option.splits if_splits)

lemma scanPatterns_first:
  "(\<And>q. q \<in> set pre \<Longrightarrow> calls q \<noteq> None \<Longrightarrow> \<not> matchesPattern q rp) \<Longrightarrow>
   calls p = Some response \<Longrightarrow> matchesPattern p rp \<Longrightarrow>
   scanPatterns calls (pre @ p # post) rp = Inr response"
  by (induction pre) (auto split: option.splits)

lemma scanPatterns_unique:
  assumes mem: "p \<in> set ps" and resp: "calls p = Some response" and m: "matchesPattern p rp"
    and uniq: "\<And>q. q \<in> set ps \<Longrightarrow> calls q \<noteq> None \<Longrightarrow> matchesPattern q rp \<Longrightarrow> q = p"
  shows "scanPatterns calls ps rp = Inr response"
proof -
  from mem obtain pre post where ps: "ps = pre @ p # post" and notin: "p \<notin> set pre"
    by (auto dest: split_list_first)
  have "\<not> matchesPattern q rp" if "q \<in> set pre" "calls q \<noteq> None" for q
  proof
    assume "matchesPattern q rp"
    with that ps have "q = p" by (intro uniq) simp_all
    with that(1) notin show False by simp
  qed
  then show ?thesis
    unfolding ps using resp m by (rule scanPatterns_first)
qed

text \<open>\<open>strings.Contains\<close> and \<open>strings.ReplaceAll\<close>.\<close>

lemma Contains_iff: "Contains s sub \<longleftrightarrow> (\<exists>a b. s = a @ sub @ b)"
proof (induction s)
  case Nil
  then show ?case by auto
next
  case (Cons c s)
  show ?case
  proof
    assume "Contains (c # s) sub"
    then consider "prefix sub (c # s)" | "Contains s sub" by auto
    then show "\<exists>a b. c # s = a @ sub @ b"
    proof cases
      case 1
      then obtain b where "c # s = sub @ b" by (auto simp: prefix_def)
      then have "c # s = [] @ sub @ b" by simp
      then show ?thesis by blast
    next
      case 2
      with Cons obtain a b where "s = a @ sub @ b" by blast
      then have "c # s = (c # a) @ sub @ b" by simp
      then show ?thesis by blast
    qed
  next
    assume "\<exists>a b. c # s = a @ sub @ b"
    then obtain a b where ab: "c # s = a @ sub @ b" by blast
    show "Contains (c # s) sub"
    proof (cases a)
      case Nil
      with ab have "prefix sub (c # s)" by (auto simp: prefix_def)
      then show ?thesis by simp
    next
      case (Cons d a')
      with ab have "s = a' @ sub @ b" by simp
      with Cons.IH show ?thesis by auto
    qed
  qed
qed

lemma ReplaceAll_absent:
  "old \<noteq> [] \<Longrightarrow> \<not> Contains s old \<Longrightarrow> ReplaceAll s old new = s"
proof (induction s)
  case Nil
  then show ?case by (cases old) auto
next
  case (Cons c s)
  then show ?case by (cases old) auto
qed

lemma ReplaceAll_first:
  assumes "old \<noteq> []" and "\<not> Contains (a @ butlast old) old"
  shows "ReplaceAll (a @ old @ b) old new = a @ new @ ReplaceAll b old new"
  using assms(2)
proof (induction a)
  case Nil
  from assms(1) obtain x xs where old: "old = x # xs" by (cases old) auto
  then show ?case by simp
next
  case (Cons c a)
  from assms(1) obtain x xs where old: "old = x # xs" by (cases old) auto
  have np: "\<not> prefix old (c # a @ old @ b)"
  proof
    assume "prefix old (c # a @ old @ b)"
    then have "prefix old (((c # a) @ butlast old) @ (last old # b))"
      using assms(1) by (metis append.assoc append_Cons append_Nil append_butlast_last_id)
    moreover have "length old \<le> length ((c # a) @ butlast old)"
      by simp
    ultimately have "prefix old ((c # a) @ butlast old)"
      by (metis prefix_append prefix_length_le prefix_order.antisym prefix_order.order_refl
          prefix_length_prefix prefixI)
    then obtain z where "(c # a) @ butlast old = [] @ old @ z"
      by (auto simp: prefix_def)
    then have "Contains ((c # a) @ butlast old) old"
      unfolding Contains_iff by blast
    with Cons.prems show False by simp
  qed
  have "\<not> Contains (a @ butlast old) old"
    using Cons.prems by auto
  with Cons.IH have "ReplaceAll (a @ old @ b) old new = a @ new @ ReplaceAll b old new"
    by simp
  moreover have "ReplaceAll ((c # a) @ old @ b) old new = c # ReplaceAll (a @ old @ b) old new"
    using np unfolding old by (simp del: Cons_prefix_Cons)
  ultimately show ?case by simp
qed

lemma ReplaceAll_every:
  assumes "old \<noteq> []" and "\<And>seg. seg \<in> set segs \<Longrightarrow> \<not> Contains (seg @ butlast old) old"
    and "\<not> Contains rest old"
  shows "ReplaceAll (concat (map (\<lambda>seg. seg @ old) segs) @ rest) old new =
         concat (map (\<lambda>seg. seg @ new) segs) @ rest"
  using assms(2)
proof (induction segs)
  case Nil
  from assms(1,3) show ?case by (simp add: ReplaceAll_absent)
next
  case (Cons seg segs)
  have "ReplaceAll (seg @ old @ (concat (map (\<lambda>seg. seg @ old) segs) @ rest)) old new =
        seg @ new @ ReplaceAll (concat (map (\<lambda>seg. seg @ old) segs) @ rest) old new"
    using assms(1) Cons.prems [of seg] by (intro ReplaceAll_first) simp_all
  moreover have "ReplaceAll (concat (map (\<lambda>seg. seg @ old) segs) @ rest) old new =
        concat (map (\<lambda>seg. seg @ new) segs) @ rest"
    using Cons.prems by (intro Cons.IH) simp
  ultimately show ?case by simp
qed

text \<open>Evaluations of \<open>matchesPattern\<close> and of the example configurations.\<close>

lemma matchesPattern_ex1: "matchesPattern ''/{{y}}/b'' ''/a/b''"
  by (simp add: matchesPattern_def QuoteMeta_def metaChars_def backslash_def placeholderAt_def
      Compile_def Let_def)

lemma matchesPattern_ex2: "matchesPattern ''/a/{{x}}'' ''/a/b''"
  by (simp add: matchesPattern_def QuoteMeta_def metaChars_def backslash_def placeholderAt_def
      Compile_def Let_def)

lemma matchesPattern_ex3: "matchesPattern ''/api/v1/namespaces/{{namespace}}/configmaps'' ''/api/v1/namespaces/prod/configmaps''"
  by (simp add: matchesPattern_def QuoteMeta_def metaChars_def backslash_def placeholderAt_def
      Compile_def Let_def)

lemma matchesPattern_ex4: "\<not> matchesPattern ''/api/v1/namespaces/{{namespace}}/configmaps'' ''/api/v1/namespaces/prod/x/configmaps''"
  by (simp add: matchesPattern_def QuoteMeta_def metaChars_def backslash_def placeholderAt_def
      Compile_def Let_def)

lemma substituteVariables_ex: "substituteVariables ''/api/v1/namespaces/{{namespace}}/configmaps'' [(''namespace'', ''prod'')] = ''/api/v1/namespaces/prod/configmaps''"
  by simp

lemma matchesPattern_ex5: "\<not> matchesPattern ''/a/{{x}}'' ''/c/d''"
  by (simp add: matchesPattern_def QuoteMeta_def metaChars_def backslash_def placeholderAt_def
      Compile_def Let_def)

lemma matchesPattern_ex6: "\<not> matchesPattern ''/{{y}}/b'' ''/c/d''"
  by (simp add: matchesPattern_def QuoteMeta_def metaChars_def backslash_def placeholderAt_def
      Compile_def Let_def)

lemma apiCalls_configmapsConfig:
  "apiCalls (NewMockResolver configmapsConfig) =
     [''/api/v1/namespaces/{{namespace}}/configmaps'' \<mapsto> ''items'']"
  by (simp add: NewMockResolver_def configmapsConfig_def)

lemma apiCalls_overlappingConfig:
  "apiCalls (NewMockResolver overlappingConfig) = [''/a/{{x}}'' \<mapsto> ''first'', ''/{{y}}/b'' \<mapsto> ''second'']"
  by (simp add: NewMockResolver_def overlappingConfig_def)

lemma globalCtx_configmapsConfig:
  "globalCtx (NewMockResolver configmapsConfig) = [''deployment-count'' \<mapsto> ''5'']"
  by (simp add: NewMockResolver_def configmapsConfig_def)

lemma matchesPattern_ex7: "\<not> matchesPattern ''/api/v1/namespaces/{{namespace}}/configmaps'' ''/api/v1/pods''"
  by (simp add: matchesPattern_def QuoteMeta_def metaChars_def backslash_def placeholderAt_def
      Compile_def Let_def)

text \<open>The two branches of \<open>ResolveAPICall\<close>.\<close>

lemma substituteVariables_foldl:
  "substituteVariables path vars =
     foldl (\<lambda>path (key, val). ReplaceAll path (''{{'' @ key @ ''}}'') val) path vars"
  by (induction path vars rule: substituteVariables.induct) simp_all

lemma ResolveAPICall_exact:
  "apiCalls r (substituteVariables urlPath vars) = Some response \<Longrightarrow>
   ResolveAPICall patterns r urlPath vars = Inr response"
  by (simp add: ResolveAPICall_def)

lemma ResolveAPICall_scan:
  "apiCalls r (substituteVariables urlPath vars) = None \<Longrightarrow>
   ResolveAPICall patterns r urlPath vars =
     scanPatterns (apiCalls r) patterns (substituteVariables urlPath vars)"
  by (simp add: ResolveAPICall_def)

lemma apiCalls_NewMockResolver:
  "apiCalls (NewMockResolver cfg) = indexAPICalls (APICallMocks cfg) Map.empty"
  by (simp add: NewMockResolver_def)

lemma globalCtx_NewMockResolver:
  "globalCtx (NewMockResolver cfg) = indexGlobalContext (GlobalContextMocks cfg) Map.empty"
  by (simp add: NewMockResolver_def)

lemma indexGlobalContext_SomeD:
  "indexGlobalContext mocks m name = Some v \<Longrightarrow>
   m name = Some v \<or> (\<exists>mock \<in> set mocks. GlobalContextMock.Name mock = name \<and> Value mock = v)"
  by (induction mocks arbitrary: m) (fastforce split: if_splits)+

lemma ResolveAPICall_InrD:
  assumes "ResolveAPICall patterns r urlPath vars = Inr response"
  shows "\<exists>p. apiCalls r p = Some response \<and>
           (p = substituteVariables urlPath vars \<or> matchesPattern p (substituteVariables urlPath vars))"
proof (cases "apiCalls r (substituteVariables urlPath vars)")
  case None
  with assms have "scanPatterns (apiCalls r) patterns (substituteVariables urlPath vars) = Inr response"
    by (simp add: ResolveAPICall_scan)
  then show ?thesis by (blast dest: scanPatterns_InrD)
next
  case (Some a)
  with assms have "a = response" by (simp add: ResolveAPICall_exact)
  with Some show ?thesis by blast
qed

lemma ResolveAPICall_InlD:
  assumes "ResolveAPICall patterns r urlPath vars = Inl e"
  shows "e = ''no mock found for API call: '' @ substituteVariables urlPath vars"
proof (cases "apiCalls r (substituteVariables urlPath vars)")
  case None
  with assms have "scanPatterns (apiCalls r) patterns (substituteVariables urlPath vars) = Inl e"
    by (simp add: ResolveAPICall_scan)
  then show ?thesis by (rule scanPatterns_InlD)
next
  case (Some a)
  with assms show ?thesis by (simp add: ResolveAPICall_exact)
qed

lemma ResolveAPICall_no_match:
  assumes "\<forall>p \<in> dom (apiCalls r). p \<noteq> substituteVariables urlPath vars \<and>
             \<not> matchesPattern p (substituteVariables urlPath vars)"
  shows "ResolveAPICall patterns r urlPath vars =
           Inl (''no mock found for API call: '' @ substituteVariables urlPath vars)"
proof -
  from assms have none: "apiCalls r (substituteVariables urlPath vars) = None"
    by (cases "apiCalls r (substituteVariables urlPath vars)") auto
  from assms have "scanPatterns (apiCalls r) patterns (substituteVariables urlPath vars) =
      Inl (''no mock found for API call: '' @ substituteVariables urlPath vars)"
    by (intro scanPatterns_none) auto
  with none show ?thesis by (simp add: ResolveAPICall_scan)
qed

text \<open>
  C1, counterexample. Two mocks are registered, \<open>/a/{{x}}\<close> first and \<open>/{{y}}/b\<close>
  second, and both patterns match the path \<open>/a/b\<close>. The pattern loop ranges over the map
  \<open>apiCalls\<close>, which keeps no registration order; when the range visits \<open>/{{y}}/b\<close>
  first, the call returns the response of the second mock, whereas the first registered
  matching pattern is that of the first mock.
\<close>

theorem C1_counterexample:
  "rangeOrder (apiCalls (NewMockResolver overlappingConfig)) [''/{{y}}/b'', ''/a/{{x}}''] \<and>
   ResolveAPICall [''/{{y}}/b'', ''/a/{{x}}''] (NewMockResolver overlappingConfig) ''/a/b'' [] =
     Inr ''second'' \<and>
   ResolveAPICall_spec overlappingConfig ''/a/b'' [] = Inr ''first''"
proof (intro conjI)
  show "rangeOrder (apiCalls (NewMockResolver overlappingConfig)) [''/{{y}}/b'', ''/a/{{x}}'']"
    by (auto simp: rangeOrder_def NewMockResolver_def overlappingConfig_def)
  show "ResolveAPICall [''/{{y}}/b'', ''/a/{{x}}''] (NewMockResolver overlappingConfig) ''/a/b'' [] =
     Inr ''second''"
    by (simp add: ResolveAPICall_def NewMockResolver_def overlappingConfig_def matchesPattern_ex1)
  show "ResolveAPICall_spec overlappingConfig ''/a/b'' [] = Inr ''first''"
    by (simp add: ResolveAPICall_spec_def NewMockResolver_def overlappingConfig_def
        matchesPattern_accepts [symmetric] matchesPattern_ex2)
qed

text \<open>
  C1, as amended. For every resolver, every order \<open>patterns\<close> in which the range loop
  may visit the keys of \<open>apiCalls\<close>, and every call: the resolved path is the path after
  replacing, variable by variable, the placeholder \<open>{{key}}\<close> by the value of the
  variable, and one such replacement replaces every occurrence of the placeholder; if the
  resolved path is a registered pattern the call returns the response registered for it;
  otherwise it returns the response of the first pattern, in the order of the range loop,
  that matches the resolved path, so that a pattern which is the only matching one is
  returned whatever the order, and if no pattern matches the call fails with an error
  naming the resolved path. A pattern matches a path when the path is made of one segment
  per token of the pattern: the character itself for a literal character, one or more
  characters other than \<open>/\<close> for a placeholder. The registered patterns are the URL paths
  of the configured mocks, each with the response of the last mock of that path. The
  path \<open>/api/v1/namespaces/prod/configmaps\<close>, obtained from the pattern
  \<open>/api/v1/namespaces/{{namespace}}/configmaps\<close> with \<open>namespace\<close> set to \<open>prod\<close>, is
  not registered and matches that pattern.
\<close>

theorem C1_ResolveAPICall:
  assumes ro: "rangeOrder (apiCalls r) patterns"
  shows
   "(let resolvedPath = substituteVariables urlPath vars;
         result = ResolveAPICall patterns r urlPath vars
     in resolvedPath =
          foldl (\<lambda>path (key, val). ReplaceAll path (''{{'' @ key @ ''}}'') val) urlPath vars \<and>
        (\<forall>key val segs rest.
           (\<forall>seg \<in> set segs.
              \<not> Contains (seg @ butlast (''{{'' @ key @ ''}}'')) (''{{'' @ key @ ''}}'')) \<and>
           \<not> Contains rest (''{{'' @ key @ ''}}'') \<longrightarrow>
           ReplaceAll (concat (map (\<lambda>seg. seg @ ''{{'' @ key @ ''}}'') segs) @ rest)
             (''{{'' @ key @ ''}}'') val =
           concat (map (\<lambda>seg. seg @ val) segs) @ rest) \<and>
        (\<forall>response. apiCalls r resolvedPath = Some response \<longrightarrow> result = Inr response) \<and>
        (apiCalls r resolvedPath = None \<longrightarrow>
           (\<forall>pre p post response.
              patterns = pre @ p # post \<and>
              (\<forall>q \<in> set pre. \<not> accepts (placeholderTokens q) resolvedPath) \<and>
              accepts (placeholderTokens p) resolvedPath \<and> apiCalls r p = Some response \<longrightarrow>
              result = Inr response) \<and>
           (\<forall>p response.
              apiCalls r p = Some response \<and> accepts (placeholderTokens p) resolvedPath \<and>
              (\<forall>q \<in> dom (apiCalls r). accepts (placeholderTokens q) resolvedPath \<longrightarrow> q = p) \<longrightarrow>
              result = Inr response) \<and>
           ((\<forall>q \<in> dom (apiCalls r). \<not> accepts (placeholderTokens q) resolvedPath) \<longrightarrow>
              result = Inl (''no mock found for API call: '' @ resolvedPath))) \<and>
        dom (apiCalls (NewMockResolver cfg)) = URLPath ` set (APICallMocks cfg) \<and>
        (\<forall>before mock later.
           APICallMocks cfg = before @ mock # later \<and> URLPath mock \<notin> URLPath ` set later \<longrightarrow>
           apiCalls (NewMockResolver cfg) (URLPath mock) = Some (Response mock)) \<and>
        substituteVariables ''/api/v1/namespaces/{{namespace}}/configmaps''
          [(''namespace'', ''prod'')] = ''/api/v1/namespaces/prod/configmaps'' \<and>
        apiCalls (NewMockResolver configmapsConfig) ''/api/v1/namespaces/prod/configmaps'' = None \<and>
        accepts (placeholderTokens ''/api/v1/namespaces/{{namespace}}/configmaps'')
          ''/api/v1/namespaces/prod/configmaps'')"
proof -
  let ?rp = "substituteVariables urlPath vars"
  let ?res = "ResolveAPICall patterns r urlPath vars"
  have sub: "?rp = foldl (\<lambda>path (key, val). ReplaceAll path (''{{'' @ key @ ''}}'') val) urlPath vars"
    by (rule substituteVariables_foldl)
  have every: "\<forall>key val segs rest.
           (\<forall>seg \<in> set segs.
              \<not> Contains (seg @ butlast (''{{'' @ key @ ''}}'')) (''{{'' @ key @ ''}}'')) \<and>
           \<not> Contains rest (''{{'' @ key @ ''}}'') \<longrightarrow>
           ReplaceAll (concat (map (\<lambda>seg. seg @ ''{{'' @ key @ ''}}'') segs) @ rest)
             (''{{'' @ key @ ''}}'') val =
           concat (map (\<lambda>seg. seg @ val) segs) @ rest"
  proof (intro allI impI)
    fix key val :: string and segs rest
    assume a: "(\<forall>seg \<in> set segs.
              \<not> Contains (seg @ butlast (''{{'' @ key @ ''}}'')) (''{{'' @ key @ ''}}'')) \<and>
           \<not> Contains rest (''{{'' @ key @ ''}}'')"
    have ne: "''{{'' @ key @ ''}}'' \<noteq> []" by simp
    from a show "ReplaceAll (concat (map (\<lambda>seg. seg @ ''{{'' @ key @ ''}}'') segs) @ rest)
             (''{{'' @ key @ ''}}'') val =
           concat (map (\<lambda>seg. seg @ val) segs) @ rest"
      by (intro ReplaceAll_every [OF ne]) blast+
  qed
  have exact: "\<forall>response. apiCalls r ?rp = Some response \<longrightarrow> ?res = Inr response"
    by (simp add: ResolveAPICall_exact)
  have scan: "apiCalls r ?rp = None \<longrightarrow>
           (\<forall>pre p post response.
              patterns = pre @ p # post \<and>
              (\<forall>q \<in> set pre. \<not> accepts (placeholderTokens q) ?rp) \<and>
              accepts (placeholderTokens p) ?rp \<and> apiCalls r p = Some response \<longrightarrow>
              ?res = Inr response) \<and>
           (\<forall>p response.
              apiCalls r p = Some response \<and> accepts (placeholderTokens p) ?rp \<and>
              (\<forall>q \<in> dom (apiCalls r). accepts (placeholderTokens q) ?rp \<longrightarrow> q = p) \<longrightarrow>
              ?res = Inr response) \<and>
           ((\<forall>q \<in> dom (apiCalls r). \<not> accepts (placeholderTokens q) ?rp) \<longrightarrow>
              ?res = Inl (''no mock found for API call: '' @ ?rp))"
  proof
    assume none: "apiCalls r ?rp = None"
    then have res: "?res = scanPatterns (apiCalls r) patterns ?rp"
      by (rule ResolveAPICall_scan)
    have first: "?res = Inr response"
      if "patterns = pre @ p # post \<and>
              (\<forall>q \<in> set pre. \<not> accepts (placeholderTokens q) ?rp) \<and>
              accepts (placeholderTokens p) ?rp \<and> apiCalls r p = Some response"
      for pre p post response
    proof -
      from that have "scanPatterns (apiCalls r) (pre @ p # post) ?rp = Inr response"
        by (intro scanPatterns_first) (simp_all add: matchesPattern_accepts)
      with that res show ?thesis by simp
    qed
    have uniq: "?res = Inr response"
      if "apiCalls r p = Some response \<and> accepts (placeholderTokens p) ?rp \<and>
              (\<forall>q \<in> dom (apiCalls r). accepts (placeholderTokens q) ?rp \<longrightarrow> q = p)"
      for p response
    proof -
      from that ro have "p \<in> set patterns" by (auto simp: rangeOrder_def)
      moreover from that have "apiCalls r p = Some response" "matchesPattern p ?rp"
        by (simp_all add: matchesPattern_accepts)
      moreover have "q = p" if "q \<in> set patterns" "apiCalls r q \<noteq> None" "matchesPattern q ?rp" for q
        using that \<open>apiCalls r p = Some response \<and> _\<close> by (auto simp: matchesPattern_accepts)
      ultimately have "scanPatterns (apiCalls r) patterns ?rp = Inr response"
        by (rule scanPatterns_unique)
      with res show ?thesis by simp
    qed
    have nomatch: "?res = Inl (''no mock found for API call: '' @ ?rp)"
      if "\<forall>q \<in> dom (apiCalls r). \<not> accepts (placeholderTokens q) ?rp"
    proof -
      from that have "scanPatterns (apiCalls r) patterns ?rp =
          Inl (''no mock found for API call: '' @ ?rp)"
        by (intro scanPatterns_none) (auto simp: matchesPattern_accepts)
      with res show ?thesis by simp
    qed
    from first uniq nomatch show "(\<forall>pre p post response.
              patterns = pre @ p # post \<and>
              (\<forall>q \<in> set pre. \<not> accepts (placeholderTokens q) ?rp) \<and>
              accepts (placeholderTokens p) ?rp \<and> apiCalls r p = Some response \<longrightarrow>
              ?res = Inr response) \<and>
           (\<forall>p response.
              apiCalls r p = Some response \<and> accepts (placeholderTokens p) ?rp \<and>
              (\<forall>q \<in> dom (apiCalls r). accepts (placeholderTokens q) ?rp \<longrightarrow> q = p) \<longrightarrow>
              ?res = Inr response) \<and>
           ((\<forall>q \<in> dom (apiCalls r). \<not> accepts (placeholderTokens q) ?rp) \<longrightarrow>
              ?res = Inl (''no mock found for API call: '' @ ?rp))"
      by blast
  qed
  have dm: "dom (apiCalls (NewMockResolver cfg)) = URLPath ` set (APICallMocks cfg)"
    by (simp add: apiCalls_NewMockResolver dom_indexAPICalls)
  have lastwins: "\<forall>before mock later.
           APICallMocks cfg = before @ mock # later \<and> URLPath mock \<notin> URLPath ` set later \<longrightarrow>
           apiCalls (NewMockResolver cfg) (URLPath mock) = Some (Response mock)"
    by (simp add: apiCalls_NewMockResolver indexAPICalls_last)
  have ex1: "substituteVariables ''/api/v1/namespaces/{{namespace}}/configmaps''
          [(''namespace'', ''prod'')] = ''/api/v1/namespaces/prod/configmaps''"
    by simp
  have ex2: "apiCalls (NewMockResolver configmapsConfig) ''/api/v1/namespaces/prod/configmaps'' = None"
    by (simp add: NewMockResolver_def configmapsConfig_def)
  have ex3: "accepts (placeholderTokens ''/api/v1/namespaces/{{namespace}}/configmaps'')
          ''/api/v1/namespaces/prod/configmaps''"
    unfolding matchesPattern_accepts [symmetric]
    by (simp add: matchesPattern_def QuoteMeta_def metaChars_def backslash_def placeholderAt_def
      Compile_def Let_def)
  from sub every exact scan dm lastwins ex1 ex2 ex3 show ?thesis
    unfolding Let_def by (intro conjI)
qed

theorem C1_ResolveAPICall_witness:
  "rangeOrder (apiCalls (NewMockResolver configmapsConfig))
     [''/api/v1/namespaces/{{namespace}}/configmaps''] \<and>
   ResolveAPICall [''/api/v1/namespaces/{{namespace}}/configmaps'']
     (NewMockResolver configmapsConfig) ''/api/v1/namespaces/{{namespace}}/configmaps''
     [(''namespace'', ''prod'')] = Inr ''items'' \<and>
   rangeOrder (apiCalls (NewMockResolver overlappingConfig)) [''/{{y}}/b'', ''/a/{{x}}''] \<and>
   ResolveAPICall [''/{{y}}/b'', ''/a/{{x}}''] (NewMockResolver overlappingConfig) ''/a/b'' [] =
     Inr ''second'' \<and>
   ResolveAPICall [''/{{y}}/b'', ''/a/{{x}}''] (NewMockResolver overlappingConfig) ''/c/d'' [] =
     Inl ''no mock found for API call: /c/d''"
proof -
  let ?P = "''/api/v1/namespaces/{{namespace}}/configmaps''"
  have ro1: "rangeOrder (apiCalls (NewMockResolver configmapsConfig)) [?P]"
    by (simp add: rangeOrder_def apiCalls_configmapsConfig)
  have ro2: "rangeOrder (apiCalls (NewMockResolver overlappingConfig)) [''/{{y}}/b'', ''/a/{{x}}'']"
    by (auto simp: rangeOrder_def apiCalls_overlappingConfig)
  note i1 = C1_ResolveAPICall [where patterns = "[?P]" and urlPath = ?P
      and vars = "[(''namespace'', ''prod'')]" and cfg = emptyConfig, OF ro1, unfolded Let_def]
  note scan1 = i1 [THEN conjunct2, THEN conjunct2, THEN conjunct2, THEN conjunct1]
  have none1: "apiCalls (NewMockResolver configmapsConfig)
      (substituteVariables ?P [(''namespace'', ''prod'')]) = None"
    by (simp add: apiCalls_configmapsConfig)
  note uniq1 = scan1 [THEN mp, OF none1, THEN conjunct2, THEN conjunct1,
      THEN spec [of _ ?P], THEN spec [of _ "''items''"]]
  have acc1: "accepts (placeholderTokens ?P) (substituteVariables ?P [(''namespace'', ''prod'')])"
    unfolding matchesPattern_accepts [symmetric] substituteVariables_ex by (rule matchesPattern_ex3)
  have r1: "ResolveAPICall [?P] (NewMockResolver configmapsConfig) ?P [(''namespace'', ''prod'')] =
      Inr ''items''"
  proof (rule uniq1 [THEN mp], intro conjI)
    show "apiCalls (NewMockResolver configmapsConfig) ?P = Some ''items''"
      by (simp add: apiCalls_configmapsConfig)
    show "accepts (placeholderTokens ?P) (substituteVariables ?P [(''namespace'', ''prod'')])"
      by (rule acc1)
    show "\<forall>q \<in> dom (apiCalls (NewMockResolver configmapsConfig)).
        accepts (placeholderTokens q) (substituteVariables ?P [(''namespace'', ''prod'')]) \<longrightarrow> q = ?P"
      by (simp add: apiCalls_configmapsConfig)
  qed
  note i2 = C1_ResolveAPICall [where patterns = "[''/{{y}}/b'', ''/a/{{x}}'']"
      and urlPath = "''/a/b''" and vars = "[]" and cfg = emptyConfig, OF ro2, unfolded Let_def]
  note scan2 = i2 [THEN conjunct2, THEN conjunct2, THEN conjunct2, THEN conjunct1]
  have none2: "apiCalls (NewMockResolver overlappingConfig) (substituteVariables ''/a/b'' []) = None"
    by (simp add: apiCalls_overlappingConfig)
  note first2 = scan2 [THEN mp, OF none2, THEN conjunct1, THEN spec [of _ "[]"],
      THEN spec [of _ "''/{{y}}/b''"], THEN spec [of _ "[''/a/{{x}}'']"],
      THEN spec [of _ "''second''"]]
  have acc2: "accepts (placeholderTokens ''/{{y}}/b'') (substituteVariables ''/a/b'' [])"
    unfolding matchesPattern_accepts [symmetric] substituteVariables.simps by (rule matchesPattern_ex1)
  have r2: "ResolveAPICall [''/{{y}}/b'', ''/a/{{x}}''] (NewMockResolver overlappingConfig)
      ''/a/b'' [] = Inr ''second''"
  proof (rule first2 [THEN mp], intro conjI)
    show "[''/{{y}}/b'', ''/a/{{x}}''] = [] @ ''/{{y}}/b'' # [''/a/{{x}}'']"
      by simp
    show "\<forall>q \<in> set []. \<not> accepts (placeholderTokens q) (substituteVariables ''/a/b'' [])"
      by simp
    show "accepts (placeholderTokens ''/{{y}}/b'') (substituteVariables ''/a/b'' [])"
      by (rule acc2)
    show "apiCalls (NewMockResolver overlappingConfig) ''/{{y}}/b'' = Some ''second''"
      by (simp add: apiCalls_overlappingConfig)
  qed
  note i3 = C1_ResolveAPICall [where patterns = "[''/{{y}}/b'', ''/a/{{x}}'']"
      and urlPath = "''/c/d''" and vars = "[]" and cfg = emptyConfig, OF ro2, unfolded Let_def]
  note scan3 = i3 [THEN conjunct2, THEN conjunct2, THEN conjunct2, THEN conjunct1]
  have none3: "apiCalls (NewMockResolver overlappingConfig) (substituteVariables ''/c/d'' []) = None"
    by (simp add: apiCalls_overlappingConfig)
  note nomatch3 = scan3 [THEN mp, OF none3, THEN conjunct2, THEN conjunct2]
  have rej3: "\<forall>q \<in> dom (apiCalls (NewMockResolver overlappingConfig)).
      \<not> accepts (placeholderTokens q) (substituteVariables ''/c/d'' [])"
    unfolding matchesPattern_accepts [symmetric] substituteVariables.simps
    by (simp add: apiCalls_overlappingConfig matchesPattern_ex5 matchesPattern_ex6)
  have r3: "ResolveAPICall [''/{{y}}/b'', ''/a/{{x}}''] (NewMockResolver overlappingConfig)
      ''/c/d'' [] = Inl ''no mock found for API call: /c/d''"
    using nomatch3 [THEN mp, OF rej3] by simp
  from ro1 r1 ro2 r2 r3 show ?thesis by (intro conjI)
qed

text \<open>
  C9. \<open>ResolveGlobalContext\<close> returns a value exactly when the name is a key of
  \<open>globalCtx\<close>, that is the name of a configured mock, character for character, and the
  value is that of such a mock; for any other name, and for every name when no mock is
  configured, it returns the error \<open>no mock found for GlobalContextEntry\<close> with the name.
  \<open>ResolveAPICall\<close> returns a response only if it is registered for a pattern that is
  the resolved path or matches it; its only error is \<open>no mock found for API call\<close> with
  the resolved path, and it returns that error whenever no registered pattern is the
  resolved path or matches it, in particular when no mock is configured. A failed lookup
  is \<open>Inl\<close> with the error text, never a value.
\<close>

theorem C9_not_found:
  "(let resolvedPath = substituteVariables urlPath vars;
        apiResult = ResolveAPICall patterns r urlPath vars;
        notFound = ''no mock found for GlobalContextEntry: '' @ name
    in (\<forall>v. ResolveGlobalContext r name = Inr v \<longleftrightarrow> globalCtx r name = Some v) \<and>
       (globalCtx r name = None \<longrightarrow> ResolveGlobalContext r name = Inl notFound) \<and>
       (\<forall>v. ResolveGlobalContext (NewMockResolver cfg) name = Inr v \<longrightarrow>
          (\<exists>mock \<in> set (GlobalContextMocks cfg).
             GlobalContextMock.Name mock = name \<and> Value mock = v)) \<and>
       (name \<notin> GlobalContextMock.Name ` set (GlobalContextMocks cfg) \<longrightarrow>
          ResolveGlobalContext (NewMockResolver cfg) name = Inl notFound) \<and>
       (GlobalContextMocks cfg = [] \<longrightarrow>
          ResolveGlobalContext (NewMockResolver cfg) name = Inl notFound) \<and>
       (\<forall>response. apiResult = Inr response \<longrightarrow>
          (\<exists>p. apiCalls r p = Some response \<and> (p = resolvedPath \<or> matchesPattern p resolvedPath))) \<and>
       (\<forall>e. apiResult = Inl e \<longrightarrow> e = ''no mock found for API call: '' @ resolvedPath) \<and>
       ((\<forall>p \<in> dom (apiCalls r). p \<noteq> resolvedPath \<and> \<not> matchesPattern p resolvedPath) \<longrightarrow>
          apiResult = Inl (''no mock found for API call: '' @ resolvedPath)) \<and>
       (APICallMocks cfg = [] \<longrightarrow>
          ResolveAPICall patterns (NewMockResolver cfg) urlPath vars =
            Inl (''no mock found for API call: '' @ resolvedPath)))"
proof -
  let ?nf = "''no mock found for GlobalContextEntry: '' @ name"
  let ?rp = "substituteVariables urlPath vars"
  have g1: "\<forall>v. ResolveGlobalContext r name = Inr v \<longleftrightarrow> globalCtx r name = Some v"
    by (simp add: ResolveGlobalContext_def split: option.splits)
  have g2: "globalCtx r name = None \<longrightarrow> ResolveGlobalContext r name = Inl ?nf"
    by (simp add: ResolveGlobalContext_def)
  have g3: "\<forall>v. ResolveGlobalContext (NewMockResolver cfg) name = Inr v \<longrightarrow>
          (\<exists>mock \<in> set (GlobalContextMocks cfg).
             GlobalContextMock.Name mock = name \<and> Value mock = v)"
  proof (intro allI impI)
    fix v
    assume "ResolveGlobalContext (NewMockResolver cfg) name = Inr v"
    then have "indexGlobalContext (GlobalContextMocks cfg) Map.empty name = Some v"
      by (simp add: ResolveGlobalContext_def globalCtx_NewMockResolver split: option.splits)
    from indexGlobalContext_SomeD [OF this]
    show "\<exists>mock \<in> set (GlobalContextMocks cfg). GlobalContextMock.Name mock = name \<and> Value mock = v"
      by simp
  qed
  have g4: "name \<notin> GlobalContextMock.Name ` set (GlobalContextMocks cfg) \<longrightarrow>
          ResolveGlobalContext (NewMockResolver cfg) name = Inl ?nf"
  proof
    assume "name \<notin> GlobalContextMock.Name ` set (GlobalContextMocks cfg)"
    then have "name \<notin> dom (globalCtx (NewMockResolver cfg))"
      by (simp add: globalCtx_NewMockResolver dom_indexGlobalContext)
    then have "globalCtx (NewMockResolver cfg) name = None" by blast
    then show "ResolveGlobalContext (NewMockResolver cfg) name = Inl ?nf"
      by (simp add: ResolveGlobalContext_def)
  qed
  have g5: "GlobalContextMocks cfg = [] \<longrightarrow>
          ResolveGlobalContext (NewMockResolver cfg) name = Inl ?nf"
    by (simp add: ResolveGlobalContext_def globalCtx_NewMockResolver)
  have a1: "\<forall>response. ResolveAPICall patterns r urlPath vars = Inr response \<longrightarrow>
          (\<exists>p. apiCalls r p = Some response \<and> (p = ?rp \<or> matchesPattern p ?rp))"
    by (blast dest: ResolveAPICall_InrD)
  have a2: "\<forall>e. ResolveAPICall patterns r urlPath vars = Inl e \<longrightarrow>
          e = ''no mock found for API call: '' @ ?rp"
    by (blast dest: ResolveAPICall_InlD)
  have a3: "(\<forall>p \<in> dom (apiCalls r). p \<noteq> ?rp \<and> \<not> matchesPattern p ?rp) \<longrightarrow>
          ResolveAPICall patterns r urlPath vars = Inl (''no mock found for API call: '' @ ?rp)"
    by (blast intro: ResolveAPICall_no_match)
  have a4: "APICallMocks cfg = [] \<longrightarrow>
          ResolveAPICall patterns (NewMockResolver cfg) urlPath vars =
            Inl (''no mock found for API call: '' @ ?rp)"
  proof
    assume "APICallMocks cfg = []"
    then have "dom (apiCalls (NewMockResolver cfg)) = {}"
      by (simp add: apiCalls_NewMockResolver)
    then show "ResolveAPICall patterns (NewMockResolver cfg) urlPath vars =
            Inl (''no mock found for API call: '' @ ?rp)"
      by (intro ResolveAPICall_no_match) simp
  qed
  from g1 g2 g3 g4 g5 a1 a2 a3 a4 show ?thesis
    unfolding Let_def by (intro conjI)
qed

theorem C9_not_found_witness:
  "ResolveGlobalContext (NewMockResolver configmapsConfig) ''deployment'' =
     Inl ''no mock found for GlobalContextEntry: deployment'' \<and>
   ResolveGlobalContext (NewMockResolver emptyConfig) ''deployment-count'' =
     Inl ''no mock found for GlobalContextEntry: deployment-count'' \<and>
   ResolveAPICall [''/api/v1/namespaces/{{namespace}}/configmaps'']
     (NewMockResolver configmapsConfig) ''/api/v1/pods'' [] =
     Inl ''no mock found for API call: /api/v1/pods'' \<and>
   ResolveAPICall [] (NewMockResolver emptyConfig) ''/api/v1/pods'' [] =
     Inl ''no mock found for API call: /api/v1/pods''"
proof -
  let ?P = "''/api/v1/namespaces/{{namespace}}/configmaps''"
  note i1 = C9_not_found [where r = "NewMockResolver configmapsConfig" and cfg = configmapsConfig
      and name = "''deployment''" and patterns = "[?P]" and urlPath = "''/api/v1/pods''"
      and vars = "[]", unfolded Let_def]
  note g4 = i1 [THEN conjunct2, THEN conjunct2, THEN conjunct2, THEN conjunct1]
  note a3 = i1 [THEN conjunct2, THEN conjunct2, THEN conjunct2, THEN conjunct2, THEN conjunct2,
      THEN conjunct2, THEN conjunct2, THEN conjunct1]
  have h1: "''deployment'' \<notin> GlobalContextMock.Name ` set (GlobalContextMocks configmapsConfig)"
    by (simp add: configmapsConfig_def)
  have r1: "ResolveGlobalContext (NewMockResolver configmapsConfig) ''deployment'' =
     Inl ''no mock found for GlobalContextEntry: deployment''"
    using g4 [THEN mp, OF h1] by simp
  have h2: "\<forall>p \<in> dom (apiCalls (NewMockResolver configmapsConfig)).
      p \<noteq> substituteVariables ''/api/v1/pods'' [] \<and>
      \<not> matchesPattern p (substituteVariables ''/api/v1/pods'' [])"
    by (simp add: apiCalls_configmapsConfig matchesPattern_ex7)
  have r2: "ResolveAPICall [?P] (NewMockResolver configmapsConfig) ''/api/v1/pods'' [] =
     Inl ''no mock found for API call: /api/v1/pods''"
    using a3 [THEN mp, OF h2] by simp
  note i2 = C9_not_found [where r = "NewMockResolver emptyConfig" and cfg = emptyConfig
      and name = "''deployment-count''" and patterns = "[]" and urlPath = "''/api/v1/pods''"
      and vars = "[]", unfolded Let_def]
  note g5 = i2 [THEN conjunct2, THEN conjunct2, THEN conjunct2, THEN conjunct2, THEN conjunct1]
  note a4 = i2 [THEN conjunct2, THEN conjunct2, THEN conjunct2, THEN conjunct2, THEN conjunct2,
      THEN conjunct2, THEN conjunct2, THEN conjunct2]
  have e1: "GlobalContextMocks emptyConfig = []" and e2: "APICallMocks emptyConfig = []"
    by (simp_all add: emptyConfig_def)
  have r3: "ResolveGlobalContext (NewMockResolver emptyConfig) ''deployment-count'' =
     Inl ''no mock found for GlobalContextEntry: deployment-count''"
    using g5 [THEN mp, OF e1] by simp
  have r4: "ResolveAPICall [] (NewMockResolver emptyConfig) ''/api/v1/pods'' [] =
     Inl ''no mock found for API call: /api/v1/pods''"
    using a4 [THEN mp, OF e2] by simp
  from r1 r3 r2 r4 show ?thesis by (intro conjI)
qed

section \<open>Properties of the mock HTTP server\<close>

text \<open>\<open>matches\<close> decides the matching test, and changes a request at most by reading a failing body to its end.\<close>

lemma matches_fst: "fst (matches canon mock r) \<longleftrightarrow> matching canon mock r"
proof (cases "Request.Body r")
  case (Reader content err)
  then show ?thesis
    by (cases err)
       (auto simp: matches_def matching_def Let_def NopCloser_def NewReader_def
          split: option.splits)
qed

lemma matches_snd_good:
  "Request.Body r = Reader content None \<Longrightarrow> snd (matches canon mock r) = r"
  by (auto simp: matches_def Let_def NopCloser_def NewReader_def split: option.splits)

lemma matches_snd_cases:
  "snd (matches canon mock r) = r \<or>
   (\<exists>content e. Request.Body r = Reader content (Some e) \<and>
      snd (matches canon mock r) = r\<lparr>Request.Body := Reader [] (Some e)\<rparr>)"
proof (cases "Request.Body r")
  case (Reader content err)
  then show ?thesis
    by (cases err)
       (auto simp: matches_def Let_def NopCloser_def NewReader_def split: option.splits)
qed

lemma matching_consumed:
  "Request.Body r = Reader content (Some e) \<Longrightarrow>
   matching canon m (r\<lparr>Request.Body := Reader [] (Some e)\<rparr>) = matching canon m r"
  by (simp add: matching_def split: option.splits)

lemma matching_snd_matches:
  "matching canon m' (snd (matches canon m r)) = matching canon m' r"
  using matches_snd_cases [of canon m r] by (auto simp: matching_consumed)

lemma handler_first:
  "(\<And>m. m \<in> set pre \<Longrightarrow> \<not> matching canon m r) \<Longrightarrow> matching canon mock r \<Longrightarrow>
   fst (handler canon (pre @ mock # post) w r) = respond canon mock w"
proof (induction pre arbitrary: r)
  case Nil
  then have "fst (matches canon mock r)" by (simp add: matches_fst)
  then show ?case by (cases "matches canon mock r") auto
next
  case (Cons a pre)
  have "\<not> fst (matches canon a r)"
    using Cons.prems(1) [of a] by (simp add: matches_fst)
  then obtain r' where m: "matches canon a r = (False, r')"
    by (cases "matches canon a r") auto
  then have r': "r' = snd (matches canon a r)" by simp
  have "fst (handler canon (pre @ mock # post) w r') = respond canon mock w"
  proof (rule Cons.IH)
    show "\<not> matching canon m r'" if "m \<in> set pre" for m
      using Cons.prems(1) [of m] that unfolding r' matching_snd_matches by simp
    show "matching canon mock r'"
      using Cons.prems(2) unfolding r' matching_snd_matches .
  qed
  with m show ?case by simp
qed

lemma handler_none:
  "(\<And>m. m \<in> set ms \<Longrightarrow> \<not> matching canon m r) \<Longrightarrow>
   fst (handler canon ms w r) = Write (WriteHeader w StatusNotFound) notFoundBody"
proof (induction ms arbitrary: r)
  case Nil
  then show ?case by simp
next
  case (Cons a ms)
  have "\<not> fst (matches canon a r)"
    using Cons.prems [of a] by (simp add: matches_fst)
  then obtain r' where m: "matches canon a r = (False, r')"
    by (cases "matches canon a r") auto
  then have r': "r' = snd (matches canon a r)" by simp
  have "fst (handler canon ms w r') = Write (WriteHeader w StatusNotFound) notFoundBody"
  proof (rule Cons.IH)
    show "\<not> matching canon m r'" if "m \<in> set ms" for m
      using Cons.prems [of m] that unfolding r' matching_snd_matches by simp
  qed
  with m show ?case by simp
qed

lemma handler_snd_good:
  "Request.Body r = Reader content None \<Longrightarrow> snd (handler canon ms w r) = r"
proof (induction ms)
  case Nil
  then show ?case by simp
next
  case (Cons a ms)
  from Cons.prems have "snd (matches canon a r) = r" by (rule matches_snd_good)
  then obtain b where "matches canon a r = (b, r)" by (cases "matches canon a r") auto
  with Cons show ?case by (cases b) auto
qed

lemma fold_Header_Set_other:
  "K \<notin> canon ` fst ` set hs \<Longrightarrow>
   fold (\<lambda>(key, val) h. Header_Set canon h key val) hs h0 K = h0 K"
  by (induction hs arbitrary: h0) (auto simp: Header_Set_def)

lemma fold_Header_Set_last:
  "canon k \<notin> canon ` fst ` set later \<Longrightarrow>
   fold (\<lambda>(key, val) h. Header_Set canon h key val) (earlier @ (k, v) # later) h0 (canon k) =
     Some [v]"
proof -
  assume notin: "canon k \<notin> canon ` fst ` set later"
  let ?f = "\<lambda>(key, val) h. Header_Set canon h key val"
  have "fold ?f (earlier @ (k, v) # later) h0 =
        fold ?f later (Header_Set canon (fold ?f earlier h0) k v)"
    by simp
  moreover have "fold ?f later (Header_Set canon (fold ?f earlier h0) k v) (canon k) =
        Header_Set canon (fold ?f earlier h0) k v (canon k)"
    using notin by (rule fold_Header_Set_other)
  ultimately show ?thesis by (simp add: Header_Set_def)
qed

lemma respond_fresh:
  "WrittenStatus (respond canon mock newResponseWriter) =
     Some (if HTTPResponse.Status (HTTPCallMock.Response mock) = 0 then 200 else HTTPResponse.Status (HTTPCallMock.Response mock))"
  "WrittenBody (respond canon mock newResponseWriter) = HTTPResponse.Body (HTTPCallMock.Response mock)"
  "ResponseWriter.Header (respond canon mock newResponseWriter) =
     (let h = fold (\<lambda>(key, val) h. Header_Set canon h key val)
                (HTTPResponse.Headers (HTTPCallMock.Response mock)) Map.empty
      in if Header_Get canon h ''Content-Type'' = []
         then Header_Set canon h ''Content-Type'' ''application/json'' else h)"
  by (simp_all add: respond_def newResponseWriter_def WriteHeader_def Write_def Let_def StatusOK_def)

lemma notFound_fresh:
  "Write (WriteHeader newResponseWriter StatusNotFound) notFoundBody =
     \<lparr>ResponseWriter.Header = Map.empty, WrittenStatus = Some 404, WrittenBody = notFoundBody\<rparr>"
  by (simp add: newResponseWriter_def WriteHeader_def Write_def Let_def StatusNotFound_def)

text \<open>The examples.\<close>

lemma canon_examples:
  "CanonicalMIMEHeaderKey ''x-token'' = ''X-Token''"
  "CanonicalMIMEHeaderKey ''x-mock'' = ''X-Mock''"
  "CanonicalMIMEHeaderKey ''Content-Type'' = ''Content-Type''"
  "CanonicalMIMEHeaderKey ''content-type'' = ''Content-Type''"
  "CanonicalMIMEHeaderKey ''x token'' = ''x token''"
  by (simp_all add: CanonicalMIMEHeaderKey_def validHeaderFieldByte_def Let_def)

lemma matching_examples:
  "matching CanonicalMIMEHeaderKey createUserMock createUserRequest"
  "\<not> matching CanonicalMIMEHeaderKey createUserMock listItemsRequest"
  "matching CanonicalMIMEHeaderKey anyApiMock listItemsRequest"
  "\<not> matching CanonicalMIMEHeaderKey createUserMock healthRequest"
  "\<not> matching CanonicalMIMEHeaderKey anyApiMock healthRequest"
  by (simp_all add: matching_def createUserMock_def anyApiMock_def createUserRequest_def
      listItemsRequest_def healthRequest_def EqualFold_def ToLower_def Header_Get_def canon_examples)

lemma handler_examples:
  "fst (handler CanonicalMIMEHeaderKey [createUserMock, anyApiMock] newResponseWriter createUserRequest)
    = \<lparr>ResponseWriter.Header = [''X-Mock'' \<mapsto> [''1''], ''Content-Type'' \<mapsto> [''application/json'']],
       WrittenStatus = Some 201, WrittenBody = ''created''\<rparr>"
  by (simp add: matches_def respond_def createUserMock_def anyApiMock_def createUserRequest_def
      EqualFold_def ToLower_def Header_Get_def Header_Set_def canon_examples newResponseWriter_def
      WriteHeader_def Write_def Let_def NopCloser_def NewReader_def StatusOK_def)

lemma respond_examples:
  "respond CanonicalMIMEHeaderKey createUserMock newResponseWriter =
     \<lparr>ResponseWriter.Header = [''X-Mock'' \<mapsto> [''1''], ''Content-Type'' \<mapsto> [''application/json'']],
      WrittenStatus = Some 201, WrittenBody = ''created''\<rparr>"
  "respond CanonicalMIMEHeaderKey anyApiMock newResponseWriter =
     \<lparr>ResponseWriter.Header = [''Content-Type'' \<mapsto> [''application/json'']],
      WrittenStatus = Some 200, WrittenBody = ''{}''\<rparr>"
  by (simp_all add: respond_def createUserMock_def anyApiMock_def Header_Get_def Header_Set_def
      canon_examples newResponseWriter_def WriteHeader_def Write_def Let_def StatusOK_def)

text \<open>The headers of the answer.\<close>

lemma respond_default_content_type:
  assumes "canon ''Content-Type'' \<notin> canon ` fst ` set (HTTPResponse.Headers (HTTPCallMock.Response mock))"
  shows "Header_Get canon (ResponseWriter.Header (respond canon mock newResponseWriter))
           ''Content-Type'' = ''application/json''"
proof -
  let ?h = "fold (\<lambda>(key, val) h. Header_Set canon h key val)
              (HTTPResponse.Headers (HTTPCallMock.Response mock)) Map.empty"
  from assms have "?h (canon ''Content-Type'') = None"
    by (simp add: fold_Header_Set_other)
  then have "Header_Get canon ?h ''Content-Type'' = []"
    by (simp add: Header_Get_def)
  then show ?thesis
    by (simp add: respond_fresh(3) Let_def Header_Get_def Header_Set_def)
qed

lemma respond_configured_header:
  assumes cfg: "HTTPResponse.Headers (HTTPCallMock.Response mock) = earlier @ (k, v) # later"
    and last: "canon k \<notin> canon ` fst ` set later"
    and ne: "v \<noteq> [] \<or> canon k \<noteq> canon ''Content-Type''"
  shows "Header_Get canon (ResponseWriter.Header (respond canon mock newResponseWriter)) k = v"
proof -
  let ?h = "fold (\<lambda>(key, val) h. Header_Set canon h key val)
              (HTTPResponse.Headers (HTTPCallMock.Response mock)) Map.empty"
  have hk: "?h (canon k) = Some [v]"
    unfolding cfg using last by (rule fold_Header_Set_last)
  then have get: "Header_Get canon ?h k = v"
    by (simp add: Header_Get_def)
  show ?thesis
  proof (cases "canon k = canon ''Content-Type''")
    case True
    with ne have "v \<noteq> []" by simp
    with hk True have "Header_Get canon ?h ''Content-Type'' \<noteq> []"
      by (simp add: Header_Get_def)
    with get show ?thesis
      by (simp add: respond_fresh(3) Let_def)
  next
    case False
    with hk show ?thesis
      by (simp add: respond_fresh(3) Let_def Header_Get_def Header_Set_def)
  qed
qed

text \<open>
  C6. For every request handed to the handler with a new response writer, every list of
  mocks and every canonical form of header names: \<open>matches\<close> accepts a mock exactly when
  the method is equal up to case (if the mock names a method), the full URL of the
  request contains the URL of the mock or the URL of the mock contains the full URL or
  the path of the request contains the URL of the mock, every header of the request
  matcher has the given value in the request and, if the matcher has a body pattern, the
  body can be read and contains the pattern; a body that can be read is the same after
  the test and after the handler. The answer is that of the first mock of the list that
  matches: the status is the configured one, or 200 when that is zero; the body is the
  configured body; the headers are the configured headers, set one after the other, and
  then \<open>Content-Type\<close> is \<open>application/json\<close> if its value is empty at that point, in
  particular if no configured header has that name; a configured header that is the
  last of its canonical name has its value in the answer (unless it is an empty
  \<open>Content-Type\<close>, which the default replaces). If no mock matches, the answer has
  status 404, the fixed body \<open>notFoundBody\<close> and no header.
\<close>

theorem C6_handler:
  "(let answer = fst (handler canon mocks newResponseWriter r);
        after = snd (handler canon mocks newResponseWriter r)
    in (\<forall>mock. fst (matches canon mock r) = matching canon mock r) \<and>
       (\<forall>mock body. Request.Body r = Reader body None \<longrightarrow> snd (matches canon mock r) = r) \<and>
       (\<forall>body. Request.Body r = Reader body None \<longrightarrow> after = r) \<and>
       (\<forall>pre mock post.
          mocks = pre @ mock # post \<and> (\<forall>m \<in> set pre. \<not> matching canon m r) \<and>
          matching canon mock r \<longrightarrow>
          (let response = HTTPCallMock.Response mock;
               h = fold (\<lambda>(key, val) h. Header_Set canon h key val)
                     (HTTPResponse.Headers response) Map.empty
           in answer = respond canon mock newResponseWriter \<and>
              WrittenStatus answer =
                Some (if HTTPResponse.Status response = 0 then 200
                      else HTTPResponse.Status response) \<and>
              WrittenBody answer = HTTPResponse.Body response \<and>
              ResponseWriter.Header answer =
                (if Header_Get canon h ''Content-Type'' = []
                 then Header_Set canon h ''Content-Type'' ''application/json'' else h) \<and>
              (canon ''Content-Type'' \<notin> canon ` fst ` set (HTTPResponse.Headers response) \<longrightarrow>
                 Header_Get canon (ResponseWriter.Header answer) ''Content-Type'' =
                   ''application/json'') \<and>
              (\<forall>earlier k v later.
                 HTTPResponse.Headers response = earlier @ (k, v) # later \<and>
                 canon k \<notin> canon ` fst ` set later \<and>
                 (v \<noteq> [] \<or> canon k \<noteq> canon ''Content-Type'') \<longrightarrow>
                 Header_Get canon (ResponseWriter.Header answer) k = v))) \<and>
       ((\<forall>m \<in> set mocks. \<not> matching canon m r) \<longrightarrow>
          answer = \<lparr>ResponseWriter.Header = Map.empty, WrittenStatus = Some 404,
                    WrittenBody = notFoundBody\<rparr>))"
proof -
  let ?answer = "fst (handler canon mocks newResponseWriter r)"
  let ?after = "snd (handler canon mocks newResponseWriter r)"
  have m: "\<forall>mock. fst (matches canon mock r) = matching canon mock r"
    by (simp add: matches_fst)
  have restored: "\<forall>mock body. Request.Body r = Reader body None \<longrightarrow> snd (matches canon mock r) = r"
    by (simp add: matches_snd_good)
  have after: "\<forall>body. Request.Body r = Reader body None \<longrightarrow> ?after = r"
    by (simp add: handler_snd_good)
  have first: "\<forall>pre mock post.
          mocks = pre @ mock # post \<and> (\<forall>m \<in> set pre. \<not> matching canon m r) \<and>
          matching canon mock r \<longrightarrow>
          (let response = HTTPCallMock.Response mock;
               h = fold (\<lambda>(key, val) h. Header_Set canon h key val)
                     (HTTPResponse.Headers response) Map.empty
           in ?answer = respond canon mock newResponseWriter \<and>
              WrittenStatus ?answer =
                Some (if HTTPResponse.Status response = 0 then 200
                      else HTTPResponse.Status response) \<and>
              WrittenBody ?answer = HTTPResponse.Body response \<and>
              ResponseWriter.Header ?answer =
                (if Header_Get canon h ''Content-Type'' = []
                 then Header_Set canon h ''Content-Type'' ''application/json'' else h) \<and>
              (canon ''Content-Type'' \<notin> canon ` fst ` set (HTTPResponse.Headers response) \<longrightarrow>
                 Header_Get canon (ResponseWriter.Header ?answer) ''Content-Type'' =
                   ''application/json'') \<and>
              (\<forall>earlier k v later.
                 HTTPResponse.Headers response = earlier @ (k, v) # later \<and>
                 canon k \<notin> canon ` fst ` set later \<and>
                 (v \<noteq> [] \<or> canon k \<noteq> canon ''Content-Type'') \<longrightarrow>
                 Header_Get canon (ResponseWriter.Header ?answer) k = v))"
  proof (intro allI impI)
    fix pre mock post
    assume a: "mocks = pre @ mock # post \<and> (\<forall>m \<in> set pre. \<not> matching canon m r) \<and>
          matching canon mock r"
    then have "fst (handler canon (pre @ mock # post) newResponseWriter r) =
        respond canon mock newResponseWriter"
      by (intro handler_first) simp_all
    with a have ans: "?answer = respond canon mock newResponseWriter" by simp
    have hdr: "ResponseWriter.Header (respond canon mock newResponseWriter) =
        (if Header_Get canon (fold (\<lambda>(key, val) h. Header_Set canon h key val)
               (HTTPResponse.Headers (HTTPCallMock.Response mock)) Map.empty) ''Content-Type'' = []
         then Header_Set canon (fold (\<lambda>(key, val) h. Header_Set canon h key val)
               (HTTPResponse.Headers (HTTPCallMock.Response mock)) Map.empty)
               ''Content-Type'' ''application/json''
         else fold (\<lambda>(key, val) h. Header_Set canon h key val)
               (HTTPResponse.Headers (HTTPCallMock.Response mock)) Map.empty)"
      by (simp add: respond_fresh(3) Let_def)
    have dflt: "canon ''Content-Type'' \<notin>
          canon ` fst ` set (HTTPResponse.Headers (HTTPCallMock.Response mock)) \<longrightarrow>
        Header_Get canon (ResponseWriter.Header (respond canon mock newResponseWriter))
          ''Content-Type'' = ''application/json''"
      by (blast intro: respond_default_content_type)
    have conf: "\<forall>earlier k v later.
        HTTPResponse.Headers (HTTPCallMock.Response mock) = earlier @ (k, v) # later \<and>
        canon k \<notin> canon ` fst ` set later \<and>
        (v \<noteq> [] \<or> canon k \<noteq> canon ''Content-Type'') \<longrightarrow>
        Header_Get canon (ResponseWriter.Header (respond canon mock newResponseWriter)) k = v"
      by (blast intro: respond_configured_header)
    show "(let response = HTTPCallMock.Response mock;
               h = fold (\<lambda>(key, val) h. Header_Set canon h key val)
                     (HTTPResponse.Headers response) Map.empty
           in ?answer = respond canon mock newResponseWriter \<and>
              WrittenStatus ?answer =
                Some (if HTTPResponse.Status response = 0 then 200
                      else HTTPResponse.Status response) \<and>
              WrittenBody ?answer = HTTPResponse.Body response \<and>
              ResponseWriter.Header ?answer =
                (if Header_Get canon h ''Content-Type'' = []
                 then Header_Set canon h ''Content-Type'' ''application/json'' else h) \<and>
              (canon ''Content-Type'' \<notin> canon ` fst ` set (HTTPResponse.Headers response) \<longrightarrow>
                 Header_Get canon (ResponseWriter.Header ?answer) ''Content-Type'' =
                   ''application/json'') \<and>
              (\<forall>earlier k v later.
                 HTTPResponse.Headers response = earlier @ (k, v) # later \<and>
                 canon k \<notin> canon ` fst ` set later \<and>
                 (v \<noteq> [] \<or> canon k \<noteq> canon ''Content-Type'') \<longrightarrow>
                 Header_Get canon (ResponseWriter.Header ?answer) k = v))"
      unfolding Let_def ans
      using refl [of "respond canon mock newResponseWriter"] respond_fresh(1,2) [of canon mock]
        hdr dflt conf
      by (intro conjI)
  qed
  have none: "(\<forall>m \<in> set mocks. \<not> matching canon m r) \<longrightarrow>
          ?answer = \<lparr>ResponseWriter.Header = Map.empty, WrittenStatus = Some 404,
                    WrittenBody = notFoundBody\<rparr>"
  proof
    assume "\<forall>m \<in> set mocks. \<not> matching canon m r"
    then have "?answer = Write (WriteHeader newResponseWriter StatusNotFound) notFoundBody"
      by (intro handler_none) simp
    then show "?answer = \<lparr>ResponseWriter.Header = Map.empty, WrittenStatus = Some 404,
                    WrittenBody = notFoundBody\<rparr>"
      by (simp add: notFound_fresh)
  qed
  from m restored after first none show ?thesis
    unfolding Let_def by (intro conjI)
qed

theorem C6_handler_witness:
  "matching CanonicalMIMEHeaderKey createUserMock createUserRequest \<and>
   handler CanonicalMIMEHeaderKey [createUserMock, anyApiMock] newResponseWriter createUserRequest =
     (\<lparr>ResponseWriter.Header =
         [''X-Mock'' \<mapsto> [''1''], ''Content-Type'' \<mapsto> [''application/json'']],
       WrittenStatus = Some 201, WrittenBody = ''created''\<rparr>, createUserRequest) \<and>
   \<not> matching CanonicalMIMEHeaderKey createUserMock listItemsRequest \<and>
   matching CanonicalMIMEHeaderKey anyApiMock listItemsRequest \<and>
   fst (handler CanonicalMIMEHeaderKey [createUserMock, anyApiMock] newResponseWriter
          listItemsRequest) =
     \<lparr>ResponseWriter.Header = [''Content-Type'' \<mapsto> [''application/json'']],
      WrittenStatus = Some 200, WrittenBody = ''{}''\<rparr> \<and>
   fst (handler CanonicalMIMEHeaderKey [createUserMock, anyApiMock] newResponseWriter
          healthRequest) =
     \<lparr>ResponseWriter.Header = Map.empty, WrittenStatus = Some 404, WrittenBody = notFoundBody\<rparr>"
proof -
  let ?C = CanonicalMIMEHeaderKey
  let ?ms = "[createUserMock, anyApiMock]"
  note i1 = C6_handler [where canon = ?C and mocks = ?ms and r = createUserRequest,
      unfolded Let_def]
  note after1 = i1 [THEN conjunct2, THEN conjunct2, THEN conjunct1,
      THEN spec [of _ "''name=alice''"], THEN mp]
  note first1 = i1 [THEN conjunct2, THEN conjunct2, THEN conjunct2, THEN conjunct1,
      THEN spec [of _ "[]"], THEN spec [of _ createUserMock], THEN spec [of _ "[anyApiMock]"],
      THEN mp, THEN conjunct1]
  have b1: "Request.Body createUserRequest = Reader ''name=alice'' None"
    by (simp add: createUserRequest_def)
  have h1: "?ms = [] @ createUserMock # [anyApiMock] \<and>
      (\<forall>m \<in> set []. \<not> matching ?C m createUserRequest) \<and>
      matching ?C createUserMock createUserRequest"
    by (simp add: matching_examples)
  have r1: "handler ?C ?ms newResponseWriter createUserRequest =
     (\<lparr>ResponseWriter.Header =
         [''X-Mock'' \<mapsto> [''1''], ''Content-Type'' \<mapsto> [''application/json'']],
       WrittenStatus = Some 201, WrittenBody = ''created''\<rparr>, createUserRequest)"
    using first1 [OF h1] after1 [OF b1]
    by (simp only: respond_examples prod_eq_iff fst_conv snd_conv)
  note i2 = C6_handler [where canon = ?C and mocks = ?ms and r = listItemsRequest,
      unfolded Let_def]
  note first2 = i2 [THEN conjunct2, THEN conjunct2, THEN conjunct2, THEN conjunct1,
      THEN spec [of _ "[createUserMock]"], THEN spec [of _ anyApiMock], THEN spec [of _ "[]"],
      THEN mp, THEN conjunct1]
  have h2: "?ms = [createUserMock] @ anyApiMock # [] \<and>
      (\<forall>m \<in> set [createUserMock]. \<not> matching ?C m listItemsRequest) \<and>
      matching ?C anyApiMock listItemsRequest"
    by (simp add: matching_examples)
  have r2: "fst (handler ?C ?ms newResponseWriter listItemsRequest) =
     \<lparr>ResponseWriter.Header = [''Content-Type'' \<mapsto> [''application/json'']],
      WrittenStatus = Some 200, WrittenBody = ''{}''\<rparr>"
    using first2 [OF h2] by (simp only: respond_examples)
  note i3 = C6_handler [where canon = ?C and mocks = ?ms and r = healthRequest,
      unfolded Let_def]
  note none3 = i3 [THEN conjunct2, THEN conjunct2, THEN conjunct2, THEN conjunct2, THEN mp]
  have h3: "\<forall>m \<in> set ?ms. \<not> matching ?C m healthRequest"
    by (simp add: matching_examples)
  from matching_examples(1) r1 matching_examples(2,3) r2 none3 [OF h3]
  show ?thesis by (intro conjI)
qed

end
